(* ===== verification/Prelude.thy ===== *)
theory Prelude
  imports Main
begin

text \<open>
  Shared vocabulary of the development. A Python \<open>str\<close> is a sequence of Unicode
  code points, so a string of the program is modelled as a list of natural numbers
  (\<open>ustr\<close>), not as an Isabelle \<open>string\<close> (whose characters are bytes). ASCII
  literals of the source are written \<open>ascii ''...''\<close>; code points beyond ASCII are
  written as numbers. A pandas cell is a string, an integer or the missing value
  \<open>NaN\<close>. The collection \<open>cp_class_defs\<close> gathers the definitions of the
  character classes, so that concrete inputs evaluate with \<open>simp add: cp_class_defs\<close>.
\<close>

named_theorems cp_class_defs "definitions of code point classes and tables"

type_synonym cp = nat
type_synonym ustr = "cp list"

definition ascii :: "string \<Rightarrow> ustr" where
  "ascii s = map of_char s"

declare ascii_def [simp]

text \<open>A cell of a pandas column: \<open>str\<close>, \<open>int\<close>, or \<open>NaN\<close> for a missing entry.\<close>

datatype cell = CStr ustr | CInt int | CNaN

text \<open>Decimal digits of a natural number, most significant first (Python \<open>str(n)\<close>).\<close>

fun dec_digits :: "nat \<Rightarrow> ustr" where
  "dec_digits n = (if n < 10 then [48 + n] else dec_digits (n div 10) @ [48 + n mod 10])"

declare dec_digits.simps [simp del]

text \<open>Python \<open>str(i)\<close> on an \<open>int\<close>.\<close>

definition py_str_int :: "int \<Rightarrow> ustr" where
  "py_str_int i = (if i < 0 then 45 # dec_digits (nat (- i)) else dec_digits (nat i))"

text \<open>Python \<open>str(x)\<close> on a cell: a string is itself, \<open>NaN\<close> prints as \<open>nan\<close>.\<close>

fun py_str :: "cell \<Rightarrow> ustr" where
  "py_str (CStr s) = s"
| "py_str (CInt i) = py_str_int i"
| "py_str CNaN = ascii ''nan''"

text \<open>
  The exceptions the script can raise, as the left value of a result: the
  \<open>ValueError\<close> of line 41 with the boundary file's columns, a pandas
  \<open>KeyError\<close> with the missing column, and the \<open>ValueError\<close> of \<open>int()\<close> on
  line 88 with the cell it could not convert, and the exception of the I/O library
  for an input file that does not exist (\<open>gpd.read_file\<close> on line 32,
  \<open>pd.read_csv\<close> on line 52), with its path.
\<close>

datatype script_error = ValueError "ustr list" | KeyError ustr | IntValueError cell | NoSuchFile ustr

text \<open>
  A loop whose body may raise: the state is threaded through the elements in order and
  the first exception ends the loop.
\<close>

fun fold_result :: "('s \<Rightarrow> 'a \<Rightarrow> 'e + 's) \<Rightarrow> 's \<Rightarrow> 'a list \<Rightarrow> 'e + 's" where
  "fold_result f s [] = Inr s"
| "fold_result f s (x # xs) = (case f s x of Inl e \<Rightarrow> Inl e | Inr s' \<Rightarrow> fold_result f s' xs)"

subsection \<open>Generic list lemmas shared by the components\<close>

lemma fold_result_append:
  "fold_result f s (xs @ ys) = (case fold_result f s xs of Inl e \<Rightarrow> Inl e | Inr s' \<Rightarrow> fold_result f s' ys)"
  by (induction xs arbitrary: s) (simp_all split: sum.split)

lemma dec_digits_nonempty [simp]: "dec_digits n \<noteq> []"
  by (subst dec_digits.simps) simp

lemma dec_digits_range: "c \<in> set (dec_digits n) \<Longrightarrow> 48 \<le> c \<and> c \<le> 57"
proof (induction n rule: dec_digits.induct)
  case (1 n)
  then show ?case
    by (cases "n < 10") (auto simp: dec_digits.simps [of n])
qed

lemma hd_concat_map: "xs \<noteq> [] \<Longrightarrow> (\<And>x. f x \<noteq> []) \<Longrightarrow> hd (concat (map f xs)) = hd (f (hd xs))"
  by (cases xs) auto


lemma last_concat_map: "xs \<noteq> [] \<Longrightarrow> (\<And>x. f x \<noteq> []) \<Longrightarrow> last (concat (map f xs)) = last (f (last xs))"
  by (induction xs) auto


lemma last_dropWhile: "xs \<noteq> [] \<Longrightarrow> \<not> P (last xs) \<Longrightarrow> dropWhile P xs \<noteq> [] \<and> last (dropWhile P xs) = last xs"
  by (induction xs) auto


lemma trim_end_prefix: "xs = rev (dropWhile P (rev xs)) @ rev (takeWhile P (rev xs))"
  by (metis rev_append rev_rev_ident takeWhile_dropWhile_id)


lemma dropWhile_hd_id: "\<not> P (hd xs) \<Longrightarrow> dropWhile P xs = xs"
  by (cases xs) auto


end
