(* ===== verification/Normalize.thy ===== *)
theory Normalize
  imports Prelude
begin

text \<open>
  The name normaliser, \<open>normalize\<close> of \<^verbatim>\<open>src/main.py\<close> (lines 17--24):
  \<^verbatim>\<open>
  if not isinstance(name, str): return ""
  s = name.strip().casefold()
  s = s.replace(A_UML, "a").replace(O_UML, "o").replace(A_RING, "a")
  s = re.sub(r"\s+", " ", s)
  \<close>
  Each Python step is one definition: \<open>py_strip\<close> (\<open>str.strip\<close>), \<open>casefold\<close>
  (\<open>str.casefold\<close> through the per-character table \<open>casefold_char\<close>),
  \<open>replace_char\<close> (\<open>str.replace\<close> with a one-character pattern; \<open>A_UML\<close>,
  \<open>O_UML\<close>, \<open>A_RING\<close> stand for the literals U+00E4, U+00F6, U+00E5), and
  \<open>re_sub_ws\<close> (\<open>re.sub(r"\s+", " ", _)\<close>). The whitespace class \<open>is_space\<close> is
  Python's \<open>str.isspace\<close>, which is also what \<open>\s\<close> matches in a \<open>str\<close> pattern.
  The case-folding table is exact on Basic Latin, Latin-1 and Latin Extended-A
  (U+0000--U+017F, which covers Finnish and Swedish names) and the identity beyond.
  The theory proves that every key the normaliser produces is in a normal form
  (\<open>normal_key\<close>), that the normaliser leaves normal keys unchanged, hence that it
  is idempotent, and that it ignores case, the three Nordic diacritics and the layout of
  whitespace.
\<close>

section \<open>Character classes\<close>

text \<open>\<open>str.isspace\<close>: the characters of bidirectional class WS, B or S, or of category Zs.\<close>

definition is_space :: "cp \<Rightarrow> bool" where
  [cp_class_defs]: "is_space c \<longleftrightarrow>
     (9 \<le> c \<and> c \<le> 13) \<or> (28 \<le> c \<and> c \<le> 32) \<or> c = 133 \<or> c = 160 \<or> c = 5760 \<or>
     (8192 \<le> c \<and> c \<le> 8202) \<or> c = 8232 \<or> c = 8233 \<or> c = 8239 \<or> c = 8287 \<or> c = 12288"

text \<open>
  Full case folding (CaseFolding.txt, status C and F) on U+0000--U+017F: ASCII and
  Latin-1 capitals to small letters, the micro sign U+00B5 to Greek mu, sharp s to \<open>ss\<close>, the
  alternating pairs of Latin Extended-A, dotted capital I to \<open>i\<close> and a combining dot,
  U+0149 (n preceded by apostrophe) to an apostrophe and \<open>n\<close>, long s to \<open>s\<close>.
\<close>

definition casefold_char :: "cp \<Rightarrow> ustr" where
  [cp_class_defs]: "casefold_char c =
     (if 65 \<le> c \<and> c \<le> 90 then [c + 32]
      else if c = 181 then [956]
      else if 192 \<le> c \<and> c \<le> 222 \<and> c \<noteq> 215 then [c + 32]
      else if c = 223 then [115, 115]
      else if 256 \<le> c \<and> c \<le> 311 \<and> even c \<and> c \<noteq> 304 then [c + 1]
      else if c = 304 then [105, 775]
      else if 313 \<le> c \<and> c \<le> 328 \<and> odd c then [c + 1]
      else if c = 329 then [700, 110]
      else if 330 \<le> c \<and> c \<le> 375 \<and> even c then [c + 1]
      else if c = 376 then [255]
      else if 377 \<le> c \<and> c \<le> 382 \<and> odd c then [c + 1]
      else if c = 383 then [115]
      else [c])"

section \<open>The steps of the normaliser\<close>

text \<open>\<open>str.strip()\<close>: drop leading and trailing whitespace.\<close>

definition py_strip :: "ustr \<Rightarrow> ustr" where
  "py_strip s = rev (dropWhile is_space (rev (dropWhile is_space s)))"

text \<open>\<open>str.casefold()\<close>: each code point folds to one or more code points.\<close>

definition casefold :: "ustr \<Rightarrow> ustr" where
  "casefold s = concat (map casefold_char s)"

text \<open>\<open>str.replace(a, b)\<close> with one-character \<open>a\<close> and \<open>b\<close>.\<close>

definition replace_char :: "cp \<Rightarrow> cp \<Rightarrow> ustr \<Rightarrow> ustr" where
  "replace_char a b s = map (\<lambda>c. if c = a then b else c) s"

text \<open>The three replacements of line 22, in the order the code applies them.\<close>

definition scandi_fold :: "ustr \<Rightarrow> ustr" where
  "scandi_fold s = replace_char 229 97 (replace_char 246 111 (replace_char 228 97 s))"

text \<open>
  \<open>re.sub(r"\s+", " ", s)\<close>: the regular expression matches leftmost and greedily,
  so each maximal run of whitespace becomes one space.
\<close>

function (domintros) re_sub_ws :: "ustr \<Rightarrow> ustr" where
  "re_sub_ws [] = []"
| "re_sub_ws (c # cs) =
     (if is_space c then 32 # re_sub_ws (dropWhile is_space cs) else c # re_sub_ws cs)"
  by pat_completeness auto
termination
  by (relation "measure length") (auto simp: le_imp_less_Suc length_dropWhile_le)

definition normalize_str :: "ustr \<Rightarrow> ustr" where
  "normalize_str s = re_sub_ws (scandi_fold (casefold (py_strip s)))"

text \<open>The whole function: anything that is not a \<open>str\<close> becomes the empty key.\<close>

fun normalize :: "cell \<Rightarrow> ustr" where
  "normalize (CStr s) = normalize_str s"
| "normalize (CInt i) = []"
| "normalize CNaN = []"

section \<open>Normal keys\<close>

text \<open>
  A character that may occur in a key: already case-folded, not one of U+00E4, U+00F6,
  U+00E5, and, if whitespace, the plain space.
\<close>

definition key_char :: "cp \<Rightarrow> bool" where
  "key_char c \<longleftrightarrow> casefold_char c = [c] \<and> c \<noteq> 228 \<and> c \<noteq> 246 \<and> c \<noteq> 229 \<and>
     (if is_space c then c = 32 else True)"

fun no_adj_space :: "ustr \<Rightarrow> bool" where
  "no_adj_space (a # b # r) = (\<not> (a = 32 \<and> b = 32) \<and> no_adj_space (b # r))"
| "no_adj_space _ = True"

definition edge_ok :: "ustr \<Rightarrow> bool" where
  "edge_ok s = (case s of [] \<Rightarrow> True | c # _ \<Rightarrow> c \<noteq> 32 \<and> last s \<noteq> 32)"

text \<open>
  The one-pass form of the three replacements of line 22 (proved equal to
  \<open>scandi_fold\<close> below).
\<close>

definition scandi_char :: "cp \<Rightarrow> cp" where
  [cp_class_defs]: "scandi_char c = (if c = 228 then 97 else if c = 246 then 111 else if c = 229 then 97 else c)"

text \<open>
  What the case-folding table guarantees of one code point: it folds to at least one
  code point, each of them already folded and whitespace only if the input was, and
  whitespace folds to itself. Checked exhaustively below U+0180.
\<close>

definition cf_ok :: "cp \<Rightarrow> bool" where
  "cf_ok c \<longleftrightarrow> casefold_char c \<noteq> [] \<and> (if is_space c then casefold_char c = [c] else True) \<and>
     list_all (\<lambda>d. casefold_char d = [d] \<and> (if is_space d then d = c else True)) (casefold_char c)"

definition normal_key :: "ustr \<Rightarrow> bool" where
  "normal_key s \<longleftrightarrow> list_all key_char s \<and> edge_ok s \<and> no_adj_space s"

text \<open>
  Two character maps used to state what the normaliser ignores (they are not part of
  the program): \<open>latin_upper\<close> capitalises the ASCII and Latin-1 letters that have a
  one-letter capital, as \<open>str.upper\<close> does; \<open>strip_nordic\<close> writes the Nordic letters
  without their diacritics.
\<close>

definition latin_upper :: "cp \<Rightarrow> cp" where
  "latin_upper c =
     (if 97 \<le> c \<and> c \<le> 122 then c - 32
      else if 224 \<le> c \<and> c \<le> 254 \<and> c \<noteq> 247 then c - 32
      else if c = 255 then 376 else c)"
definition strip_nordic :: "cp \<Rightarrow> cp" where
  "strip_nordic c =
     (if c = 228 \<or> c = 229 then 97 else if c = 246 then 111
      else if c = 196 \<or> c = 197 then 65 else if c = 214 then 79 else c)"

section \<open>Properties of the normaliser\<close>

lemma casefold_char_high: "383 < c \<Longrightarrow> casefold_char c = [c]"
  by (simp add: casefold_char_def)

lemma cf_ok_low: "\<forall>c \<in> {..<384}. cf_ok c"
  by (simp add: lessThan_nat_numeral cf_ok_def casefold_char_def is_space_def)

lemma cf_ok_all: "cf_ok c"
proof (cases "c < 384")
  case True
  then show ?thesis using cf_ok_low by simp
next
  case False
  then show ?thesis by (simp add: cf_ok_def casefold_char_high)
qed

lemma casefold_char_nonempty [simp]: "casefold_char c \<noteq> []"
  using cf_ok_all [of c] by (simp add: cf_ok_def)

lemma casefold_char_fixed: "d \<in> set (casefold_char c) \<Longrightarrow> casefold_char d = [d]"
  using cf_ok_all [of c] by (simp add: cf_ok_def list_all_iff)

lemma casefold_char_space_out: "d \<in> set (casefold_char c) \<Longrightarrow> is_space d \<Longrightarrow> d = c"
  using cf_ok_all [of c] by (auto simp: cf_ok_def list_all_iff)

lemma casefold_char_space_in: "is_space c \<Longrightarrow> casefold_char c = [c]"
  using cf_ok_all [of c] by (simp add: cf_ok_def)

lemma scandi_fold_map: "scandi_fold s = map scandi_char s"
  by (simp add: scandi_fold_def replace_char_def scandi_char_def)

lemma is_space_scandi_char [simp]: "is_space (scandi_char c) = is_space c"
  by (simp add: scandi_char_def is_space_def)

lemma scandi_char_fixed: "casefold_char d = [d] \<Longrightarrow> casefold_char (scandi_char d) = [scandi_char d]"
  by (simp add: scandi_char_def casefold_char_def [of 97] casefold_char_def [of 111])

lemma scandi_char_range: "scandi_char d \<noteq> 228 \<and> scandi_char d \<noteq> 246 \<and> scandi_char d \<noteq> 229"
  by (simp add: scandi_char_def)

lemma is_space_32 [simp]: "is_space 32"
  by (simp add: is_space_def)

lemma not_space_ne_32: "\<not> is_space c \<Longrightarrow> c \<noteq> 32"
  by auto

lemma key_char_32 [simp]: "key_char 32"
  by (simp add: key_char_def casefold_char_def)

lemma re_sub_ws_Nil_iff [simp]: "re_sub_ws s = [] \<longleftrightarrow> s = []"
  by (cases s) auto

lemma re_sub_ws_set: "c \<in> set (re_sub_ws s) \<Longrightarrow> c = 32 \<or> (c \<in> set s \<and> \<not> is_space c)"
proof (induction s rule: re_sub_ws.induct)
  case 1
  then show ?case by simp
next
  case (2 c cs)
  then show ?case by (auto split: if_splits dest: set_dropWhileD)
qed

lemma re_sub_ws_last: "s \<noteq> [] \<Longrightarrow> \<not> is_space (last s) \<Longrightarrow> last (re_sub_ws s) = last s"
proof (induction s rule: re_sub_ws.induct)
  case 1
  then show ?case by simp
next
  case (2 c cs)
  show ?case
  proof (cases "is_space c")
    case True
    with "2.prems" have cs: "cs \<noteq> []" by (cases cs) auto
    with "2.prems" have l: "\<not> is_space (last cs)" by simp
    with cs have d: "dropWhile is_space cs \<noteq> [] \<and> last (dropWhile is_space cs) = last cs"
      by (rule last_dropWhile)
    with True l "2.IH"(1) have "last (re_sub_ws (dropWhile is_space cs)) = last cs" by simp
    with True d cs show ?thesis by auto
  next
    case False
    with "2.IH"(2) "2.prems" show ?thesis by (cases cs) auto
  qed
qed

lemma no_adj_space_Cons:
  "no_adj_space (a # r) \<longleftrightarrow> (r = [] \<or> \<not> (a = 32 \<and> hd r = 32)) \<and> no_adj_space r"
  by (cases r) auto

lemma no_adj_space_re_sub_ws: "no_adj_space (re_sub_ws s)"
proof (induction s rule: re_sub_ws.induct)
  case 1
  then show ?case by simp
next
  case (2 c cs)
  show ?case
  proof (cases "is_space c")
    case True
    let ?t = "dropWhile is_space cs"
    have "?t = [] \<or> \<not> is_space (hd ?t)"
      using hd_dropWhile by blast
    then have "re_sub_ws ?t = [] \<or> hd (re_sub_ws ?t) \<noteq> 32"
      by (cases ?t) (auto simp: is_space_def)
    with True "2.IH"(1) show ?thesis by (auto simp: no_adj_space_Cons)
  next
    case False
    then have "c \<noteq> 32" by (auto simp: is_space_def)
    with False "2.IH"(2) show ?thesis by (simp add: no_adj_space_Cons)
  qed
qed

lemma re_sub_ws_id:
  "list_all (\<lambda>c. if is_space c then c = 32 else True) s \<Longrightarrow> no_adj_space s \<Longrightarrow> re_sub_ws s = s"
proof (induction s rule: re_sub_ws.induct)
  case 1
  then show ?case by simp
next
  case (2 c cs)
  show ?case
  proof (cases "is_space c")
    case True
    with "2.prems" have c: "c = 32" by simp
    have "dropWhile is_space cs = cs"
    proof (cases cs)
      case (Cons d ds)
      with "2.prems" c have "d \<noteq> 32" and "if is_space d then d = 32 else True" by auto
      then have "\<not> is_space d" by (auto split: if_splits)
      with Cons show ?thesis by simp
    qed simp
    with True c "2.IH"(1) "2.prems" show ?thesis by (simp add: no_adj_space_Cons)
  next
    case False
    with "2.IH"(2) "2.prems" show ?thesis by (simp add: no_adj_space_Cons)
  qed
qed

lemma py_strip_edges:
  "py_strip s \<noteq> [] \<Longrightarrow> \<not> is_space (hd (py_strip s)) \<and> \<not> is_space (last (py_strip s))"
proof -
  assume ne: "py_strip s \<noteq> []"
  let ?ys = "dropWhile is_space s"
  let ?t = "rev (dropWhile is_space (rev ?ys))"
  have t: "py_strip s = ?t" by (simp add: py_strip_def)
  from ne t have "dropWhile is_space (rev ?ys) \<noteq> []" by simp
  then have last: "\<not> is_space (last ?t)"
    by (simp add: last_rev hd_dropWhile)
  have split: "?ys = ?t @ rev (takeWhile is_space (rev ?ys))"
    by (rule trim_end_prefix)
  from ne t have tne: "?t \<noteq> []" by simp
  with split have "?ys \<noteq> []" and "hd ?ys = hd ?t"
    by (metis append_is_Nil_conv, metis hd_append2)
  then have "\<not> is_space (hd ?t)" using hd_dropWhile by metis
  with last t show ?thesis by simp
qed

lemma py_strip_id: "\<not> is_space (hd s) \<Longrightarrow> \<not> is_space (last s) \<Longrightarrow> py_strip s = s"
  by (simp add: py_strip_def dropWhile_hd_id hd_rev)

lemma scandi_char_space: "is_space c \<Longrightarrow> scandi_char c = c"
  by (auto simp: scandi_char_def is_space_def)

lemma casefold_id: "list_all (\<lambda>c. casefold_char c = [c]) s \<Longrightarrow> casefold s = s"
  by (induction s) (auto simp: casefold_def)

lemma normalize_str_chars:
  "normalize_str s = re_sub_ws (concat (map (\<lambda>c. map scandi_char (casefold_char c)) (py_strip s)))"
  by (simp add: normalize_str_def scandi_fold_map casefold_def map_concat comp_def)

lemma folded_char_props:
  assumes "d \<in> set (map scandi_char (casefold_char c))"
  shows "casefold_char d = [d] \<and> d \<noteq> 228 \<and> d \<noteq> 246 \<and> d \<noteq> 229 \<and> (is_space d \<longrightarrow> d = c)"
proof -
  from assms obtain e where e: "e \<in> set (casefold_char c)" and d: "d = scandi_char e" by auto
  from e have "casefold_char d = [d]"
    unfolding d by (intro scandi_char_fixed casefold_char_fixed)
  moreover have "is_space d \<longrightarrow> d = c"
  proof
    assume sd: "is_space d"
    then have "is_space e" by (simp add: d)
    with e have "e = c" by (rule casefold_char_space_out)
    with sd d show "d = c" by (simp add: scandi_char_space)
  qed
  ultimately show ?thesis
    using scandi_char_range [of e] by (simp add: d)
qed

lemma key_char_folded:
  "d \<in> set (map scandi_char (casefold_char c)) \<Longrightarrow> \<not> is_space d \<Longrightarrow> key_char d"
  using folded_char_props [of d c] by (simp add: key_char_def)

lemma normalize_str_normal: "normal_key (normalize_str s)"
proof -
  let ?F = "\<lambda>c. map scandi_char (casefold_char c)"
  let ?t = "py_strip s"
  let ?X = "concat (map ?F ?t)"
  have n: "normalize_str s = re_sub_ws ?X" by (rule normalize_str_chars)
  have F_ne: "\<And>c. ?F c \<noteq> []" by simp
  have chars: "list_all key_char (re_sub_ws ?X)"
  unfolding list_all_iff
  proof
    fix d assume "d \<in> set (re_sub_ws ?X)"
    then have "d = 32 \<or> (d \<in> set ?X \<and> \<not> is_space d)" by (rule re_sub_ws_set)
    then show "key_char d"
    proof
      assume "d = 32"
      then show ?thesis by simp
    next
      assume "d \<in> set ?X \<and> \<not> is_space d"
      then obtain c where "d \<in> set (?F c)" and "\<not> is_space d" by auto
      then show ?thesis by (rule key_char_folded)
    qed
  qed
  have edges: "edge_ok (re_sub_ws ?X)"
  proof (cases "?t = []")
    case True
    then show ?thesis by (simp add: edge_ok_def)
  next
    case False
    then have st: "\<not> is_space (hd ?t) \<and> \<not> is_space (last ?t)" by (rule py_strip_edges)
    have "hd ?X = hd (?F (hd ?t))" and "last ?X = last (?F (last ?t))"
      using False F_ne by (rule hd_concat_map, rule last_concat_map)
    then have hX: "hd ?X \<in> set (?F (hd ?t))" and lX: "last ?X \<in> set (?F (last ?t))"
      using F_ne by (metis hd_in_set, metis last_in_set)
    have Xne: "?X \<noteq> []" using False F_ne by (cases ?t) auto
    have "\<not> is_space (hd ?X)" using folded_char_props [OF hX] st by auto
    moreover have "\<not> is_space (last ?X)" using folded_char_props [OF lX] st by auto
    ultimately show ?thesis using Xne re_sub_ws_last [OF Xne]
      by (cases ?X) (auto simp: edge_ok_def dest: not_space_ne_32)
  qed
  from chars edges show ?thesis
    by (simp add: normal_key_def n no_adj_space_re_sub_ws)
qed

lemma normal_key_fixed: "normal_key t \<Longrightarrow> normalize_str t = t"
proof -
  assume "normal_key t"
  then have chars: "list_all key_char t" and e: "edge_ok t" and a: "no_adj_space t"
    by (simp_all add: normal_key_def)
  have sp: "\<And>c. c \<in> set t \<Longrightarrow> is_space c \<Longrightarrow> c = 32"
    using chars by (auto simp: list_all_iff key_char_def)
  have "py_strip t = t"
  proof (cases t)
    case Nil
    then show ?thesis by (simp add: py_strip_def)
  next
    case (Cons c cs)
    with e have "hd t \<noteq> 32" and "last t \<noteq> 32" by (simp_all add: edge_ok_def)
    moreover have "hd t \<in> set t" and "last t \<in> set t" using Cons by simp_all
    ultimately have "\<not> is_space (hd t)" and "\<not> is_space (last t)" using sp by blast+
    then show ?thesis by (rule py_strip_id)
  qed
  moreover have "casefold t = t"
    using chars by (intro casefold_id) (simp add: list_all_iff key_char_def)
  moreover have "scandi_fold t = t"
    using chars by (auto simp: scandi_fold_map list_all_iff key_char_def scandi_char_def intro: map_idI)
  moreover have "re_sub_ws t = t"
    using chars a by (intro re_sub_ws_id) (auto simp: list_all_iff key_char_def)
  ultimately show ?thesis by (simp add: normalize_str_def)
qed

corollary normalize_str_idem: "normalize_str (normalize_str s) = normalize_str s"
  by (rule normal_key_fixed [OF normalize_str_normal])

lemma normalize_str_Nil [simp]: "normalize_str [] = []"
  by (simp add: normalize_str_def py_strip_def casefold_def scandi_fold_def replace_char_def)

text \<open>
  C5: normalising is idempotent: a key, normalised again as a string, is unchanged.
\<close>

theorem normalize_idem: "normalize (CStr (normalize x)) = normalize x"
  by (cases x) (simp_all add: normalize_str_idem)

lemma normalize_str_map_invariant:
  assumes sp: "\<And>c. is_space (g c) = is_space c"
    and fold: "\<And>c. map scandi_char (casefold_char (g c)) = map scandi_char (casefold_char c)"
  shows "normalize_str (map g s) = normalize_str s"
proof -
  have "is_space \<circ> g = is_space" using sp by (simp add: fun_eq_iff)
  then have dw: "\<And>xs. dropWhile is_space (map g xs) = map g (dropWhile is_space xs)"
    by (simp add: dropWhile_map)
  have "py_strip (map g s) = map g (py_strip s)"
    by (simp add: py_strip_def dw rev_map)
  then show ?thesis
    by (simp add: normalize_str_chars comp_def fold)
qed

lemma latin_upper_id:
  "\<not> (97 \<le> c \<and> c \<le> 122) \<Longrightarrow> \<not> (224 \<le> c \<and> c \<le> 254 \<and> c \<noteq> 247) \<Longrightarrow> c \<noteq> 255 \<Longrightarrow>
   latin_upper c = c"
  by (simp only: latin_upper_def if_not_P if_False)

text \<open>Capital letter \<open>d\<close>, small letter \<open>d + 32\<close>.\<close>

lemma latin_upper_pair:
  "(65 \<le> d \<and> d \<le> 90) \<or> (192 \<le> d \<and> d \<le> 222 \<and> d \<noteq> 215) \<Longrightarrow>
   latin_upper (d + 32) = d \<and> casefold_char d = casefold_char (d + 32) \<and>
   \<not> is_space d \<and> \<not> is_space (d + 32)"
  by (auto simp: latin_upper_def casefold_char_def is_space_def)

lemma latin_upper_char:
  "casefold_char (latin_upper c) = casefold_char c \<and> is_space (latin_upper c) = is_space c"
proof -
  consider (pair) d where "c = d + 32" "(65 \<le> d \<and> d \<le> 90) \<or> (192 \<le> d \<and> d \<le> 222 \<and> d \<noteq> 215)"
    | (ydia) "c = 255"
    | (other) "\<not> (97 \<le> c \<and> c \<le> 122)" "\<not> (224 \<le> c \<and> c \<le> 254 \<and> c \<noteq> 247)" "c \<noteq> 255"
  proof -
    assume p: "\<And>d. c = d + 32 \<Longrightarrow> (65 \<le> d \<and> d \<le> 90) \<or> (192 \<le> d \<and> d \<le> 222 \<and> d \<noteq> 215) \<Longrightarrow> thesis"
      and y: "c = 255 \<Longrightarrow> thesis"
      and o: "\<not> (97 \<le> c \<and> c \<le> 122) \<Longrightarrow> \<not> (224 \<le> c \<and> c \<le> 254 \<and> c \<noteq> 247) \<Longrightarrow> c \<noteq> 255 \<Longrightarrow> thesis"
    show thesis
    proof (cases "(97 \<le> c \<and> c \<le> 122) \<or> (224 \<le> c \<and> c \<le> 254 \<and> c \<noteq> 247)")
      case True
      then show thesis by (intro p [of "c - 32"]) auto
    next
      case False
      then show thesis using y o by blast
    qed
  qed
  then show ?thesis
  proof cases
    case (pair d)
    then show ?thesis using latin_upper_pair [of d] by simp
  next
    case ydia
    then show ?thesis by (simp add: latin_upper_def casefold_char_def is_space_def)
  next
    case other
    then show ?thesis by (simp add: latin_upper_id)
  qed
qed

text \<open>
  C7: the normaliser ignores case: capitalising the letters of a name (ASCII and
  Latin-1, as \<open>str.upper\<close> does) does not change its key.
\<close>

theorem normalize_case_insensitive: "normalize (CStr (map latin_upper s)) = normalize (CStr s)"
  by (simp add: normalize_str_map_invariant latin_upper_char)

lemma strip_nordic_char:
  "map scandi_char (casefold_char (strip_nordic c)) = map scandi_char (casefold_char c) \<and>
   is_space (strip_nordic c) = is_space c"
proof (cases "c \<in> {228, 229, 246, 196, 197, 214}")
  case True
  then show ?thesis by (auto simp: strip_nordic_def casefold_char_def scandi_char_def is_space_def)
next
  case False
  then have "strip_nordic c = c" by (simp add: strip_nordic_def)
  then show ?thesis by simp
qed

text \<open>
  C8: the normaliser ignores the Nordic diacritics: writing a-umlaut, a-ring and
  o-umlaut (small or capital) without their marks does not change the key.
\<close>

theorem normalize_nordic_insensitive: "normalize (CStr (map strip_nordic s)) = normalize (CStr s)"
  by (simp add: normalize_str_map_invariant strip_nordic_char)


text \<open>
  C4: every key the normaliser returns is in normal form: case-folded, free of
  a-umlaut, o-umlaut and a-ring, whitespace only as single inner spaces. Non-strings
  give the empty key, which is normal too.
\<close>

theorem normalize_normal_form: "normal_key (normalize c)"
proof (cases c)
  case (CStr s)
  then show ?thesis by (simp add: normalize_str_normal)
qed (simp_all add: normal_key_def edge_ok_def)

text \<open>
  C6: the strings the normaliser leaves unchanged are exactly the keys in normal form.
\<close>

theorem normalize_fixed_iff: "normalize (CStr t) = t \<longleftrightarrow> normal_key t"
  using normalize_str_normal [of t] normal_key_fixed [of t] by auto

end
