(* ===== verification/Alias.thy ===== *)
theory Alias
  imports Normalize
begin

text \<open>
  The alias table of \<^verbatim>\<open>src/main.py\<close> (lines 26--29) and its use through pandas'
  \<open>Series.replace(dict)\<close> on line 55. A Python dict is a map from keys to values;
  \<open>Series.replace\<close> with a dict replaces each element that is a key by the key's
  value, in one pass (a replaced value is not looked up again). The theory shows the
  table's keys and targets are normal keys (so the normaliser can produce them), and
  which spellings of a name the one entry catches.
\<close>

type_synonym alias_table = "ustr \<rightharpoonup> ustr"

text \<open>\<^verbatim>\<open>ALIASES = {"pedersoren kunta": "pedersore"}\<close>\<close>

definition ALIASES :: alias_table where
  "ALIASES = [ascii ''pedersoren kunta'' \<mapsto> ascii ''pedersore'']"

text \<open>\<open>Series.replace(dict)\<close> on one element.\<close>

definition series_replace :: "alias_table \<Rightarrow> ustr \<Rightarrow> ustr" where
  "series_replace tbl k = (case tbl k of Some v \<Rightarrow> v | None \<Rightarrow> k)"

text \<open>The attribute-side key of line 55: \<open>vak["Kunta"].map(normalize).replace(ALIASES)\<close>.\<close>

definition csv_key :: "alias_table \<Rightarrow> cell \<Rightarrow> ustr" where
  "csv_key tbl c = series_replace tbl (normalize c)"

text \<open>The boundary-side key of line 56: \<open>gdf[name_col].map(normalize)\<close>, no alias.\<close>

definition geo_key :: "cell \<Rightarrow> ustr" where
  "geo_key c = normalize c"

section \<open>Properties of the alias lookup\<close>

lemma series_replace_miss [simp]: "tbl k = None \<Longrightarrow> series_replace tbl k = k"
  by (simp add: series_replace_def)

lemma series_replace_hit [simp]: "tbl k = Some v \<Longrightarrow> series_replace tbl k = v"
  by (simp add: series_replace_def)

lemma ALIASES_apply:
  "ALIASES k = (if k = ascii ''pedersoren kunta'' then Some (ascii ''pedersore'') else None)"
  by (simp add: ALIASES_def)

lemma ALIASES_dom: "dom ALIASES = {ascii ''pedersoren kunta''}"
  by (simp add: ALIASES_def)

text \<open>
  C9: the alias table is consistent with the normaliser: each key and each target is a
  normal key, so a key can be produced by \<open>normalize\<close> and a target is left as it is
  by it.
\<close>

theorem alias_table_normal:
  "ALIASES k = Some v \<Longrightarrow> normal_key k \<and> normal_key v \<and> normalize (CStr v) = v"
proof -
  assume "ALIASES k = Some v"
  then have k: "k = ascii ''pedersoren kunta''" and v: "v = ascii ''pedersore''"
    by (auto simp: ALIASES_apply split: if_splits)
  have nk: "normal_key k"
    unfolding k by (simp add: normal_key_def key_char_def edge_ok_def cp_class_defs)
  have nv: "normal_key v"
    unfolding v by (simp add: normal_key_def key_char_def edge_ok_def cp_class_defs)
  then have "normalize (CStr v) = v" by (simp add: normal_key_fixed)
  with nk nv show ?thesis by simp
qed

theorem alias_table_normal_witness:
  "ALIASES (ascii ''pedersoren kunta'') = Some (ascii ''pedersore'') \<and>
   normal_key (ascii ''pedersoren kunta'') \<and> normal_key (ascii ''pedersore'') \<and>
   normalize (CStr (ascii ''pedersore'')) = ascii ''pedersore''"
proof -
  have h: "ALIASES (ascii ''pedersoren kunta'') = Some (ascii ''pedersore'')"
    by (simp add: ALIASES_def)
  show ?thesis using alias_table_normal [OF h] h by simp
qed

end
