(* ===== verification/Join.thy ===== *)
theory Join
  imports Alias
begin

text \<open>
  The keyed join of \<^verbatim>\<open>src/main.py\<close>, lines 52--64:
  \<^verbatim>\<open>
  vak_key = vak["Kunta"].map(normalize).replace(ALIASES)
  gdf_key = gdf[name_col].map(normalize)
  vak2 = pd.DataFrame({"__key": vak_key, "Vakiluku": vak["Vakiluku"]})
  gdf["__key"] = gdf_key
  gdf = gdf.merge(vak2, on="__key", how="left").drop(columns="__key")
  puuttuvat = gdf[gdf["Vakiluku"].isna()][name_col].tolist()
  \<close>
  (the population column is spelt with an a-umlaut in the source). A row of the
  population table is a record of its name cell and its population cell (an integer,
  \<open>NaN\<close>, or a string when pandas read the column as text). The boundary rows
  are of any type \<open>'b\<close> with a function reading the name column, so the join is
  stated once for every boundary representation.
  \<open>merge_left\<close> is pandas' left merge: for each left row in order, one output row per
  matching right row in the right frame's order, or the left row with \<open>NaN\<close> when
  nothing matches. The merged population column holds the matched cell, or \<open>NaN\<close>
  when nothing matched, so \<open>join_population\<close> flattens the two.
\<close>

record attr_row =
  kunta :: cell
  vakiluku :: cell

text \<open>
  The population table as \<open>pd.read_csv\<close> returns it (line 52): its column names and
  its rows of cells, a row shorter than the header padded with \<open>NaN\<close>. Reading a
  column \<open>vak[c]\<close> raises \<open>KeyError\<close> when the table has no column \<open>c\<close>; of two
  columns with one name pandas keeps the name on the first.
\<close>

record table =
  tcols :: "ustr list"
  trows :: "cell list list"

definition df_column :: "table \<Rightarrow> ustr \<Rightarrow> script_error + cell list" where
  "df_column t c =
     (if c \<in> set (tcols t)
      then Inr (map (\<lambda>row. case map_of (zip (tcols t) row) c of Some v \<Rightarrow> v | None \<Rightarrow> CNaN) (trows t))
      else Inl (KeyError c))"

definition KUNTA :: ustr where
  "KUNTA = ascii ''Kunta''"

definition VAKILUKU :: ustr where
  "VAKILUKU = ascii ''V'' @ [228] @ ascii ''kiluku''"

text \<open>
  Lines 55 and 58 read \<open>vak["Kunta"]\<close> and then \<open>vak["Vakiluku"]\<close>; the pairs of the
  two columns are the rows the join consumes.
\<close>

definition read_attr_rows :: "table \<Rightarrow> script_error + attr_row list" where
  "read_attr_rows t =
     (case df_column t KUNTA of
        Inl e \<Rightarrow> Inl e
      | Inr ks \<Rightarrow>
          (case df_column t VAKILUKU of
             Inl e \<Rightarrow> Inl e
           | Inr vs \<Rightarrow> Inr (map (\<lambda>(k, v). \<lparr>kunta = k, vakiluku = v\<rparr>) (zip ks vs))))"

text \<open>The frame \<open>vak2\<close> (line 58): one (key, population) pair per row of the table.\<close>

definition vak2 :: "alias_table \<Rightarrow> attr_row list \<Rightarrow> (ustr \<times> cell) list" where
  "vak2 tbl vak = map (\<lambda>r. (csv_key tbl (kunta r), vakiluku r)) vak"

text \<open>The right rows whose key equals \<open>k\<close>, in the right frame's order.\<close>

definition matches :: "('k \<times> 'v) list \<Rightarrow> 'k \<Rightarrow> 'v list" where
  "matches right k = map snd (filter (\<lambda>(k', v). k' = k) right)"

text \<open>\<open>DataFrame.merge(right, on=key, how="left")\<close>.\<close>

definition merge_left :: "('l \<Rightarrow> 'k) \<Rightarrow> ('k \<times> 'v) list \<Rightarrow> 'l list \<Rightarrow> ('l \<times> 'v option) list" where
  "merge_left key right left =
     concat (map (\<lambda>l. case matches right (key l) of
                         [] \<Rightarrow> [(l, None)]
                       | vs \<Rightarrow> map (\<lambda>v. (l, Some v)) vs) left)"

text \<open>
  Lines 55--61: keys on both sides, the merge, and the population column of the result
  (\<open>NaN\<close> when there was no match).
\<close>

definition join_population ::
  "('b \<Rightarrow> cell) \<Rightarrow> alias_table \<Rightarrow> attr_row list \<Rightarrow> 'b list \<Rightarrow> ('b \<times> cell) list" where
  "join_population name tbl vak gdf =
     map (\<lambda>(b, m). (b, case m of None \<Rightarrow> CNaN | Some v \<Rightarrow> v))
       (merge_left (\<lambda>b. geo_key (name b)) (vak2 tbl vak) gdf)"

text \<open>Line 64: the name cells of the merged rows whose population is \<open>NaN\<close>, in order.\<close>

definition puuttuvat :: "('b \<Rightarrow> cell) \<Rightarrow> ('b \<times> cell) list \<Rightarrow> cell list" where
  "puuttuvat name rows = map (\<lambda>(b, v). name b) (filter (\<lambda>(b, v). v = CNaN) rows)"

section \<open>The join the design asks for\<close>

text \<open>
  The design (section 4.4 of the specification) builds a dict from attribute key to
  population, the last row of a key winning, and looks every boundary up in it: one
  output row per boundary. \<open>attr_mapping\<close> is that dict, \<open>spec_join\<close> that join.
  \<open>missing_count\<close> is how many \<open>NaN\<close> populations a boundary gets from its list of
  matches: one if nothing matched, else the number of matched \<open>NaN\<close>s.
\<close>

definition attr_mapping :: "alias_table \<Rightarrow> attr_row list \<Rightarrow> ustr \<rightharpoonup> cell" where
  "attr_mapping tbl vak = map_of (rev (vak2 tbl vak))"

definition spec_join ::
  "('b \<Rightarrow> cell) \<Rightarrow> alias_table \<Rightarrow> attr_row list \<Rightarrow> 'b list \<Rightarrow> ('b \<times> cell) list" where
  "spec_join name tbl vak gdf =
     map (\<lambda>b. (b, case attr_mapping tbl vak (geo_key (name b)) of None \<Rightarrow> CNaN | Some v \<Rightarrow> v)) gdf"

definition missing_count :: "cell list \<Rightarrow> nat" where
  "missing_count vs = (if vs = [] then 1 else count_list vs CNaN)"

section \<open>Properties of the merge\<close>

lemma matches_Nil [simp]: "matches [] k = []"
  by (simp add: matches_def)

lemma matches_Cons: "matches ((k', v) # r) k = (if k' = k then v # matches r k else matches r k)"
  by (simp add: matches_def)

lemma matches_distinct:
  "distinct (map fst right) \<Longrightarrow> matches right k = (case map_of right k of None \<Rightarrow> [] | Some v \<Rightarrow> [v])"
proof (induction right)
  case Nil
  then show ?case by simp
next
  case (Cons p right)
  obtain k' v where p: "p = (k', v)" by fastforce
  show ?case
  proof (cases "k' = k")
    case True
    with Cons.prems p have "k \<notin> fst ` set right" by simp
    then have "matches right k = []"
      by (force simp: matches_def filter_empty_conv)
    with True p show ?thesis by (simp add: matches_Cons)
  next
    case False
    with Cons p show ?thesis by (simp add: matches_Cons)
  qed
qed

lemma merge_left_Nil [simp]: "merge_left key right [] = []"
  by (simp add: merge_left_def)

lemma merge_left_Cons:
  "merge_left key right (l # ls) =
     (case matches right (key l) of [] \<Rightarrow> [(l, None)] | vs \<Rightarrow> map (\<lambda>v. (l, Some v)) vs)
     @ merge_left key right ls"
  by (simp add: merge_left_def)

lemma merge_left_fst:
  "map fst (merge_left key right left) =
     concat (map (\<lambda>l. replicate (max 1 (length (matches right (key l)))) l) left)"
proof (induction left)
  case Nil
  then show ?case by simp
next
  case (Cons l ls)
  then show ?case
    by (cases "matches right (key l)") (simp_all add: merge_left_Cons comp_def map_replicate_const)
qed

lemma merge_left_distinct:
  "distinct (map fst right) \<Longrightarrow> merge_left key right left = map (\<lambda>l. (l, map_of right (key l))) left"
  by (induction left) (simp_all add: merge_left_Cons matches_distinct split: option.split)

lemma map_of_rev_distinct: "distinct (map fst xs) \<Longrightarrow> map_of (rev xs) = map_of xs"
proof
  fix k
  assume d: "distinct (map fst xs)"
  then have d': "distinct (map fst (rev xs))" by (simp add: rev_map [symmetric])
  show "map_of (rev xs) k = map_of xs k"
  proof (cases "map_of xs k")
    case None
    then have "k \<notin> fst ` set (rev xs)" by (simp add: map_of_eq_None_iff)
    then have "map_of (rev xs) k = None" by (metis map_of_eq_None_iff)
    with None show ?thesis by simp
  next
    case (Some v)
    with d have "(k, v) \<in> set xs" by simp
    with d' Some show ?thesis by simp
  qed
qed

section \<open>Properties of the join\<close>

text \<open>The definitions that evaluate a key of a concrete name.\<close>

lemmas key_eval_defs = vak2_def csv_key_def series_replace_def ALIASES_def geo_key_def
  normalize_str_def py_strip_def casefold_def scandi_fold_def replace_char_def cp_class_defs

lemma join_population_Cons:
  "join_population name tbl vak (b # bs) =
     (case matches (vak2 tbl vak) (geo_key (name b)) of
        [] \<Rightarrow> [(b, CNaN)]
      | vs \<Rightarrow> map (\<lambda>v. (b, v)) vs) @ join_population name tbl vak bs"
  by (cases "matches (vak2 tbl vak) (geo_key (name b))")
     (simp_all add: join_population_def merge_left_Cons comp_def)

lemma join_population_Nil [simp]: "join_population name tbl vak [] = []"
  by (simp add: join_population_def)

lemma puuttuvat_Nil [simp]: "puuttuvat name [] = []"
  by (simp add: puuttuvat_def)

lemma puuttuvat_append: "puuttuvat name (xs @ ys) = puuttuvat name xs @ puuttuvat name ys"
  by (simp add: puuttuvat_def)

lemma puuttuvat_matched:
  "puuttuvat name (map (\<lambda>v. (b, v)) vs) = replicate (count_list vs CNaN) (name b)"
proof (induction vs)
  case Nil
  then show ?case by (simp add: puuttuvat_def)
next
  case (Cons a vs)
  then show ?case by (simp add: puuttuvat_def)
qed

lemma puuttuvat_one_boundary:
  "puuttuvat name (case vs of [] \<Rightarrow> [(b, CNaN)] | ws \<Rightarrow> map (\<lambda>v. (b, v)) ws) =
   replicate (missing_count vs) (name b)"
proof (cases vs)
  case Nil
  then show ?thesis by (simp add: puuttuvat_def missing_count_def)
next
  case (Cons a list)
  then show ?thesis using puuttuvat_matched [of name b vs] by (simp add: missing_count_def)
qed

lemma join_population_no_match:
  "\<forall>b \<in> set bs. geo_key (name b) \<notin> fst ` set (vak2 tbl vak) \<Longrightarrow>
   join_population name tbl vak bs = map (\<lambda>b. (b, CNaN)) bs"
proof (induction bs)
  case (Cons b bs)
  then have "matches (vak2 tbl vak) (geo_key (name b)) = []"
    by (force simp: matches_def filter_empty_conv)
  with Cons show ?case by (simp add: join_population_Cons)
qed simp

lemma puuttuvat_all_missing: "puuttuvat name (map (\<lambda>b. (b, CNaN)) bs) = map name bs"
  by (induction bs) (simp_all add: puuttuvat_def)

lemma join_population_distinct:
  "distinct (map fst (vak2 tbl vak)) \<Longrightarrow>
   join_population name tbl vak gdf =
     map (\<lambda>b. (b, case map_of (vak2 tbl vak) (geo_key (name b)) of None \<Rightarrow> CNaN | Some v \<Rightarrow> v)) gdf"
  by (simp add: join_population_def merge_left_distinct)

text \<open>
  C1: when no two rows of the population table share a key, the pandas left merge is
  the join the design describes: every boundary exactly once, in order, with the
  population the key maps to (absent when no row has its key or the row's population
  is \<open>NaN\<close>).
\<close>

theorem join_population_refines:
  assumes "distinct (map fst (vak2 tbl vak))"
  shows "join_population name tbl vak gdf = spec_join name tbl vak gdf"
  using assms
  by (simp add: join_population_distinct spec_join_def attr_mapping_def map_of_rev_distinct)

theorem join_population_refines_witness:
  "distinct (map fst (vak2 ALIASES [\<lparr>kunta = CStr (ascii ''HELSINKI''), vakiluku = CInt 100\<rparr>])) \<and>
   join_population id ALIASES [\<lparr>kunta = CStr (ascii ''HELSINKI''), vakiluku = CInt 100\<rparr>]
     [CStr (ascii ''Helsinki''), CStr (ascii ''Espoo'')] =
   spec_join id ALIASES [\<lparr>kunta = CStr (ascii ''HELSINKI''), vakiluku = CInt 100\<rparr>]
     [CStr (ascii ''Helsinki''), CStr (ascii ''Espoo'')]"
proof -
  have h: "distinct (map fst (vak2 ALIASES [\<lparr>kunta = CStr (ascii ''HELSINKI''), vakiluku = CInt 100\<rparr>]))"
    by (simp add: vak2_def)
  show ?thesis using h join_population_refines [OF h] by simp
qed

text \<open>
  C2: the merge keeps every boundary and its order, and repeats a boundary once per
  population row with its key: a boundary with \<open>n\<close> matching rows appears
  \<open>max 1 n\<close> times.
\<close>

theorem join_population_rows:
  "map fst (join_population name tbl vak gdf) =
     concat (map (\<lambda>b. replicate (max 1 (length (matches (vak2 tbl vak) (geo_key (name b))))) b) gdf)"
  by (simp add: join_population_def merge_left_fst comp_def case_prod_beta)

text \<open>
  C3: the list of municipalities reported as missing (line 64) holds, in boundary
  order, each boundary with no matching row once, and each boundary with matches once
  per matched row whose population is \<open>NaN\<close>.
\<close>

theorem puuttuvat_join:
  "puuttuvat name (join_population name tbl vak gdf) =
     concat (map (\<lambda>b. replicate (missing_count (matches (vak2 tbl vak) (geo_key (name b)))) (name b)) gdf)"
proof (induction gdf)
  case Nil
  then show ?case by simp
next
  case (Cons b bs)
  then show ?case
    by (simp add: join_population_Cons puuttuvat_append puuttuvat_one_boundary)
qed

lemma length_lt_sum_max1:
  "length xs < (\<Sum>x\<leftarrow>xs. max 1 (f x)) \<longleftrightarrow> (\<exists>x \<in> set xs. 2 \<le> f x)"
  for f :: "'a \<Rightarrow> nat"
proof (induction xs)
  case (Cons x xs)
  have "length xs \<le> (\<Sum>x\<leftarrow>xs. max 1 (f x))"
    by (induction xs) auto
  with Cons show ?case by auto
qed simp

text \<open>
  C13: the merge of line 61 adds rows exactly when some boundary's key has two or more
  population rows (for instance \<open>Helsinki\<close> and \<open>HELSINKI \<close>, which normalise
  alike): then the merged frame is longer than the boundary file, while the design's
  join always has one row per boundary.
\<close>

theorem join_grows_iff:
  "length (spec_join name tbl vak bs) = length bs \<and>
   (length bs < length (join_population name tbl vak bs) \<longleftrightarrow>
    (\<exists>b \<in> set bs. 2 \<le> length (matches (vak2 tbl vak) (geo_key (name b)))))"
proof -
  have "length (join_population name tbl vak bs) =
        (\<Sum>b\<leftarrow>bs. max 1 (length (matches (vak2 tbl vak) (geo_key (name b)))))"
    by (induction bs) (simp_all add: join_population_def merge_left_def split: list.split)
  then show ?thesis
    using length_lt_sum_max1 [of bs "\<lambda>b. length (matches (vak2 tbl vak) (geo_key (name b)))"]
    by (simp add: spec_join_def)
qed

lemma csv_key_not_alias_key: "csv_key ALIASES c \<noteq> ascii ''pedersoren kunta''"
  by (auto simp: csv_key_def series_replace_def ALIASES_def split: option.splits if_splits)

text \<open>
  C14: the alias is one-sided: a boundary whose own name normalises to an alias key
  (\<open>Peders(o-umlaut)ren kunta\<close>) can never be matched, whatever the population
  table holds, since line 55 maps every such population name to its target and line 56
  leaves the boundary's key as it is.
\<close>

theorem alias_key_unmatched:
  "normalize (name b) \<in> dom ALIASES \<Longrightarrow> join_population name ALIASES rows [b] = [(b, CNaN)]"
proof -
  assume "normalize (name b) \<in> dom ALIASES"
  then have k: "geo_key (name b) = ascii ''pedersoren kunta''"
    by (simp add: geo_key_def ALIASES_def split: if_splits)
  have "matches (vak2 ALIASES rows) (geo_key (name b)) = []"
    unfolding k using csv_key_not_alias_key by (auto simp: matches_def vak2_def filter_empty_conv)
  then show ?thesis by (simp add: join_population_def merge_left_def)
qed

end
