(* ===== verification/Report.thy ===== *)
theory Report
  imports Prelude
begin

text \<open>
  The diagnostic report of \<^verbatim>\<open>src/main.py\<close>, lines 65--70:
  \<^verbatim>\<open>
  if puuttuvat:
      print("Huom. Kuntakartta on vuodelta 2018 ja ...")
      for n in puuttuvat[:20]:
          print(" -", n)
      if len(puuttuvat) > 20:
          print(f"... ja {len(puuttuvat)-20} muuta")
  \<close>
  Standard output is modelled as the list of printed lines. \<open>print(" -", n)\<close> joins its
  arguments with a space and prints \<open>str(n)\<close>. The theory shows the display cap: no
  output for no names, otherwise the header, the first twenty names in order and, past
  twenty, one line with the number left out.
\<close>

definition report_header :: ustr where
  "report_header = ascii ''Huom. Kuntakartta on vuodelta 2018 ja asukasluvut ovat vuodelta 2025, joten seuraavat kunnat ovat yhdistyneet ja niiden tietoja ei ole saatavilla.''"

definition report_line :: "cell \<Rightarrow> ustr" where
  "report_line n = ascii '' - '' @ py_str n"

definition report_summary :: "nat \<Rightarrow> ustr" where
  "report_summary k = ascii ''... ja '' @ py_str_int (int k) @ ascii '' muuta''"

definition report :: "cell list \<Rightarrow> ustr list" where
  "report ps =
     (if ps = [] then []
      else report_header # map report_line (take 20 ps) @
           (if length ps > 20 then [report_summary (length ps - 20)] else []))"

section \<open>Properties of the report\<close>

text \<open>
  C10: the report prints nothing for no names, and otherwise one header line, at most
  twenty name lines and, past twenty names, one summary line: never more than 22 lines.
\<close>

theorem report_length:
  "length (report ps) =
     (if ps = [] then 0 else 1 + min 20 (length ps) + (if 20 < length ps then 1 else 0))"
  by (simp add: report_def)

text \<open>
  With more than twenty missing names the report is the header, the first twenty
  names in order, and a last line giving how many were left out.
\<close>

lemma report_long:
  "20 < length ps \<Longrightarrow>
   report ps = report_header # map report_line (take 20 ps) @ [report_summary (length ps - 20)]"
  by (cases ps) (simp_all add: report_def)

end
