(* ===== verification/Format.thy ===== *)
theory Format
  imports Complex_Main Normalize
begin

text \<open>
  The text of a marker's popup, \<^verbatim>\<open>src/main.py\<close> lines 85--91:
  \<^verbatim>\<open>
  kunta = str(row[name_col])
  ala = row["Pinta_ala_km2"]
  vakiluku = row.get("Vakiluku")
  vak_txt = f"{int(vakiluku):,}".replace(",", " ") if pd.notna(vakiluku) else EN_DASH
  popup = folium.Popup(f"<b>{kunta}</b><br>Pinta-ala: {ala:.1f} km2<br>Vakiluku: {vak_txt}", ...)
  \<close>
  (the source writes the en dash U+2013, the superscript two U+00B2 and an a-umlaut in
  the label). \<open>fmt_comma\<close> is the format specification \<open>,\<close> on an \<open>int\<close>: the
  decimal digits grouped by three from the right with commas, after a minus sign for a
  negative number. \<open>fmt_1f\<close> is \<open>.1f\<close> on the exact value of the float: rounded to
  one decimal, ties to the even digit, minus sign whenever the value is negative.
  \<open>int()\<close> of line 88 is modelled on every cell, since pandas reads the population
  column as text when one entry is not a number; it may raise, so the population
  text and the popup are options. The theory proves that the grouped population reads
  back as the population, how long it is, that \<open>int()\<close> reads back \<open>str()\<close>,
  exactly when the popup fails, and that the printed area is within 0.05 of the
  computed one.
\<close>

section \<open>Grouped digits\<close>

text \<open>Commas after every third digit, on the digits in reverse order.\<close>

fun group_rev :: "ustr \<Rightarrow> ustr" where
  "group_rev (a # b # c # d # rest) = a # b # c # 44 # group_rev (d # rest)"
| "group_rev xs = xs"

definition fmt_comma :: "int \<Rightarrow> ustr" where
  "fmt_comma n = (if n < 0 then [45] else []) @ rev (group_rev (rev (dec_digits (nat \<bar>n\<bar>))))"

section \<open>Python's \<open>int()\<close> on a population cell\<close>

text \<open>
  \<open>int(x)\<close> on line 88. An integer cell is itself. A string (the column was read as
  text) is parsed as Python parses a base-10 literal: surrounding whitespace
  (\<open>str.isspace\<close>) is dropped, a sign \<open>+\<close> or \<open>-\<close> is allowed, then decimal digits
  with single underscores between digits; anything else raises \<open>ValueError\<close>, which
  is \<open>None\<close> here. \<open>int()\<close> of \<open>NaN\<close> raises as well (line 88 never calls it).
  Python also accepts the decimal digits of other scripts, all above U+017F; the model
  reads ASCII digits only.
\<close>

definition is_digit :: "cp \<Rightarrow> bool" where
  "is_digit c \<longleftrightarrow> 48 \<le> c \<and> c \<le> 57"

definition digits_val :: "ustr \<Rightarrow> nat" where
  "digits_val ds = foldl (\<lambda>n d. 10 * n + (d - 48)) 0 ds"

text \<open>Digits with single underscores between two digits.\<close>

fun us_digits :: "ustr \<Rightarrow> bool" where
  "us_digits [] = False"
| "us_digits (d # rest) =
     (is_digit d \<and> (case rest of [] \<Rightarrow> True | e # rest' \<Rightarrow> if e = 95 then us_digits rest' else us_digits rest))"

definition py_int_str :: "ustr \<Rightarrow> int option" where
  "py_int_str s =
     (let t = py_strip s;
          neg = (t \<noteq> [] \<and> hd t = 45);
          b = (if t \<noteq> [] \<and> (hd t = 45 \<or> hd t = 43) then tl t else t)
      in if us_digits b then Some ((if neg then -1 else 1) * int (digits_val (filter (\<lambda>c. c \<noteq> 95) b)))
         else None)"

fun py_int :: "cell \<Rightarrow> int option" where
  "py_int (CInt n) = Some n"
| "py_int (CStr s) = py_int_str s"
| "py_int CNaN = None"

text \<open>
  Line 88: the population text, commas replaced by spaces, an en dash for \<open>NaN\<close>;
  \<open>None\<close> when \<open>int()\<close> raises.
\<close>

definition vak_txt :: "cell \<Rightarrow> ustr option" where
  "vak_txt v = (if v = CNaN then Some [8211] else map_option (\<lambda>n. replace_char 44 32 (fmt_comma n)) (py_int v))"

section \<open>One decimal\<close>

text \<open>Rounding to the nearest integer, ties to the even one (as the float formatting does).\<close>

definition round_half_even :: "rat \<Rightarrow> int" where
  "round_half_even x =
     (let f = \<lfloor>x\<rfloor>; d = x - of_int f
      in if d < 1 / 2 then f else if 1 / 2 < d then f + 1 else if even f then f else f + 1)"

definition fmt_1f :: "rat \<Rightarrow> ustr" where
  "fmt_1f q =
     (let a = nat \<bar>round_half_even (q * 10)\<bar>
      in (if q < 0 then [45] else []) @ dec_digits (a div 10) @ [46] @ dec_digits (a mod 10))"

section \<open>The popup\<close>

definition popup_html :: "cell \<Rightarrow> rat \<Rightarrow> cell \<Rightarrow> ustr option" where
  "popup_html kunta ala v =
     map_option (\<lambda>t. ascii ''<b>'' @ py_str kunta @ ascii ''</b><br>Pinta-ala: '' @ fmt_1f ala @
       ascii '' km'' @ [178] @ ascii ''<br>V'' @ [228] @ ascii ''kiluku: '' @ t) (vak_txt v)"

section \<open>Reading numbers back\<close>

text \<open>
  The value of a digit string, and of a signed decimal \<open>[-]ddd.d\<close>: what a reader of
  the popup sees. These state the properties; the program does not parse.
\<close>

definition parse_int :: "ustr \<Rightarrow> int option" where
  "parse_int s =
     (let neg = (s \<noteq> [] \<and> hd s = 45); ds = (if neg then tl s else s)
      in if ds \<noteq> [] \<and> list_all is_digit ds
         then Some ((if neg then -1 else 1) * int (digits_val ds)) else None)"

definition parse_dec1 :: "ustr \<Rightarrow> rat option" where
  "parse_dec1 s =
     (let neg = (s \<noteq> [] \<and> hd s = 45); t = (if neg then tl s else s);
          ip = takeWhile (\<lambda>c. c \<noteq> 46) t; fp = drop (Suc (length ip)) t
      in if ip \<noteq> [] \<and> list_all is_digit ip \<and> length fp = 1 \<and> list_all is_digit fp
            \<and> length t = length ip + 2
         then Some ((if neg then -1 else 1) * (of_nat (digits_val ip) + of_nat (digits_val fp) / 10))
         else None)"

section \<open>Properties of the formatting\<close>

lemma digits_val_append: "digits_val (xs @ [d]) = 10 * digits_val xs + (d - 48)"
  by (simp add: digits_val_def)

lemma digits_val_dec_digits: "digits_val (dec_digits n) = n"
proof (induction n rule: dec_digits.induct)
  case (1 n)
  show ?case
  proof (cases "n < 10")
    case True
    then show ?thesis by (simp add: dec_digits.simps [of n] digits_val_def)
  next
    case False
    with "1.IH" show ?thesis by (simp add: dec_digits.simps [of n] digits_val_append)
  qed
qed

lemma dec_digits_digits: "list_all is_digit (dec_digits n)"
  using dec_digits_range by (auto simp: list_all_iff is_digit_def)

lemma dec_digits_small: "n < 10 \<Longrightarrow> dec_digits n = [48 + n]"
  by (simp add: dec_digits.simps)

lemma hd_dec_digits_digit: "is_digit (hd (dec_digits n))"
  using dec_digits_digits [of n] by (cases "dec_digits n") auto

lemma group_rev_filter: "44 \<notin> set xs \<Longrightarrow> filter (\<lambda>c. c \<noteq> 44) (group_rev xs) = xs"
  by (induction xs rule: group_rev.induct) auto

lemma length_group_rev: "length (group_rev xs) = length xs + (length xs - 1) div 3"
  by (induction xs rule: group_rev.induct) auto

lemma group_rev_nth:
  "44 \<notin> set xs \<Longrightarrow> i < length (group_rev xs) \<Longrightarrow> (group_rev xs ! i = 44 \<longleftrightarrow> i mod 4 = 3)"
proof (induction xs arbitrary: i rule: group_rev.induct)
  case (1 a b c d rest)
  show ?case
  proof (cases "i < 4")
    case True
    then have "i = 0 \<or> i = 1 \<or> i = 2 \<or> i = 3" by auto
    with "1.prems" show ?thesis by auto
  next
    case False
    then obtain j where j: "i = j + 4" by (metis add.commute le_Suc_ex not_less numeral_Bit0)
    with "1.prems" have "group_rev (d # rest) ! j = 44 \<longleftrightarrow> j mod 4 = 3" by (intro "1.IH") auto
    with j show ?thesis by simp
  qed
qed (auto simp: less_Suc_eq)

lemma group_rev_Nil_iff [simp]: "group_rev xs = [] \<longleftrightarrow> xs = []"
  by (induction xs rule: group_rev.induct) auto

lemma group_rev_last: "xs \<noteq> [] \<Longrightarrow> last (group_rev xs) = last xs"
  by (induction xs rule: group_rev.induct) auto

lemma filter_replace_char:
  "filter (\<lambda>c. c \<noteq> b) (replace_char a b xs) = filter (\<lambda>c. c \<noteq> a \<and> c \<noteq> b) xs"
  by (induction xs) (auto simp: replace_char_def)

lemma fmt_comma_digits:
  "filter (\<lambda>c. c \<noteq> 44 \<and> c \<noteq> 32) (fmt_comma n) =
     (if n < 0 then [45] else []) @ dec_digits (nat \<bar>n\<bar>)"
proof -
  let ?ds = "dec_digits (nat \<bar>n\<bar>)"
  have dig: "list_all is_digit ?ds" by (rule dec_digits_digits)
  then have no44: "44 \<notin> set (rev ?ds)" by (auto simp: list_all_iff is_digit_def)
  have "filter (\<lambda>c. c \<noteq> 44 \<and> c \<noteq> 32) (group_rev (rev ?ds)) =
        filter (\<lambda>c. c \<noteq> 32) (filter (\<lambda>c. c \<noteq> 44) (group_rev (rev ?ds)))"
    by (simp add: conj_commute)
  also have "\<dots> = filter (\<lambda>c. c \<noteq> 32) (rev ?ds)"
    using no44 by (simp add: group_rev_filter)
  also have "\<dots> = rev ?ds"
    using dig by (intro filter_True) (auto simp: list_all_iff is_digit_def)
  finally show ?thesis by (simp add: fmt_comma_def rev_filter [symmetric])
qed

lemma parse_int_digits:
  "list_all is_digit ds \<Longrightarrow> ds \<noteq> [] \<Longrightarrow>
   parse_int ((if neg then [45] else []) @ ds) = Some ((if neg then -1 else 1) * int (digits_val ds))"
  by (cases ds) (auto simp: parse_int_def is_digit_def Let_def)

text \<open>
  C23: the population text of a popup reads back as the population: deleting the
  group separators and reading the digits, with the sign, gives the number printed.
\<close>

theorem vak_txt_roundtrip:
  "\<exists>t. vak_txt (CInt n) = Some t \<and> parse_int (filter (\<lambda>c. c \<noteq> 32) t) = Some n"
proof -
  let ?ds = "dec_digits (nat \<bar>n\<bar>)"
  let ?t = "replace_char 44 32 (fmt_comma n)"
  have v: "vak_txt (CInt n) = Some ?t" by (simp add: vak_txt_def)
  have f: "filter (\<lambda>c. c \<noteq> 32) ?t = (if n < 0 then [45] else []) @ ?ds"
    by (simp add: filter_replace_char fmt_comma_digits)
  have p: "parse_int ((if n < 0 then [45] else []) @ ?ds) =
      Some ((if n < 0 then -1 else 1) * int (digits_val ?ds))"
    by (rule parse_int_digits) (simp_all add: dec_digits_digits)
  have "(if n < 0 then -1 else 1) * int (digits_val ?ds) = n"
    by (cases "n < 0") (simp_all add: digits_val_dec_digits)
  with v f p show ?thesis by auto
qed

text \<open>
  C24: the grouped number has one separator per full group of three digits after the
  first: its length is the sign, the digits and \<open>(digits - 1) div 3\<close> commas.
\<close>

theorem fmt_comma_length:
  "length (fmt_comma n) =
     (if n < 0 then 1 else 0) + length (dec_digits (nat \<bar>n\<bar>)) + (length (dec_digits (nat \<bar>n\<bar>)) - 1) div 3"
  by (simp add: fmt_comma_def length_group_rev)

text \<open>
  C11: the separators of \<open>{:,}\<close> stand where the format puts them: read from the
  right, the unsigned part is the decimal digits with a comma at every fourth position
  (after each group of three digits) and nowhere else, and it never begins with a
  comma; the minus sign comes first.
\<close>

theorem fmt_comma_groups:
  "\<exists>g. fmt_comma n = (if n < 0 then [45] else []) @ rev g \<and>
     filter (\<lambda>c. c \<noteq> 44) g = rev (dec_digits (nat \<bar>n\<bar>)) \<and>
     (\<forall>i < length g. g ! i = 44 \<longleftrightarrow> i mod 4 = 3) \<and> last g \<noteq> 44"
proof -
  let ?ds = "dec_digits (nat \<bar>n\<bar>)"
  let ?g = "group_rev (rev ?ds)"
  have no44: "44 \<notin> set (rev ?ds)"
    using dec_digits_digits [of "nat \<bar>n\<bar>"] by (auto simp: list_all_iff is_digit_def)
  have "last ?g = hd ?ds"
    by (simp add: group_rev_last last_rev)
  moreover have "hd ?ds \<noteq> 44" using hd_dec_digits_digit [of "nat \<bar>n\<bar>"] by (auto simp: is_digit_def)
  ultimately have "last ?g \<noteq> 44" by simp
  with no44 show ?thesis
    by (intro exI [of _ ?g]) (simp add: fmt_comma_def group_rev_filter group_rev_nth)
qed

lemma round_half_even_bound: "\<bar>x - of_int (round_half_even x)\<bar> \<le> 1 / 2"
proof -
  define f where "f = \<lfloor>x\<rfloor>"
  define d where "d = x - of_int f"
  have d0: "0 \<le> d" and d1: "d < 1"
    unfolding d_def f_def by (simp_all add: floor_correct) linarith
  consider (lo) "d < 1 / 2" | (hi) "1 / 2 < d" | (tie) "d = 1 / 2" by linarith
  then show ?thesis
  proof cases
    case lo
    then have "round_half_even x = f" by (simp add: round_half_even_def f_def d_def Let_def)
    with lo d0 show ?thesis by (simp add: d_def)
  next
    case hi
    then have "round_half_even x = f + 1" by (simp add: round_half_even_def f_def d_def Let_def)
    with hi d1 show ?thesis by (simp add: d_def)
  next
    case tie
    then have "round_half_even x = f \<or> round_half_even x = f + 1"
      by (simp add: round_half_even_def f_def d_def Let_def)
    with tie show ?thesis by (auto simp: d_def)
  qed
qed

lemma round_half_even_nonpos: "x < 0 \<Longrightarrow> round_half_even x \<le> 0"
proof -
  assume "x < 0"
  then have "\<lfloor>x\<rfloor> \<le> -1" by linarith
  then show ?thesis by (simp add: round_half_even_def Let_def)
qed

lemma round_half_even_nonneg: "0 \<le> x \<Longrightarrow> 0 \<le> round_half_even x"
  by (simp add: round_half_even_def Let_def)

lemma parse_dec1_digits:
  shows "parse_dec1 ((if neg then [45] else []) @ dec_digits (a div 10) @ [46] @ dec_digits (a mod 10)) =
         Some ((if neg then -1 else 1) * (of_nat a / 10))"
proof -
  let ?ip = "dec_digits (a div 10)"
  let ?t = "?ip @ [46] @ [48 + a mod 10]"
  have small: "dec_digits (a mod 10) = [48 + a mod 10]" by (simp add: dec_digits_small)
  have dig: "list_all is_digit ?ip" by (rule dec_digits_digits)
  then have "\<forall>c \<in> set ?ip. c \<noteq> 46" by (auto simp: list_all_iff is_digit_def)
  then have tw: "takeWhile (\<lambda>c. c \<noteq> 46) ?t = ?ip" by (simp add: takeWhile_append2)
  have hd_ip: "hd (?ip @ [46] @ [48 + a mod 10]) \<noteq> 45"
    using hd_dec_digits_digit [of "a div 10"] by (cases ?ip) (auto simp: is_digit_def)
  have val: "of_nat (digits_val ?ip) + of_nat (digits_val [48 + a mod 10]) / 10 = (of_nat a / 10 :: rat)"
  proof -
    have "digits_val [48 + a mod 10] = a mod 10" by (simp add: digits_val_def)
    moreover have "of_nat (a div 10) + of_nat (a mod 10) / 10 = (of_nat a / 10 :: rat)"
    proof -
      have "a = 10 * (a div 10) + a mod 10" by simp
      then have "(of_nat a :: rat) = 10 * of_nat (a div 10) + of_nat (a mod 10)"
        by (metis of_nat_add of_nat_mult of_nat_numeral)
      then show ?thesis by (simp add: field_simps)
    qed
    ultimately show ?thesis by (simp add: digits_val_dec_digits)
  qed
  have fp: "drop (Suc (length ?ip)) ?t = [48 + a mod 10]" by simp
  have digit_fp: "list_all is_digit [48 + a mod 10]" by (simp add: is_digit_def)
  show ?thesis
    using tw fp dig digit_fp val hd_ip small
    by (simp add: parse_dec1_def Let_def)
qed

text \<open>
  C25: the area printed with one decimal is a well-formed decimal within 0.05 of the
  computed area.
\<close>

theorem fmt_1f_accuracy: "\<exists>d. parse_dec1 (fmt_1f q) = Some d \<and> \<bar>d - q\<bar> \<le> 1 / 20"
proof -
  define r where "r = round_half_even (q * 10)"
  have p: "parse_dec1 (fmt_1f q) = Some ((if q < 0 then -1 else 1) * (of_nat (nat \<bar>r\<bar>) / 10))"
    unfolding fmt_1f_def Let_def r_def by (rule parse_dec1_digits)
  have v: "(if q < 0 then -1 else 1) * (of_nat (nat \<bar>r\<bar>) / 10) = (of_int r / 10 :: rat)"
  proof (cases "q < 0")
    case True
    then have "r \<le> 0" unfolding r_def by (intro round_half_even_nonpos) simp
    with True show ?thesis by simp
  next
    case False
    then have "0 \<le> r" unfolding r_def by (intro round_half_even_nonneg) simp
    with False show ?thesis by simp
  qed
  have "\<bar>q * 10 - of_int r\<bar> \<le> 1 / 2" unfolding r_def by (rule round_half_even_bound)
  then have "\<bar>of_int r / 10 - q\<bar> \<le> 1 / 20"
    by (simp only: abs_le_iff) linarith
  moreover from p v have "parse_dec1 (fmt_1f q) = Some (of_int r / 10)" by simp
  ultimately show ?thesis by blast
qed


lemma is_digit_not_space: "is_digit c \<Longrightarrow> \<not> is_space c"
  unfolding is_digit_def is_space_def by linarith

lemma us_digits_plain: "list_all is_digit ds \<Longrightarrow> ds \<noteq> [] \<Longrightarrow> us_digits ds"
proof (induction ds)
  case (Cons d rest)
  show ?case
  proof (cases rest)
    case (Cons e r)
    with Cons.prems have "e \<noteq> 95" by (auto simp: is_digit_def)
    with Cons Cons.IH Cons.prems show ?thesis by simp
  qed (use Cons.prems in simp)
qed simp

text \<open>
  C34: \<open>int()\<close> reads back what \<open>str()\<close> prints: a population stored as the text
  of an integer gives that integer on line 88.
\<close>

theorem py_int_str_py_str_int: "py_int_str (py_str_int n) = Some n"
proof -
  define ds where "ds = dec_digits (nat \<bar>n\<bar>)"
  have dig: "list_all is_digit ds" by (simp add: ds_def dec_digits_digits)
  have ne: "ds \<noteq> []" by (simp add: ds_def)
  have "is_digit (hd ds)" and dl: "is_digit (last ds)"
    using dig ne by (auto simp: list_all_iff)
  then have hd: "\<not> is_space (hd ds)" "hd ds \<noteq> 45" "hd ds \<noteq> 43" and lst: "\<not> is_space (last ds)"
    using is_digit_not_space by (auto simp: is_digit_def)
  have s: "py_str_int n = (if n < 0 then [45] else []) @ ds"
    by (simp add: py_str_int_def ds_def)
  have sp45: "\<not> is_space 45" by (simp add: is_space_def)
  have strip: "py_strip (py_str_int n) = py_str_int n"
    using hd lst ne sp45 by (intro py_strip_id) (simp_all add: s)
  have f: "filter (\<lambda>c. c \<noteq> 95) ds = ds"
    using dig by (intro filter_True) (auto simp: list_all_iff is_digit_def)
  have v: "int (digits_val ds) = \<bar>n\<bar>" by (simp add: ds_def digits_val_dec_digits)
  show ?thesis
    using strip us_digits_plain [OF dig ne] f hd ne v
    by (cases "n < 0") (simp_all add: py_int_str_def s Let_def)
qed

text \<open>
  C33: the popup text of a population fails (line 88 raises \<open>ValueError\<close>) exactly
  for a text cell that \<open>int()\<close> rejects: a population written with a space as the
  thousands separator, as in \<open>1 234\<close>, is rejected, while \<open> 1_234 \<close> is read.
\<close>

theorem vak_txt_error_iff:
  "(vak_txt v = None \<longleftrightarrow> (\<exists>s. v = CStr s \<and> py_int_str s = None)) \<and>
   vak_txt (CStr (ascii ''1 234'')) = None \<and> vak_txt (CStr (ascii '' 1_234 '')) = Some (ascii ''1 234'')"
proof -
  have "vak_txt v = None \<longleftrightarrow> (\<exists>s. v = CStr s \<and> py_int_str s = None)"
    by (cases v) (simp_all add: vak_txt_def)
  moreover have "vak_txt (CStr (ascii ''1 234'')) = None"
    by (simp add: vak_txt_def py_int_str_def py_strip_def is_space_def is_digit_def)
  moreover have "vak_txt (CStr (ascii '' 1_234 '')) = Some (ascii ''1 234'')"
    by (simp add: vak_txt_def py_int_str_def py_strip_def is_space_def digits_val_def is_digit_def
       fmt_comma_def dec_digits.simps replace_char_def)
  ultimately show ?thesis by blast
qed

end
