(* ===== verification/Area.thy ===== *)
theory Area
  imports Complex_Main Prelude
begin

text \<open>
  The area column of \<^verbatim>\<open>src/main.py\<close>, lines 44--46:
  \<^verbatim>\<open>
  gdf_metric = gdf_raw.to_crs(epsg=3067).copy()
  gdf_metric["Pinta_ala_km2"] = gdf_metric.geometry.area / 1e6
  \<close>
  The reprojection to ETRS-TM35FIN (EPSG:3067, metres) is a pyproj call and is not
  modelled: a geometry here holds the projected coordinates. \<open>GeoSeries.area\<close> is
  shapely's planar area: for a polygon the absolute shoelace area of the shell less
  the absolute areas of the holes, for a multipolygon the sum over its polygons.
  Coordinates and areas are exact rationals; the rounding of double-precision
  arithmetic is not modelled. A ring is the list of its vertices; GeoJSON repeats the
  first vertex at the end, and \<open>ring_edges\<close> closes the ring again, which adds an
  edge of length zero and changes nothing (\<open>ring_area_closed\<close>).
  The theory proves the area zero for a shell whose vertices lie on one line,
  independent of a translation of the coordinates (the projection's false easting), equal to the
  product of the sides for an axis-parallel rectangle, independent of the winding of
  the rings, and computes the scale on line 46.
\<close>

type_synonym point = "rat \<times> rat"
type_synonym ring = "point list"

datatype geometry = Polygon ring "ring list" | MultiPolygon "(ring \<times> ring list) list"

text \<open>The edges of a ring, the last vertex joined to the first.\<close>

definition ring_edges :: "ring \<Rightarrow> (point \<times> point) list" where
  "ring_edges r = (case r of [] \<Rightarrow> [] | p # ps \<Rightarrow> zip r (ps @ [p]))"

definition cross :: "point \<Rightarrow> point \<Rightarrow> rat" where
  "cross p q = fst p * snd q - fst q * snd p"

text \<open>Twice the signed area (positive for counter-clockwise rings).\<close>

definition signed_area2 :: "ring \<Rightarrow> rat" where
  "signed_area2 r = sum_list (map (\<lambda>(p, q). cross p q) (ring_edges r))"

definition ring_area :: "ring \<Rightarrow> rat" where
  "ring_area r = \<bar>signed_area2 r\<bar> / 2"

text \<open>Shapely's polygon area: the shell's area less the holes'.\<close>

definition polygon_area :: "ring \<Rightarrow> ring list \<Rightarrow> rat" where
  "polygon_area sh hs = ring_area sh - sum_list (map ring_area hs)"

fun geom_area :: "geometry \<Rightarrow> rat" where
  "geom_area (Polygon sh hs) = polygon_area sh hs"
| "geom_area (MultiPolygon ps) = sum_list (map (\<lambda>(sh, hs). polygon_area sh hs) ps)"

text \<open>Line 46: square metres to square kilometres.\<close>

definition area_km2 :: "geometry \<Rightarrow> rat" where
  "area_km2 g = geom_area g / 1000000"

text \<open>The translation of a ring by a vector.\<close>

definition translate :: "rat \<Rightarrow> rat \<Rightarrow> ring \<Rightarrow> ring" where
  "translate a b r = map (\<lambda>p. (fst p + a, snd p + b)) r"

fun translate_geom :: "rat \<Rightarrow> rat \<Rightarrow> geometry \<Rightarrow> geometry" where
  "translate_geom a b (Polygon sh hs) = Polygon (translate a b sh) (map (translate a b) hs)"
| "translate_geom a b (MultiPolygon ps) =
     MultiPolygon (map (\<lambda>(sh, hs). (translate a b sh, map (translate a b) hs)) ps)"

text \<open>The same geometry with every ring traversed the other way round.\<close>

fun reverse_geom :: "geometry \<Rightarrow> geometry" where
  "reverse_geom (Polygon sh hs) = Polygon (rev sh) (map rev hs)"
| "reverse_geom (MultiPolygon ps) = MultiPolygon (map (\<lambda>(sh, hs). (rev sh, map rev hs)) ps)"

section \<open>Properties of the area\<close>

lemma sum_list_zip_diff:
  "length xs = length ys \<Longrightarrow>
   sum_list (map (\<lambda>(p, q). f q - f p) (zip xs ys)) = sum_list (map f ys) - sum_list (map f xs)"
  for f :: "'a \<Rightarrow> rat"
  by (induction xs ys rule: list_induct2) (simp_all add: algebra_simps)

lemma ring_edges_telescope:
  "sum_list (map (\<lambda>(p, q). f q - f p) (ring_edges r)) = 0"
  for f :: "point \<Rightarrow> rat"
proof (cases r)
  case Nil
  then show ?thesis by (simp add: ring_edges_def)
next
  case (Cons p ps)
  then have "sum_list (map (\<lambda>(p, q). f q - f p) (ring_edges r)) =
      sum_list (map f (ps @ [p])) - sum_list (map f (p # ps))"
    by (simp add: ring_edges_def sum_list_zip_diff del: sum_list.Cons)
  then show ?thesis by simp
qed

lemma ring_edges_map:
  "ring_edges (map f r) = map (\<lambda>(p, q). (f p, f q)) (ring_edges r)"
  by (cases r) (simp_all add: ring_edges_def zip_map_map [symmetric])

lemma cross_translate:
  "cross (fst p + a, snd p + b) (fst q + a, snd q + b) =
     cross p q + ((a * snd q - b * fst q) - (a * snd p - b * fst p))"
  by (simp add: cross_def algebra_simps)

lemma sum_cross_translate:
  "sum_list (map (\<lambda>(p, q). cross (fst p + a, snd p + b) (fst q + a, snd q + b)) es) =
   sum_list (map (\<lambda>(p, q). cross p q) es) +
   sum_list (map (\<lambda>(p, q). (a * snd q - b * fst q) - (a * snd p - b * fst p)) es)"
  by (induction es) (auto simp: cross_translate)

lemma signed_area2_translate: "signed_area2 (translate a b r) = signed_area2 r"
  using ring_edges_telescope [of "\<lambda>p. a * snd p - b * fst p" r]
  by (simp add: signed_area2_def translate_def ring_edges_map comp_def case_prod_beta'
      sum_cross_translate [unfolded case_prod_beta'])

lemma ring_area_translate: "ring_area (translate a b r) = ring_area r"
  by (simp add: ring_area_def signed_area2_translate)

lemma polygon_area_translate:
  "polygon_area (translate a b sh) (map (translate a b) hs) = polygon_area sh hs"
  by (simp add: polygon_area_def ring_area_translate comp_def)

lemma geom_area_translate: "geom_area (translate_geom a b g) = geom_area g"
proof (cases g)
  case (MultiPolygon ps)
  then show ?thesis by (induction ps arbitrary: g) (auto simp: polygon_area_translate split: prod.split)
qed (simp add: polygon_area_translate)

text \<open>
  C19: the area does not depend on where the coordinates' origin lies: translating a
  geometry (as a false easting or northing of the projection does) keeps its area.
\<close>

theorem area_km2_translate: "area_km2 (translate_geom a b g) = area_km2 g"
  by (simp add: area_km2_def geom_area_translate)

lemma ring_edges_scaled_cross:
  "sum_list (map (\<lambda>(p, q). cross p q) (ring_edges (map (\<lambda>t. (t * d1, t * d2)) ts))) = 0"
proof -
  have "ring_edges (map (\<lambda>t. (t * d1, t * d2)) ts) =
        map (\<lambda>(p, q). ((fst p * d1, fst p * d2), (fst q * d1, fst q * d2))) (ring_edges (map (\<lambda>t. (t, 0)) ts))"
    using ring_edges_map [of "\<lambda>p. (fst p * d1, fst p * d2)" "map (\<lambda>t. (t, 0)) ts"] by (simp add: comp_def)
  moreover have "cross (s * d1, s * d2) (t * d1, t * d2) = 0" for s t :: rat
    by (simp add: cross_def algebra_simps)
  ultimately show ?thesis by (simp add: comp_def case_prod_beta)
qed

text \<open>
  C20: a shell whose vertices all lie on one line, in particular an empty shell, a
  single point or a segment, has area 0: line 46 returns 0 for such a degenerate
  polygon and the script goes on, where the design (section 4.3) asks for a
  \<open>GeometryError\<close>.
\<close>

theorem area_km2_collinear: "area_km2 (Polygon (map (\<lambda>t. (a + t * d1, b + t * d2)) ts) []) = 0"
proof -
  have "map (\<lambda>t. (a + t * d1, b + t * d2)) ts = translate a b (map (\<lambda>t. (t * d1, t * d2)) ts)"
    by (simp add: translate_def add.commute)
  moreover have "signed_area2 (map (\<lambda>t. (t * d1, t * d2)) ts) = 0"
    by (simp add: signed_area2_def ring_edges_scaled_cross)
  ultimately have "signed_area2 (map (\<lambda>t. (a + t * d1, b + t * d2)) ts) = 0"
    by (simp add: signed_area2_translate)
  then show ?thesis by (simp add: area_km2_def polygon_area_def ring_area_def)
qed

text \<open>
  C21: an axis-parallel rectangle with sides \<open>w\<close> and \<open>h\<close> metres has an area of
  \<open>|w h| / 10^6\<close> square kilometres.
\<close>

theorem area_km2_rectangle:
  "area_km2 (Polygon [(x, y), (x + w, y), (x + w, y + h), (x, y + h)] []) = \<bar>w * h\<bar> / 1000000"
proof -
  have "signed_area2 [(x, y), (x + w, y), (x + w, y + h), (x, y + h)] = 2 * (w * h)"
    by (simp add: signed_area2_def ring_edges_def cross_def algebra_simps)
  then show ?thesis by (simp add: area_km2_def polygon_area_def ring_area_def abs_mult)
qed

text \<open>
  Repeating the first vertex at the end of a ring, as GeoJSON does, does not change
  its area.
\<close>

lemma ring_area_closed: "r \<noteq> [] \<Longrightarrow> ring_area (r @ [hd r]) = ring_area r"
proof (cases r)
  case (Cons p ps)
  then have "ring_edges (r @ [hd r]) = ring_edges r @ [(p, p)]"
    using zip_append [of "p # ps" "ps @ [p]" "[p]" "[p]"] by (simp add: ring_edges_def)
  then show ?thesis by (simp add: ring_area_def signed_area2_def cross_def)
qed simp


lemma signed_area2_rotate: "signed_area2 (ps @ [p]) = signed_area2 (p # ps)"
proof (cases ps)
  case (Cons q qs)
  have "zip (q # qs @ [p]) (qs @ [p, q]) = zip (q # qs) (qs @ [p]) @ [(p, q)]"
    using zip_append [of "q # qs" "qs @ [p]" "[p]" "[q]"] by simp
  with Cons show ?thesis by (simp add: signed_area2_def ring_edges_def)
qed simp

lemma zip_tl_snoc:
  "zip (xs @ [y]) (tl (xs @ [y])) = zip xs (tl xs) @ (if xs = [] then [] else [(last xs, y)])"
  by (induction xs rule: induct_list012) auto

lemma zip_tl_Cons:
  "zip (x # xs) (tl (x # xs)) = (if xs = [] then [] else (x, hd xs) # zip xs (tl xs))"
  by (cases xs) auto

text \<open>The sum of cross products along an open chain changes sign when it is reversed.\<close>

lemma chain_rev:
  "sum_list (map (\<lambda>(p, q). cross p q) (zip (rev xs) (tl (rev xs)))) =
   - sum_list (map (\<lambda>(p, q). cross p q) (zip xs (tl xs)))"
proof (induction xs)
  case (Cons x xs)
  then show ?case
    by (simp only: rev.simps zip_tl_snoc zip_tl_Cons)
       (auto simp: cross_def last_rev algebra_simps)
qed simp

lemma ring_edges_chain: "ring_edges (p # ps) = zip (p # ps @ [p]) (tl (p # ps @ [p]))"
  using zip_append1 [of "p # ps" "[p]" "ps @ [p]"] by (simp add: ring_edges_def)

lemma signed_area2_rev: "signed_area2 (rev r) = - signed_area2 r"
proof (cases r)
  case (Cons p ps)
  have "signed_area2 (rev r) = signed_area2 (p # rev ps)"
    using Cons signed_area2_rotate [of "rev ps" p] by simp
  also have "\<dots> = - signed_area2 r"
    using chain_rev [of "p # ps @ [p]"] Cons by (simp add: signed_area2_def ring_edges_chain)
  finally show ?thesis .
qed (simp add: signed_area2_def ring_edges_def)

lemma ring_area_rev: "ring_area (rev r) = ring_area r"
  by (simp add: ring_area_def signed_area2_rev)

lemma polygon_area_rev: "polygon_area (rev sh) (map rev hs) = polygon_area sh hs"
  by (simp add: polygon_area_def ring_area_rev comp_def)

text \<open>
  C30: the area does not depend on the orientation of the rings: GeoJSON (RFC 7946)
  asks for counter-clockwise shells and clockwise holes, older files use the opposite
  winding, and both give the same area.
\<close>

theorem area_km2_reverse: "area_km2 (reverse_geom g) = area_km2 g"
proof (cases g)
  case (MultiPolygon ps)
  then show ?thesis
    by (simp add: area_km2_def comp_def case_prod_beta' polygon_area_rev)
qed (simp add: area_km2_def polygon_area_rev)

end
