(* ===== verification/Render.thy ===== *)
theory Render
  imports Area
begin

text \<open>
  The map of \<^verbatim>\<open>src/main.py\<close>, lines 44--49 and 72--101. The geometry library is an
  interface: \<open>to_tm35fin\<close> and \<open>to_wgs84\<close> are the coordinate transformations
  of \<open>to_crs(epsg=3067)\<close> and \<open>to_crs(epsg=4326)\<close> (pyproj), which
  geopandas applies to every vertex, and
  \<open>representative_point\<close> is shapely's point inside a geometry. Both are parameters,
  so every lemma about the map holds for any library that provides them.
  The folium objects are values: a map is its location, zoom and the children added to
  it in order (\<open>add_to\<close>). A marker is placed at \<open>[pt.y, pt.x]\<close>, that is
  latitude first. The loop of lines 84--98 computes a popup per row, which may raise;
  the first exception ends the loop and no map is saved.
\<close>

record geo_lib =
  to_tm35fin :: "point \<Rightarrow> point"
  to_wgs84 :: "point \<Rightarrow> point"
  representative_point :: "geometry \<Rightarrow> point"

text \<open>\<open>GeoDataFrame.to_crs\<close> on one geometry: every vertex transformed.\<close>

fun geom_map :: "(point \<Rightarrow> point) \<Rightarrow> geometry \<Rightarrow> geometry" where
  "geom_map f (Polygon sh hs) = Polygon (map f sh) (map (map f) hs)"
| "geom_map f (MultiPolygon ps) = MultiPolygon (map (\<lambda>(sh, hs). (map f sh, map (map f) hs)) ps)"

text \<open>\<open>folium.Icon(color, icon)\<close> and the children a map can hold.\<close>

datatype icon = Icon ustr ustr

datatype map_child =
    GeoJsonLayer ustr "geometry list"
  | Marker "rat \<times> rat" ustr nat icon
  | LayerControl

record folium_map =
  location :: "rat \<times> rat"
  zoom_start :: nat
  children :: "map_child list"

text \<open>Line 73: \<open>folium.Map(location=[64.5, 26.0], zoom_start=5)\<close>.\<close>

definition new_map :: folium_map where
  "new_map = \<lparr>location = (129 / 2, 26), zoom_start = 5, children = []\<rparr>"

text \<open>\<open>.add_to(m)\<close>: the child is added after the ones already there.\<close>

definition add_to :: "map_child \<Rightarrow> folium_map \<Rightarrow> folium_map" where
  "add_to c m = m\<lparr>children := children m @ [c]\<rparr>"

text \<open>Lines 90--98: a marker at \<open>[pt.y, pt.x]\<close> with its popup of width 320.\<close>

definition marker :: "point \<Rightarrow> ustr \<Rightarrow> map_child" where
  "marker pt popup = Marker (snd pt, fst pt) popup 320 (Icon (ascii ''blue'') (ascii ''info-sign''))"

text \<open>
  Lines 73--100 over the rows of the merged frame, of any type \<open>'r\<close>: the layer of
  their geometries (lines 76--79), the representative points (line 82), the loop of
  markers whose popup text may raise (lines 84--98), and the layer control (line 100).
\<close>

definition render ::
  "geo_lib \<Rightarrow> ('r \<Rightarrow> geometry) \<Rightarrow> ('r \<Rightarrow> 'e + ustr) \<Rightarrow> 'r list \<Rightarrow> 'e + folium_map" where
  "render lib geom popup rows =
     (let m = add_to (GeoJsonLayer (ascii ''Kuntarajat'') (map geom rows)) new_map;
          points = map (\<lambda>r. representative_point lib (geom r)) rows
      in case fold_result (\<lambda>m (r, pt). case popup r of Inl e \<Rightarrow> Inl e | Inr p \<Rightarrow> Inr (add_to (marker pt p) m))
                m (zip rows points) of
           Inl e \<Rightarrow> Inl e
         | Inr m \<Rightarrow> Inr (add_to LayerControl m))"

text \<open>The popup texts of a map's markers, in order.\<close>

fun marker_text :: "map_child \<Rightarrow> ustr list" where
  "marker_text (Marker loc p w ic) = [p]"
| "marker_text (GeoJsonLayer n gs) = []"
| "marker_text LayerControl = []"

definition map_popups :: "folium_map \<Rightarrow> ustr list" where
  "map_popups m = concat (map marker_text (children m))"

text \<open>
  The map the script saves when every popup succeeds, with popup texts \<open>tx\<close>: the
  boundary layer, one marker per row in order, the layer control.
\<close>

definition rendered :: "geo_lib \<Rightarrow> ('r \<Rightarrow> geometry) \<Rightarrow> ('r \<Rightarrow> ustr) \<Rightarrow> 'r list \<Rightarrow> folium_map" where
  "rendered lib geom tx rows =
     \<lparr>location = (129 / 2, 26), zoom_start = 5,
      children = GeoJsonLayer (ascii ''Kuntarajat'') (map geom rows) #
                 map (\<lambda>r. marker (representative_point lib (geom r)) (tx r)) rows @ [LayerControl]\<rparr>"

section \<open>Properties of the map\<close>

lemma fold_markers_ok:
  "(\<forall>r \<in> set rows. popup r = Inr (tx r)) \<Longrightarrow> length pts = length rows \<Longrightarrow>
   fold_result (\<lambda>m (r, pt). case popup r of Inl e \<Rightarrow> Inl e | Inr p \<Rightarrow> Inr (add_to (marker pt p) m)) m (zip rows pts) =
   Inr (m\<lparr>children := children m @ map2 (\<lambda>r pt. marker pt (tx r)) rows pts\<rparr>)"
proof (induction rows arbitrary: pts m)
  case (Cons r rows)
  then obtain pt pts' where "pts = pt # pts'" by (cases pts) auto
  with Cons show ?case by (simp add: add_to_def)
qed simp

lemma fold_markers_error:
  "popup r = Inl e \<Longrightarrow> \<forall>r' \<in> set pre. \<exists>t. popup r' = Inr t \<Longrightarrow> length pts = length (pre @ r # post) \<Longrightarrow>
   fold_result (\<lambda>m (r, pt). case popup r of Inl e \<Rightarrow> Inl e | Inr p \<Rightarrow> Inr (add_to (marker pt p) m)) m
     (zip (pre @ r # post) pts) = Inl e"
proof (induction pre arbitrary: pts m)
  case Nil
  then obtain pt pts' where "pts = pt # pts'" by (cases pts) auto
  with Nil show ?case by simp
next
  case (Cons r' pre)
  then obtain pt pts' where p: "pts = pt # pts'" by (cases pts) auto
  from Cons.prems obtain t where "popup r' = Inr t" by auto
  with Cons p show ?case by simp
qed

lemma map2_points: "map2 (\<lambda>r pt. f r pt) rows (map g rows) = map (\<lambda>r. f r (g r)) rows"
  by (induction rows) simp_all

text \<open>When every popup succeeds: the layer, one marker per row in order, the control.\<close>

lemma render_ok:
  "\<forall>r \<in> set rows. popup r = Inr (tx r) \<Longrightarrow> render lib geom popup rows = Inr (rendered lib geom tx rows)"
  using fold_markers_ok [of rows popup tx "map (\<lambda>r. representative_point lib (geom r)) rows"]
  by (simp add: render_def rendered_def Let_def add_to_def new_map_def map2_points)

text \<open>When a popup raises, the exception of the first such row is the result.\<close>

lemma render_error:
  assumes "find (\<lambda>r. isl (popup r)) rows = Some r" and "popup r = Inl e"
  shows "render lib geom popup rows = Inl e"
proof -
  from assms(1) obtain i where i: "i < length rows" "r = rows ! i" "\<forall>j < i. \<not> isl (popup (rows ! j))"
    by (auto simp: find_Some_iff)
  then have rows: "rows = take i rows @ r # drop (Suc i) rows" by (simp add: id_take_nth_drop)
  have "\<forall>r' \<in> set (take i rows). \<exists>t. popup r' = Inr t"
  proof
    fix r' assume "r' \<in> set (take i rows)"
    then obtain j where "j < i" "r' = rows ! j" using i(1) by (auto simp: in_set_conv_nth)
    with i(3) have "\<not> isl (popup r')" by simp
    then show "\<exists>t. popup r' = Inr t" by (cases "popup r'") auto
  qed
  with assms(2) rows show ?thesis
    using fold_markers_error [of popup r e "take i rows" "map (\<lambda>r. representative_point lib (geom r)) rows"
        "drop (Suc i) rows"]
    by (simp add: render_def Let_def)
qed

lemma map_popups_rendered: "map_popups (rendered lib geom tx rows) = map tx rows"
  by (induction rows) (simp_all add: map_popups_def rendered_def marker_def)

text \<open>The map is rendered exactly when no popup raises, and then with their texts.\<close>

lemma render_Inr_iff:
  "render lib geom popup rows = Inr m \<longleftrightarrow>
   (\<forall>r \<in> set rows. \<not> isl (popup r)) \<and> m = rendered lib geom (\<lambda>r. projr (popup r)) rows"
proof (cases "\<forall>r \<in> set rows. \<not> isl (popup r)")
  case True
  then have "\<forall>r \<in> set rows. popup r = Inr (projr (popup r))" by (auto intro: sum.collapse(2) [symmetric])
  then have "render lib geom popup rows = Inr (rendered lib geom (\<lambda>r. projr (popup r)) rows)"
    by (rule render_ok)
  with True show ?thesis by auto
next
  case False
  then obtain r where "find (\<lambda>r. isl (popup r)) rows = Some r" by (cases "find (\<lambda>r. isl (popup r)) rows") (auto simp: find_None_iff)
  moreover from this have "popup r = Inl (projl (popup r))" by (auto simp: find_Some_iff)
  ultimately have "render lib geom popup rows = Inl (projl (popup r))" by (rule render_error)
  with False show ?thesis by simp
qed

lemma render_Inl_iff:
  "render lib geom popup rows = Inl e \<longleftrightarrow> (\<exists>r. find (\<lambda>r. isl (popup r)) rows = Some r \<and> popup r = Inl e)"
proof
  assume l: "render lib geom popup rows = Inl e"
  then have "\<not> (\<forall>r \<in> set rows. \<not> isl (popup r))"
    using render_ok [of rows popup "\<lambda>r. projr (popup r)" lib geom] by (auto intro: sum.collapse(2) [symmetric])
  then obtain r where f: "find (\<lambda>r. isl (popup r)) rows = Some r"
    by (cases "find (\<lambda>r. isl (popup r)) rows") (auto simp: find_None_iff)
  then have "popup r = Inl (projl (popup r))" by (auto simp: find_Some_iff)
  with f l render_error [OF f this] show "\<exists>r. find (\<lambda>r. isl (popup r)) rows = Some r \<and> popup r = Inl e" by auto
next
  assume "\<exists>r. find (\<lambda>r. isl (popup r)) rows = Some r \<and> popup r = Inl e"
  then show "render lib geom popup rows = Inl e" by (auto intro: render_error)
qed

end
