(* ===== verification/Pipeline.thy ===== *)
theory Pipeline
  imports Join Report Format Render
begin

text \<open>
  The script of \<^verbatim>\<open>src/main.py\<close> as one function from its inputs to what it
  prints and what it produces. The inputs are what the I/O library calls return: the
  columns of the boundary file and its features (properties and geometry in the
  file's coordinate reference system), and the population table; the geometry library
  (reprojection to ETRS-TM35FIN and to WGS84, representative points) is the interface
  \<open>geo_lib\<close>. The result is the
  list of printed lines, which the script prints even when it later raises, and
  either the exception or the merged rows with the map saved under its file name.
  The exceptions, in the order the script can raise them: the \<open>ValueError\<close> of line
  41 before anything is printed; a \<open>KeyError\<close> for a population table without the
  \<open>Kunta\<close> or the \<open>Vakiluku\<close> column (lines 55, 58) or for a boundary file that
  has a \<open>Vakiluku\<close> column itself (line 64: the merge renames both columns); the
  \<open>ValueError\<close> of \<open>int()\<close> on line 88, after the report was printed.
\<close>

text \<open>Line 13, the output file.\<close>

definition OUTPUT :: ustr where
  "OUTPUT = ascii ''suomen_kunnat.html''"

text \<open>Lines 35--41: the first of \<open>NAMEFIN\<close>, \<open>Kunta\<close>, \<open>name\<close> present, else the error.\<close>

definition resolve_name_col :: "ustr list \<Rightarrow> script_error + ustr" where
  "resolve_name_col cols =
     (if ascii ''NAMEFIN'' \<in> set cols then Inr (ascii ''NAMEFIN'')
      else if ascii ''Kunta'' \<in> set cols then Inr (ascii ''Kunta'')
      else if ascii ''name'' \<in> set cols then Inr (ascii ''name'')
      else Inl (ValueError cols))"

text \<open>A boundary feature: its attribute properties and its geometry.\<close>

record feature =
  fprops :: "(ustr \<times> cell) list"
  fgeom :: geometry

text \<open>\<open>row[col]\<close>: a property the feature lacks is \<open>NaN\<close> in the GeoDataFrame.\<close>

definition prop_cell :: "feature \<Rightarrow> ustr \<Rightarrow> cell" where
  "prop_cell f col = (case map_of (fprops f) col of Some c \<Rightarrow> c | None \<Rightarrow> CNaN)"

text \<open>Line 45: a feature of \<open>gdf_raw.to_crs(epsg=3067)\<close>, its geometry in ETRS-TM35FIN.\<close>

definition to_tm35fin_feat :: "geo_lib \<Rightarrow> feature \<Rightarrow> feature" where
  "to_tm35fin_feat lib f = f\<lparr>fgeom := geom_map (to_tm35fin lib) (fgeom f)\<rparr>"

text \<open>Line 46: a row of \<open>gdf_metric\<close> with its \<open>Pinta_ala_km2\<close> column.\<close>

record metric_row =
  mfeat :: feature
  mala :: rat

definition with_area :: "feature \<Rightarrow> metric_row" where
  "with_area f = \<lparr>mfeat = f, mala = area_km2 (fgeom f)\<rparr>"

text \<open>Line 49: the row reprojected to WGS84; the area column is kept as computed.\<close>

definition to_wgs84_row :: "geo_lib \<Rightarrow> metric_row \<Rightarrow> metric_row" where
  "to_wgs84_row lib r = r\<lparr>mfeat := (mfeat r)\<lparr>fgeom := geom_map (to_wgs84 lib) (fgeom (mfeat r))\<rparr>\<rparr>"

text \<open>Lines 45--49: the frame \<open>gdf\<close> before the merge.\<close>

definition gdf_rows :: "geo_lib \<Rightarrow> feature list \<Rightarrow> metric_row list" where
  "gdf_rows lib feats = map (\<lambda>f. to_wgs84_row lib (with_area (to_tm35fin_feat lib f))) feats"

text \<open>\<open>row[name_col]\<close> of a row of \<open>gdf\<close>.\<close>

definition name_of :: "ustr \<Rightarrow> metric_row \<Rightarrow> cell" where
  "name_of col r = prop_cell (mfeat r) col"

text \<open>Line 42, and line 102 (the arrow is U+2192).\<close>

definition used_col_msg :: "ustr \<Rightarrow> ustr" where
  "used_col_msg col = ascii ''K'' @ [228] @ ascii ''ytet'' @ [228, 228] @ ascii ''n kunnannimi-saraketta: '' @ col"

definition ok_msg :: ustr where
  "ok_msg = ascii ''OK '' @ [8594, 32] @ OUTPUT"

text \<open>Lines 85--91: the popup of one merged row, or the \<open>ValueError\<close> of \<open>int()\<close>.\<close>

definition marker_popup :: "ustr \<Rightarrow> metric_row \<times> cell \<Rightarrow> script_error + ustr" where
  "marker_popup col rv =
     (case popup_html (name_of col (fst rv)) (mala (fst rv)) (snd rv) of
        Some t \<Rightarrow> Inr t
      | None \<Rightarrow> Inl (IntValueError (snd rv)))"

record run_output =
  merged :: "(metric_row \<times> cell) list"
  saved :: "ustr \<times> folium_map"

text \<open>The whole script, lines 31--102: the printed lines and the outcome.\<close>

definition run :: "geo_lib \<Rightarrow> ustr list \<Rightarrow> feature list \<Rightarrow> table \<Rightarrow> ustr list \<times> (script_error + run_output)" where
  "run lib cols feats vak =
     (case resolve_name_col cols of
        Inl e \<Rightarrow> ([], Inl e)
      | Inr col \<Rightarrow>
          (case read_attr_rows vak of
             Inl e \<Rightarrow> ([used_col_msg col], Inl e)
           | Inr rows \<Rightarrow>
               (let joined = join_population (name_of col) ALIASES rows (gdf_rows lib feats)
                in if VAKILUKU \<in> set cols then ([used_col_msg col], Inl (KeyError VAKILUKU))
                   else
                     (let printed = used_col_msg col # report (puuttuvat (name_of col) joined)
                      in case render lib (\<lambda>rv. fgeom (mfeat (fst rv))) (marker_popup col) joined of
                           Inl e \<Rightarrow> (printed, Inl e)
                         | Inr m \<Rightarrow> (printed @ [ok_msg], Inr \<lparr>merged = joined, saved = (OUTPUT, m)\<rparr>)))))"

text \<open>The popup texts of the saved map, in order.\<close>

definition popups :: "run_output \<Rightarrow> ustr list" where
  "popups out = map_popups (snd (saved out))"

text \<open>The ordered list of candidate name columns the design (section 9) asks for.\<close>

definition name_candidates :: "ustr list" where
  "name_candidates = [ascii ''NAMEFIN'', ascii ''Kunta'', ascii ''name'']"

text \<open>
  A reader of the report of lines 65--70: the number of missing municipalities a user
  counts from the printed lines, the name lines plus the number in a trailing
  \<open>... ja N muuta\<close> line.
\<close>

definition report_count :: "ustr list \<Rightarrow> int option" where
  "report_count ls =
     (case ls of [] \<Rightarrow> Some 0
      | h # rest \<Rightarrow>
          if rest \<noteq> [] \<and> take 7 (last rest) = ascii ''... ja ''
          then map_option (\<lambda>k. int (length (butlast rest)) + k)
                 (parse_int (take (length (last rest) - 13) (drop 7 (last rest))))
          else Some (int (length rest)))"

section \<open>Properties of the script\<close>

lemma read_attr_rows_Inl:
  "read_attr_rows t = Inl e \<longleftrightarrow>
   (\<exists>c. find (\<lambda>c. c \<notin> set (tcols t)) [KUNTA, VAKILUKU] = Some c \<and> e = KeyError c)"
  by (auto simp: read_attr_rows_def df_column_def split: if_splits)

lemma read_attr_rows_KeyError: "read_attr_rows t = Inl e \<Longrightarrow> \<exists>c. e = KeyError c"
  by (auto simp: read_attr_rows_Inl)

lemma resolve_name_col_Inl: "resolve_name_col cols = Inl e \<Longrightarrow> e = ValueError cols"
  by (auto simp: resolve_name_col_def split: if_splits)

lemma marker_popup_isl: "isl (marker_popup col rv) \<longleftrightarrow> vak_txt (snd rv) = None"
  by (simp add: marker_popup_def popup_html_def split: option.split)

lemma marker_popup_Inl: "marker_popup col rv = Inl e \<longleftrightarrow> vak_txt (snd rv) = None \<and> e = IntValueError (snd rv)"
  by (auto simp: marker_popup_def popup_html_def split: option.split)

text \<open>The loop of lines 84--98 on the merged rows: the first population \<open>int()\<close> rejects.\<close>

lemma render_marker_popup:
  "render lib geom (marker_popup col) J =
     (case find (\<lambda>rv. vak_txt (snd rv) = None) J of
        Some rv \<Rightarrow> Inl (IntValueError (snd rv))
      | None \<Rightarrow> Inr (rendered lib geom (\<lambda>rv. projr (marker_popup col rv)) J))"
proof (cases "find (\<lambda>rv. vak_txt (snd rv) = None) J")
  case None
  then have "\<forall>rv \<in> set J. \<not> isl (marker_popup col rv)"
    by (metis (mono_tags) find_None_iff marker_popup_isl)
  with None show ?thesis by (simp add: render_Inr_iff)
next
  case (Some rv)
  then have "find (\<lambda>rv. isl (marker_popup col rv)) J = Some rv" by (simp add: marker_popup_isl)
  from Some have "vak_txt (snd rv) = None" by (auto simp: find_Some_iff)
  with Some \<open>find (\<lambda>rv. isl (marker_popup col rv)) J = Some rv\<close> show ?thesis
    by (simp add: render_Inl_iff marker_popup_Inl)
qed

text \<open>The script, each exception and the success as a case of its inputs.\<close>

lemma run_cases:
  "run lib cols feats t =
     (case resolve_name_col cols of
        Inl e \<Rightarrow> ([], Inl e)
      | Inr col \<Rightarrow>
          (case read_attr_rows t of
             Inl e \<Rightarrow> ([used_col_msg col], Inl e)
           | Inr rows \<Rightarrow>
               if VAKILUKU \<in> set cols then ([used_col_msg col], Inl (KeyError VAKILUKU))
               else
                 (let J = join_population (name_of col) ALIASES rows (gdf_rows lib feats);
                      P = used_col_msg col # report (puuttuvat (name_of col) J)
                  in case find (\<lambda>rv. vak_txt (snd rv) = None) J of
                       Some rv \<Rightarrow> (P, Inl (IntValueError (snd rv)))
                     | None \<Rightarrow> (P @ [ok_msg], Inr \<lparr>merged = J, saved = (OUTPUT,
                                 rendered lib (\<lambda>rv. fgeom (mfeat (fst rv))) (\<lambda>rv. projr (marker_popup col rv)) J)\<rparr>))))"
  unfolding run_def render_marker_popup Let_def
  by (simp split: sum.split option.split)

lemma run_Inr_iff:
  "run lib cols feats t = (ps, Inr out) \<longleftrightarrow>
   (\<exists>col rows. resolve_name_col cols = Inr col \<and> read_attr_rows t = Inr rows \<and> VAKILUKU \<notin> set cols \<and>
      find (\<lambda>rv. vak_txt (snd rv) = None) (join_population (name_of col) ALIASES rows (gdf_rows lib feats)) = None \<and>
      ps = used_col_msg col # report (puuttuvat (name_of col) (join_population (name_of col) ALIASES rows (gdf_rows lib feats))) @ [ok_msg] \<and>
      out = \<lparr>merged = join_population (name_of col) ALIASES rows (gdf_rows lib feats),
             saved = (OUTPUT, rendered lib (\<lambda>rv. fgeom (mfeat (fst rv))) (\<lambda>rv. projr (marker_popup col rv))
                                (join_population (name_of col) ALIASES rows (gdf_rows lib feats)))\<rparr>)"
  by (auto simp: run_cases Let_def split: sum.splits option.splits)

text \<open>The definitions that evaluate the script on a concrete input.\<close>

lemmas run_eval_defs = run_cases resolve_name_col_def Let_def join_population_def merge_left_def
  matches_def key_eval_defs prop_cell_def puuttuvat_def report_def marker_popup_def popup_html_def
  report_line_def fmt_1f_def round_half_even_def with_area_def area_km2_def polygon_area_def ring_area_def
  signed_area2_def ring_edges_def cross_def vak_txt_def fmt_comma_def dec_digits.simps
  read_attr_rows_def df_column_def KUNTA_def VAKILUKU_def gdf_rows_def to_wgs84_row_def name_of_def to_tm35fin_feat_def
  rendered_def popups_def map_popups_def marker_def OUTPUT_def py_int_str_def is_digit_def digits_val_def


text \<open>
  C27: the script raises the \<open>ValueError\<close> of line 41 exactly when no candidate name
  column exists, with the list of columns, and then it has printed nothing.
\<close>

theorem run_error_iff:
  "run lib cols feats t = (ps, Inl (ValueError cs)) \<longleftrightarrow>
   ps = [] \<and> cs = cols \<and> list_all (\<lambda>c. c \<notin> set cols) name_candidates"
proof (cases "resolve_name_col cols")
  case (Inl e)
  then have "e = ValueError cols" by (rule resolve_name_col_Inl)
  with Inl show ?thesis
    by (auto simp: run_cases resolve_name_col_def name_candidates_def split: if_splits)
next
  case (Inr col)
  then have "\<not> list_all (\<lambda>c. c \<notin> set cols) name_candidates"
    by (auto simp: resolve_name_col_def name_candidates_def split: if_splits)
  moreover have "snd (run lib cols feats t) \<noteq> Inl (ValueError cs)"
    using Inr read_attr_rows_KeyError [of t]
    by (auto simp: run_cases Let_def split: sum.splits option.splits)
  ultimately show ?thesis by auto
qed

text \<open>
  C28: when the script succeeds and no two population rows share a key, its merged
  rows are the boundaries in order, each once, reprojected, with the area computed in
  the metric projection, and the map has one popup per boundary.
\<close>

theorem run_merged_rows:
  assumes "read_attr_rows t = Inr rows" and "distinct (map fst (vak2 ALIASES rows))"
    and "run lib cols feats t = (ps, Inr out)"
  shows "map fst (merged out) = gdf_rows lib feats \<and> length (popups out) = length feats"
proof -
  from assms(3) obtain col where
    "out = \<lparr>merged = join_population (name_of col) ALIASES rows (gdf_rows lib feats),
            saved = (OUTPUT, rendered lib (\<lambda>rv. fgeom (mfeat (fst rv))) (\<lambda>rv. projr (marker_popup col rv))
                               (join_population (name_of col) ALIASES rows (gdf_rows lib feats)))\<rparr>"
    using assms(1) by (auto simp: run_Inr_iff)
  with assms(2) show ?thesis
    by (simp add: join_population_distinct comp_def popups_def map_popups_rendered gdf_rows_def)
qed

lemma parse_int_dec_digits: "parse_int (dec_digits n) = Some (int n)"
  using parse_int_digits [OF dec_digits_digits dec_digits_nonempty, of False n]
  by (simp add: digits_val_dec_digits)

lemma report_line_not_summary: "take 7 (report_line c) \<noteq> ascii ''... ja ''"
  by (simp add: report_line_def)

text \<open>
  C31: the report is an exact count: from the printed lines alone, the name lines and
  the number of the summary line add up to the number of missing municipalities, and
  no name line can be taken for the summary.
\<close>

theorem report_count_report: "report_count (report ps) = Some (int (length ps))"
proof (cases "20 < length ps")
  case True
  let ?d = "dec_digits (length ps - 20)"
  have s: "report_summary (length ps - 20) = ascii ''... ja '' @ ?d @ ascii '' muuta''"
    by (simp add: report_summary_def py_str_int_def)
  have "take (length (report_summary (length ps - 20)) - 13) (drop 7 (report_summary (length ps - 20))) = ?d"
    unfolding s by simp
  moreover have "report ps = report_header # map report_line (take 20 ps) @ [report_summary (length ps - 20)]"
    using True by (rule report_long)
  ultimately show ?thesis
    using True by (simp add: report_count_def s parse_int_dec_digits)
next
  case False
  then show ?thesis
    by (auto simp: report_def report_count_def last_map report_line_not_summary [simplified])
qed

lemma report_length_le: "length (report ps) \<le> 22"
  by (simp add: report_def)

text \<open>
  C32: a run that succeeds prints at least two and at most twenty-four lines, the
  column message first and the success message last, however many municipalities
  are missing.
\<close>

theorem run_stdout_bound:
  "run lib cols feats t = (ps, Inr out) \<Longrightarrow>
   2 \<le> length ps \<and> length ps \<le> 24 \<and> last ps = ok_msg"
  by (auto simp: run_Inr_iff intro: le_trans [OF report_length_le])

theorem run_stdout_bound_witness:
  "run \<lparr>to_tm35fin = \<lambda>p. p, to_wgs84 = \<lambda>p. p, representative_point = \<lambda>g. (0, 0)\<rparr> [ascii ''name''] [] \<lparr>tcols = [KUNTA, VAKILUKU], trows = []\<rparr> =
     ([used_col_msg (ascii ''name''), ok_msg],
      Inr \<lparr>merged = [], saved = (OUTPUT, \<lparr>location = (129 / 2, 26), zoom_start = 5,
                                           children = [GeoJsonLayer (ascii ''Kuntarajat'') [], LayerControl]\<rparr>)\<rparr>) \<and>
   2 \<le> length [used_col_msg (ascii ''name''), ok_msg] \<and> length [used_col_msg (ascii ''name''), ok_msg] \<le> 24"
proof -
  have h: "run \<lparr>to_tm35fin = \<lambda>p. p, to_wgs84 = \<lambda>p. p, representative_point = \<lambda>g. (0, 0)\<rparr> [ascii ''name''] [] \<lparr>tcols = [KUNTA, VAKILUKU], trows = []\<rparr> =
     ([used_col_msg (ascii ''name''), ok_msg],
      Inr \<lparr>merged = [], saved = (OUTPUT, \<lparr>location = (129 / 2, 26), zoom_start = 5,
                                           children = [GeoJsonLayer (ascii ''Kuntarajat'') [], LayerControl]\<rparr>)\<rparr>)"
    by (simp add: run_eval_defs)
  show ?thesis using run_stdout_bound [OF h] h by simp
qed

lemma read_attr_rows_find:
  "find (\<lambda>c. c \<notin> set (tcols t)) [KUNTA, VAKILUKU] = None \<longleftrightarrow> (\<exists>rows. read_attr_rows t = Inr rows)"
  unfolding read_attr_rows_def df_column_def by (auto split: if_splits)

text \<open>
  C35: a successful run saves, under the file name its last line prints, the map
  centred on Finland with the layer of the merged boundaries, then one marker per
  merged row in order, at the representative point of that row's geometry, latitude
  first, carrying that row's popup, then the layer control; the popups are the texts
  of lines 85--91.
\<close>

theorem run_map:
  assumes "run lib cols feats t = (ps, Inr out)"
  shows "\<exists>col. fst (saved out) = OUTPUT \<and> last ps = ascii ''OK '' @ [8594, 32] @ fst (saved out) \<and>
     location (snd (saved out)) = (129 / 2, 26) \<and> zoom_start (snd (saved out)) = 5 \<and>
     children (snd (saved out)) =
       GeoJsonLayer (ascii ''Kuntarajat'') (map (\<lambda>rv. fgeom (mfeat (fst rv))) (merged out)) #
       map2 (\<lambda>rv p. Marker (snd (representative_point lib (fgeom (mfeat (fst rv)))),
                             fst (representative_point lib (fgeom (mfeat (fst rv))))) p 320
                       (Icon (ascii ''blue'') (ascii ''info-sign''))) (merged out) (popups out) @
       [LayerControl] \<and>
     map (marker_popup col) (merged out) = map Inr (popups out)"
proof -
  from assms obtain col rows where
    none: "find (\<lambda>rv. vak_txt (snd rv) = None) (join_population (name_of col) ALIASES rows (gdf_rows lib feats)) = None"
    and ps: "last ps = ok_msg"
    and out: "out = \<lparr>merged = join_population (name_of col) ALIASES rows (gdf_rows lib feats),
            saved = (OUTPUT, rendered lib (\<lambda>rv. fgeom (mfeat (fst rv))) (\<lambda>rv. projr (marker_popup col rv))
                               (join_population (name_of col) ALIASES rows (gdf_rows lib feats)))\<rparr>"
    by (auto simp: run_Inr_iff)
  define J where "J = join_population (name_of col) ALIASES rows (gdf_rows lib feats)"
  have ok: "\<forall>rv \<in> set J. \<not> isl (marker_popup col rv)"
    using none unfolding J_def by (metis (mono_tags) find_None_iff marker_popup_isl)
  then have "map (marker_popup col) J = map Inr (map (\<lambda>rv. projr (marker_popup col rv)) J)"
    by (induction J) auto
  moreover have "popups out = map (\<lambda>rv. projr (marker_popup col rv)) J"
    by (simp add: out J_def popups_def map_popups_rendered)
  ultimately show ?thesis
    using ps unfolding out J_def [symmetric]
    by (auto simp: rendered_def map2_points ok_msg_def marker_def)
qed

text \<open>
  C36: the script raises \<open>KeyError\<close> exactly when it found a name column and then
  the population table lacks \<open>Kunta\<close> or \<open>Vakiluku\<close> (the first one missing), or
  the boundary file has a \<open>Vakiluku\<close> column of its own, which the merge renames
  so that line 64 does not find it; it has printed only the column message.
\<close>

theorem run_key_error_iff:
  "run lib cols feats t = (ps, Inl (KeyError c)) \<longleftrightarrow>
   (\<exists>col. resolve_name_col cols = Inr col \<and> ps = [used_col_msg col] \<and>
      (find (\<lambda>c. c \<notin> set (tcols t)) [KUNTA, VAKILUKU] = Some c \<or>
       find (\<lambda>c. c \<notin> set (tcols t)) [KUNTA, VAKILUKU] = None \<and> VAKILUKU \<in> set cols \<and> c = VAKILUKU))"
proof (cases "resolve_name_col cols")
  case (Inl e)
  then have "e = ValueError cols" by (rule resolve_name_col_Inl)
  with Inl show ?thesis by (simp add: run_cases)
next
  case (Inr col)
  show ?thesis
  proof (cases "read_attr_rows t")
    case (Inl e)
    then show ?thesis using Inr read_attr_rows_Inl [of t e] by (auto simp: run_cases)
  next
    case (Inr rows)
    then have "find (\<lambda>c. c \<notin> set (tcols t)) [KUNTA, VAKILUKU] = None"
      using read_attr_rows_find [of t] by blast
    with Inr \<open>resolve_name_col cols = Inr col\<close> show ?thesis
      by (auto simp: run_cases Let_def split: option.splits)
  qed
qed

text \<open>
  C37: the script raises the \<open>ValueError\<close> of \<open>int()\<close> exactly when a merged row
  holds a population text that \<open>int()\<close> rejects; the exception is for the first such
  row, after the column message and the whole report were printed, and no map is
  saved.
\<close>

theorem run_popup_error_iff:
  "run lib cols feats t = (ps, Inl (IntValueError c)) \<longleftrightarrow>
   (\<exists>col rows rv. resolve_name_col cols = Inr col \<and> read_attr_rows t = Inr rows \<and> VAKILUKU \<notin> set cols \<and>
      find (\<lambda>rv. vak_txt (snd rv) = None) (join_population (name_of col) ALIASES rows (gdf_rows lib feats)) = Some rv \<and>
      c = snd rv \<and>
      ps = used_col_msg col # report (puuttuvat (name_of col) (join_population (name_of col) ALIASES rows (gdf_rows lib feats))))"
proof (cases "resolve_name_col cols")
  case (Inl e)
  then have "e = ValueError cols" by (rule resolve_name_col_Inl)
  with Inl show ?thesis by (simp add: run_cases)
next
  case (Inr col)
  show ?thesis
  proof (cases "read_attr_rows t")
    case (Inl e)
    with read_attr_rows_KeyError obtain k where "e = KeyError k" by blast
    with Inl Inr show ?thesis by (simp add: run_cases)
  next
    case (Inr rows)
    with \<open>resolve_name_col cols = Inr col\<close> show ?thesis
      by (auto simp: run_cases Let_def split: option.splits)
  qed
qed

text \<open>
  C16: a run in which no boundary's key is among the population keys (a population
  table of another year, or of another language, or with no rows) still succeeds: every
  boundary is reported missing, in order, every merged row has \<open>NaN\<close>, and every
  popup shows the en dash for the population.
\<close>

theorem run_no_match:
  assumes "resolve_name_col cols = Inr col" and "read_attr_rows t = Inr rows" and "VAKILUKU \<notin> set cols"
    and "\<forall>r \<in> set (gdf_rows lib feats). geo_key (name_of col r) \<notin> fst ` set (vak2 ALIASES rows)"
  shows "\<exists>m. run lib cols feats t =
      (used_col_msg col # report (map (name_of col) (gdf_rows lib feats)) @ [ok_msg],
       Inr \<lparr>merged = map (\<lambda>r. (r, CNaN)) (gdf_rows lib feats), saved = (OUTPUT, m)\<rparr>) \<and>
    map_popups m = map (\<lambda>r. ascii ''<b>'' @ py_str (name_of col r) @ ascii ''</b><br>Pinta-ala: '' @
      fmt_1f (mala r) @ ascii '' km'' @ [178] @ ascii ''<br>V'' @ [228] @ ascii ''kiluku: '' @ [8211]) (gdf_rows lib feats)"
proof -
  let ?G = "gdf_rows lib feats"
  have J: "join_population (name_of col) ALIASES rows ?G = map (\<lambda>r. (r, CNaN)) ?G"
    using assms(4) by (rule join_population_no_match)
  have f: "find (\<lambda>rv. vak_txt (snd rv) = None) (map (\<lambda>r. (r, CNaN)) ?G) = None"
    by (simp add: find_None_iff vak_txt_def)
  let ?m = "rendered lib (\<lambda>rv. fgeom (mfeat (fst rv))) (\<lambda>rv. projr (marker_popup col rv)) (map (\<lambda>r. (r, CNaN)) ?G)"
  have r: "run lib cols feats t = (used_col_msg col # report (map (name_of col) ?G) @ [ok_msg],
       Inr \<lparr>merged = map (\<lambda>r. (r, CNaN)) ?G, saved = (OUTPUT, ?m)\<rparr>)"
    using assms(1-3) by (simp add: run_cases J f puuttuvat_all_missing Let_def)
  have "map_popups ?m = map (\<lambda>r. ascii ''<b>'' @ py_str (name_of col r) @ ascii ''</b><br>Pinta-ala: '' @
      fmt_1f (mala r) @ ascii '' km'' @ [178] @ ascii ''<br>V'' @ [228] @ ascii ''kiluku: '' @ [8211]) ?G"
    by (simp add: map_popups_rendered marker_popup_def popup_html_def vak_txt_def)
  with r show ?thesis by blast
qed

lemma join_population_fst_in: "(r, v) \<in> set (join_population name tbl vak bs) \<Longrightarrow> r \<in> set bs"
  by (auto simp: join_population_def merge_left_def split: list.splits)

text \<open>
  C29: lines 45--49 in the order the design asks for (section 4.3): in a successful
  run, every merged row comes from a boundary of the file, its \<open>Pinta_ala_km2\<close> is
  the area of that boundary reprojected to ETRS-TM35FIN, measured before the
  reprojection to WGS84, and the geometry it carries to the map is the WGS84
  reprojection of the metric one, with the boundary's properties unchanged.
\<close>

theorem run_area_metric:
  assumes "run lib cols feats t = (ps, Inr out)"
  shows "\<forall>(r, v) \<in> set (merged out). \<exists>f \<in> set feats.
     mala r = area_km2 (geom_map (to_tm35fin lib) (fgeom f)) \<and>
     fgeom (mfeat r) = geom_map (to_wgs84 lib) (geom_map (to_tm35fin lib) (fgeom f)) \<and>
     fprops (mfeat r) = fprops f"
proof (clarify)
  fix r v
  assume rv: "(r, v) \<in> set (merged out)"
  from assms obtain col rows where "merged out = join_population (name_of col) ALIASES rows (gdf_rows lib feats)"
    by (auto simp: run_Inr_iff)
  with rv have "r \<in> set (gdf_rows lib feats)" by (auto dest: join_population_fst_in)
  then obtain f where "f \<in> set feats" "r = to_wgs84_row lib (with_area (to_tm35fin_feat lib f))"
    by (auto simp: gdf_rows_def)
  then show "\<exists>f \<in> set feats. mala r = area_km2 (geom_map (to_tm35fin lib) (fgeom f)) \<and>
     fgeom (mfeat r) = geom_map (to_wgs84 lib) (geom_map (to_tm35fin lib) (fgeom f)) \<and>
     fprops (mfeat r) = fprops f"
    by (auto simp: to_wgs84_row_def with_area_def to_tm35fin_feat_def)
qed

end
