(* ===== verification/Script.thy ===== *)
theory Script
  imports Pipeline
begin

text \<open>
  The script of \<^verbatim>\<open>src/main.py\<close> as a machine that executes its top-level
  statements one at a time. The state holds the program counter (the next statement,
  or the end: the last line done or an exception raised), the lines printed so far,
  the file store, and the module variables the statements assign (\<open>gdf_raw\<close>,
  \<open>name_col\<close>, \<open>gdf\<close>, \<open>vak\<close>, the merged frame, the map \<open>m\<close> and the rows the
  marker loop has still to visit). The step relation \<open>script_step\<close> has one rule per
  statement and outcome, in the order of the source. The file store gives, for a path,
  what the I/O library reads from it (a boundary file as its columns and features, a
  population file as its table) and the maps written; parsing the file text is not
  modelled.
\<close>

text \<open>Lines 11--12: the input files.\<close>

definition GEOJSON :: ustr where
  "GEOJSON = ascii ''kuntarajat-2018-raw.geojson''"

definition CSV :: ustr where
  "CSV = ascii ''vakiluku.csv''"

record file_store =
  geo_files :: "ustr \<Rightarrow> (ustr list \<times> feature list) option"
  csv_files :: "ustr \<Rightarrow> table option"
  html_files :: "ustr \<Rightarrow> folium_map option"

text \<open>The statements of the script, by their lines, and the two ways it ends.\<close>

datatype label =
    ReadGeo | NameCol | Metric | Wgs84 | ReadCsv | Keys | Merge | Report | MapInit
  | Markers | Control | Save | PrintOk | Exit | Raised script_error

record script_state =
  pc :: label
  stdout :: "ustr list"
  files :: file_store
  gdf_cols :: "ustr list"
  gdf_raw :: "feature list"
  name_col :: ustr
  gdf :: "metric_row list"
  vak :: table
  vak_rows :: "attr_row list"
  merged_gdf :: "(metric_row \<times> cell) list"
  fmap :: folium_map
  todo :: "((metric_row \<times> cell) \<times> point) list"

definition init_state :: "file_store \<Rightarrow> script_state" where
  "init_state F =
     \<lparr>pc = ReadGeo, stdout = [], files = F, gdf_cols = [], gdf_raw = [], name_col = [], gdf = [],
      vak = \<lparr>tcols = [], trows = []\<rparr>, vak_rows = [], merged_gdf = [], fmap = new_map, todo = []\<rparr>"

text \<open>The geometry column of a merged row.\<close>

definition row_geom :: "metric_row \<times> cell \<Rightarrow> geometry" where
  "row_geom rv = fgeom (mfeat (fst rv))"

inductive script_step :: "geo_lib \<Rightarrow> script_state \<Rightarrow> script_state \<Rightarrow> bool" for lib where
  read_geo_missing:
    "pc s = ReadGeo \<Longrightarrow> geo_files (files s) GEOJSON = None \<Longrightarrow>
     script_step lib s (s\<lparr>pc := Raised (NoSuchFile GEOJSON)\<rparr>)"
| read_geo:
    "pc s = ReadGeo \<Longrightarrow> geo_files (files s) GEOJSON = Some (cs, fts) \<Longrightarrow>
     script_step lib s (s\<lparr>pc := NameCol, gdf_cols := cs, gdf_raw := fts\<rparr>)"
| name_col_error:
    "pc s = NameCol \<Longrightarrow> resolve_name_col (gdf_cols s) = Inl e \<Longrightarrow>
     script_step lib s (s\<lparr>pc := Raised e\<rparr>)"
| name_col:
    "pc s = NameCol \<Longrightarrow> resolve_name_col (gdf_cols s) = Inr c \<Longrightarrow>
     script_step lib s (s\<lparr>pc := Metric, name_col := c, stdout := stdout s @ [used_col_msg c]\<rparr>)"
| metric:
    "pc s = Metric \<Longrightarrow>
     script_step lib s (s\<lparr>pc := Wgs84, gdf := map (\<lambda>f. with_area (to_tm35fin_feat lib f)) (gdf_raw s)\<rparr>)"
| wgs84:
    "pc s = Wgs84 \<Longrightarrow> script_step lib s (s\<lparr>pc := ReadCsv, gdf := map (to_wgs84_row lib) (gdf s)\<rparr>)"
| read_csv_missing:
    "pc s = ReadCsv \<Longrightarrow> csv_files (files s) CSV = None \<Longrightarrow>
     script_step lib s (s\<lparr>pc := Raised (NoSuchFile CSV)\<rparr>)"
| read_csv:
    "pc s = ReadCsv \<Longrightarrow> csv_files (files s) CSV = Some t \<Longrightarrow>
     script_step lib s (s\<lparr>pc := Keys, vak := t\<rparr>)"
| keys_error:
    "pc s = Keys \<Longrightarrow> read_attr_rows (vak s) = Inl e \<Longrightarrow> script_step lib s (s\<lparr>pc := Raised e\<rparr>)"
| keys:
    "pc s = Keys \<Longrightarrow> read_attr_rows (vak s) = Inr rows \<Longrightarrow>
     script_step lib s (s\<lparr>pc := Merge, vak_rows := rows\<rparr>)"
| merge:
    "pc s = Merge \<Longrightarrow>
     script_step lib s (s\<lparr>pc := Report,
       merged_gdf := join_population (name_of (name_col s)) ALIASES (vak_rows s) (gdf s)\<rparr>)"
| report_error:
    "pc s = Report \<Longrightarrow> VAKILUKU \<in> set (gdf_cols s) \<Longrightarrow>
     script_step lib s (s\<lparr>pc := Raised (KeyError VAKILUKU)\<rparr>)"
| report:
    "pc s = Report \<Longrightarrow> VAKILUKU \<notin> set (gdf_cols s) \<Longrightarrow>
     script_step lib s (s\<lparr>pc := MapInit,
       stdout := stdout s @ report (puuttuvat (name_of (name_col s)) (merged_gdf s))\<rparr>)"
| map_init:
    "pc s = MapInit \<Longrightarrow>
     script_step lib s (s\<lparr>pc := Markers,
       fmap := add_to (GeoJsonLayer (ascii ''Kuntarajat'') (map row_geom (merged_gdf s))) new_map,
       todo := zip (merged_gdf s) (map (\<lambda>rv. representative_point lib (row_geom rv)) (merged_gdf s))\<rparr>)"
| marker_error:
    "pc s = Markers \<Longrightarrow> todo s = (rv, pt) # rest \<Longrightarrow> marker_popup (name_col s) rv = Inl e \<Longrightarrow>
     script_step lib s (s\<lparr>pc := Raised e\<rparr>)"
| marker_add:
    "pc s = Markers \<Longrightarrow> todo s = (rv, pt) # rest \<Longrightarrow> marker_popup (name_col s) rv = Inr p \<Longrightarrow>
     script_step lib s (s\<lparr>fmap := add_to (marker pt p) (fmap s), todo := rest\<rparr>)"
| markers_done:
    "pc s = Markers \<Longrightarrow> todo s = [] \<Longrightarrow> script_step lib s (s\<lparr>pc := Control\<rparr>)"
| control:
    "pc s = Control \<Longrightarrow> script_step lib s (s\<lparr>pc := Save, fmap := add_to LayerControl (fmap s)\<rparr>)"
| save:
    "pc s = Save \<Longrightarrow>
     script_step lib s (s\<lparr>pc := PrintOk, files := (files s)\<lparr>html_files := (html_files (files s))(OUTPUT \<mapsto> fmap s)\<rparr>\<rparr>)"
| print_ok:
    "pc s = PrintOk \<Longrightarrow> script_step lib s (s\<lparr>pc := Exit, stdout := stdout s @ [ok_msg]\<rparr>)"

code_pred script_step .

text \<open>The script has ended: after its last line, or with an exception.\<close>

definition final :: "script_state \<Rightarrow> bool" where
  "final s \<longleftrightarrow> (case pc s of Exit \<Rightarrow> True | Raised e \<Rightarrow> True | _ \<Rightarrow> False)"

text \<open>What an ended run shows: the printed lines, and the exception or the merged frame
  with the map saved under \<open>OUTPUT\<close>.\<close>

definition observe :: "script_state \<Rightarrow> ustr list \<times> (script_error + run_output)" where
  "observe s = (stdout s, case pc s of Raised e \<Rightarrow> Inl e
                   | _ \<Rightarrow> Inr \<lparr>merged = merged_gdf s, saved = (OUTPUT, fmap s)\<rparr>)"

section \<open>Properties of the machine\<close>

inductive_cases script_stepE: "script_step lib s s'"

lemma script_step_deterministic: "script_step lib s s1 \<Longrightarrow> script_step lib s s2 \<Longrightarrow> s2 = s1"
  by (induction rule: script_step.induct) (auto elim!: script_stepE)

lemma final_no_step: "final s \<Longrightarrow> \<not> script_step lib s s'"
  by (auto simp: final_def elim: script_stepE)

lemma script_progress:
  assumes "\<not> final s" shows "\<exists>s'. script_step lib s s'"
proof (cases "pc s")
  case ReadGeo
  then show ?thesis by (cases "geo_files (files s) GEOJSON") (auto intro: script_step.intros)
next
  case NameCol
  then show ?thesis by (cases "resolve_name_col (gdf_cols s)") (auto intro: script_step.intros)
next
  case ReadCsv
  then show ?thesis by (cases "csv_files (files s) CSV") (auto intro: script_step.intros)
next
  case Keys
  then show ?thesis by (cases "read_attr_rows (vak s)") (auto intro: script_step.intros)
next
  case Report
  then show ?thesis by (cases "VAKILUKU \<in> set (gdf_cols s)") (auto intro: script_step.intros)
next
  case Markers
  show ?thesis
  proof (cases "todo s")
    case (Cons x rest)
    moreover obtain rv pt where "x = (rv, pt)" by (cases x) blast
    ultimately show ?thesis
      using Markers by (cases "marker_popup (name_col s) rv") (auto intro: script_step.intros)
  qed (use Markers in \<open>auto intro: script_step.intros\<close>)
qed (insert assms, auto simp: final_def intro: script_step.intros)

lemma final_unique:
  "(script_step lib)\<^sup>*\<^sup>* s f \<Longrightarrow> final f \<Longrightarrow> (script_step lib)\<^sup>*\<^sup>* s g \<Longrightarrow> final g \<Longrightarrow> g = f"
proof (induction rule: converse_rtranclp_induct)
  case base
  then show ?case by (metis converse_rtranclpE final_no_step)
next
  case (step s s1)
  note IH = step.IH [OF step.prems(1)] and g = step.prems(3)
  from step.prems(2) show ?case
  proof (cases rule: converse_rtranclpE)
    case base
    with step.hyps(1) g show ?thesis by (auto dest: final_no_step)
  next
    case (step s2)
    with \<open>script_step lib s s1\<close> have "s2 = s1" by (blast intro: script_step_deterministic)
    with step IH g show ?thesis by blast
  qed
qed

lemma row_geom_eta: "row_geom = (\<lambda>rv. fgeom (mfeat (fst rv)))"
  by (simp add: fun_eq_iff row_geom_def)

text \<open>The marker loop of lines 84--98 runs the fold of \<open>render\<close>: it ends at the
  first popup that raises, or after the last row with every marker added.\<close>

lemma markers_loop:
  "pc s = Markers \<Longrightarrow>
   \<exists>s'. (script_step lib)\<^sup>*\<^sup>* s s' \<and> stdout s' = stdout s \<and> files s' = files s \<and> merged_gdf s' = merged_gdf s \<and>
     (case fold_result (\<lambda>m (r, pt). case marker_popup (name_col s) r of Inl e \<Rightarrow> Inl e | Inr p \<Rightarrow> Inr (add_to (marker pt p) m))
             (fmap s) (todo s) of
        Inl e \<Rightarrow> pc s' = Raised e
      | Inr m \<Rightarrow> pc s' = Control \<and> fmap s' = m)"
proof (induction "todo s" arbitrary: s)
  case Nil
  then have "script_step lib s (s\<lparr>pc := Control\<rparr>)" by (auto intro: script_step.markers_done)
  with Nil show ?case by (intro exI [of _ "s\<lparr>pc := Control\<rparr>"]) auto
next
  case (Cons x rest)
  obtain rv pt where x: "x = (rv, pt)" by (cases x) blast
  with Cons.hyps(2) have t: "todo s = (rv, pt) # rest" by simp
  show ?case
  proof (cases "marker_popup (name_col s) rv")
    case (Inl e)
    have "script_step lib s (s\<lparr>pc := Raised e\<rparr>)" by (rule script_step.marker_error [OF Cons.prems t Inl])
    with t Inl show ?thesis by (intro exI [of _ "s\<lparr>pc := Raised e\<rparr>"]) auto
  next
    case (Inr p)
    let ?s1 = "s\<lparr>fmap := add_to (marker pt p) (fmap s), todo := rest\<rparr>"
    have st: "script_step lib s ?s1" by (rule script_step.marker_add [OF Cons.prems t Inr])
    have "rest = todo ?s1" "pc ?s1 = Markers" using Cons.prems by simp_all
    from Cons.hyps(1) [OF this] obtain s' where "(script_step lib)\<^sup>*\<^sup>* ?s1 s'" and
      "stdout s' = stdout s \<and> files s' = files s \<and> merged_gdf s' = merged_gdf s \<and>
       (case fold_result (\<lambda>m (r, pt). case marker_popup (name_col s) r of Inl e \<Rightarrow> Inl e | Inr p \<Rightarrow> Inr (add_to (marker pt p) m))
               (add_to (marker pt p) (fmap s)) rest of
          Inl e \<Rightarrow> pc s' = Raised e
        | Inr m \<Rightarrow> pc s' = Control \<and> fmap s' = m)"
      by auto
    with st t Inr show ?thesis by (auto intro: converse_rtranclp_into_rtranclp)
  qed
qed

text \<open>The file store after a run with the given outcome: the map written under its
  name on success, nothing written on an exception.\<close>

definition written :: "file_store \<Rightarrow> script_error + run_output \<Rightarrow> file_store" where
  "written F r = (case r of Inl e \<Rightarrow> F
                  | Inr out \<Rightarrow> F\<lparr>html_files := (html_files F)(fst (saved out) \<mapsto> snd (saved out))\<rparr>)"

text \<open>Lines 73--102 from the new map to the end: the outcome of \<open>render\<close>, then the
  save and the last line.\<close>

lemma map_to_end:
  assumes "pc s = MapInit"
  shows "\<exists>s'. (script_step lib)\<^sup>*\<^sup>* s s' \<and> final s' \<and>
     (let r = (case render lib row_geom (marker_popup (name_col s)) (merged_gdf s) of
                 Inl e \<Rightarrow> (stdout s, Inl e)
               | Inr m \<Rightarrow> (stdout s @ [ok_msg], Inr \<lparr>merged = merged_gdf s, saved = (OUTPUT, m)\<rparr>))
      in observe s' = r \<and> files s' = written (files s) (snd r))"
proof -
  let ?J = "merged_gdf s"
  let ?f = "\<lambda>m (r, pt). case marker_popup (name_col s) r of Inl e \<Rightarrow> Inl e | Inr p \<Rightarrow> Inr (add_to (marker pt p) m)"
  let ?s1 = "s\<lparr>pc := Markers,
       fmap := add_to (GeoJsonLayer (ascii ''Kuntarajat'') (map row_geom ?J)) new_map,
       todo := zip ?J (map (\<lambda>rv. representative_point lib (row_geom rv)) ?J)\<rparr>"
  have st1: "script_step lib s ?s1" by (rule script_step.map_init [OF assms])
  obtain s2 where st2: "(script_step lib)\<^sup>*\<^sup>* ?s1 s2" and
    s2: "stdout s2 = stdout s" "files s2 = files s" "merged_gdf s2 = ?J" and
    c: "case fold_result ?f (fmap ?s1) (todo ?s1) of Inl e \<Rightarrow> pc s2 = Raised e | Inr m \<Rightarrow> pc s2 = Control \<and> fmap s2 = m"
    using markers_loop [of ?s1 lib] by auto
  have r: "render lib row_geom (marker_popup (name_col s)) ?J =
           (case fold_result ?f (fmap ?s1) (todo ?s1) of Inl e \<Rightarrow> Inl e | Inr m \<Rightarrow> Inr (add_to LayerControl m))"
    by (simp add: render_def Let_def)
  show ?thesis
  proof (cases "fold_result ?f (fmap ?s1) (todo ?s1)")
    case (Inl e)
    with c s2 st1 st2 r show ?thesis
      by (intro exI [of _ s2]) (auto simp: final_def observe_def written_def intro: converse_rtranclp_into_rtranclp)
  next
    case (Inr m)
    with c have s2c: "pc s2 = Control" "fmap s2 = m" by auto
    let ?s3 = "s2\<lparr>pc := Save, fmap := add_to LayerControl (fmap s2)\<rparr>"
    let ?s4 = "?s3\<lparr>pc := PrintOk, files := (files ?s3)\<lparr>html_files := (html_files (files ?s3))(OUTPUT \<mapsto> fmap ?s3)\<rparr>\<rparr>"
    let ?s5 = "?s4\<lparr>pc := Exit, stdout := stdout ?s4 @ [ok_msg]\<rparr>"
    have "script_step lib s2 ?s3" by (rule script_step.control [OF s2c(1)])
    moreover have "script_step lib ?s3 ?s4" by (rule script_step.save) simp
    moreover have "script_step lib ?s4 ?s5" by (rule script_step.print_ok) simp
    ultimately have "(script_step lib)\<^sup>*\<^sup>* s ?s5"
      using st1 st2 by (meson converse_rtranclp_into_rtranclp rtranclp.rtrancl_into_rtrancl rtranclp.rtrancl_refl rtranclp_trans)
    with Inr r s2 s2c show ?thesis
      by (intro exI [of _ ?s5]) (simp add: final_def observe_def written_def)
  qed
qed

text \<open>Lines 55--70 when both population columns exist and the boundary file has no
  population column of its own: the keys, the merge and the report.\<close>

lemma keys_to_map_init:
  assumes pc: "pc s = Keys" and rows: "read_attr_rows (vak s) = Inr rows" and v: "VAKILUKU \<notin> set (gdf_cols s)"
  shows "(script_step lib)\<^sup>*\<^sup>* s (s\<lparr>vak_rows := rows,
     merged_gdf := join_population (name_of (name_col s)) ALIASES rows (gdf s), pc := MapInit,
     stdout := stdout s @ report (puuttuvat (name_of (name_col s)) (join_population (name_of (name_col s)) ALIASES rows (gdf s)))\<rparr>)"
proof -
  let ?s1 = "s\<lparr>pc := Merge, vak_rows := rows\<rparr>"
  let ?s2 = "?s1\<lparr>pc := Report, merged_gdf := join_population (name_of (name_col ?s1)) ALIASES (vak_rows ?s1) (gdf ?s1)\<rparr>"
  let ?s3 = "?s2\<lparr>pc := MapInit, stdout := stdout ?s2 @ report (puuttuvat (name_of (name_col ?s2)) (merged_gdf ?s2))\<rparr>"
  have "script_step lib s ?s1" by (rule script_step.keys [OF pc rows])
  moreover have "script_step lib ?s1 ?s2" by (rule script_step.merge) simp
  moreover have "script_step lib ?s2 ?s3" by (rule script_step.report) (simp_all add: v)
  ultimately have "(script_step lib)\<^sup>*\<^sup>* s ?s3" by (meson converse_rtranclp_into_rtranclp r_into_rtranclp)
  then show ?thesis by simp
qed

text \<open>Lines 55--102, from the column reads to the end, once the name column is known,
  its message printed and the areas and reprojection done.\<close>

lemma keys_to_end:
  assumes pc: "pc s = Keys" and col: "resolve_name_col (gdf_cols s) = Inr (name_col s)"
    and out: "stdout s = [used_col_msg (name_col s)]" and g: "gdf s = gdf_rows lib (gdf_raw s)"
  shows "\<exists>s'. (script_step lib)\<^sup>*\<^sup>* s s' \<and> final s' \<and>
     observe s' = run lib (gdf_cols s) (gdf_raw s) (vak s) \<and>
     files s' = written (files s) (snd (run lib (gdf_cols s) (gdf_raw s) (vak s)))"
proof (cases "read_attr_rows (vak s)")
  case (Inl e)
  then have "script_step lib s (s\<lparr>pc := Raised e\<rparr>)" by (rule script_step.keys_error [OF pc])
  with Inl col out show ?thesis
    by (intro exI [of _ "s\<lparr>pc := Raised e\<rparr>"]) (auto simp: run_def final_def observe_def written_def)
next
  case (Inr rows)
  let ?J = "join_population (name_of (name_col s)) ALIASES rows (gdf s)"
  show ?thesis
  proof (cases "VAKILUKU \<in> set (gdf_cols s)")
    case True
    let ?s1 = "s\<lparr>pc := Merge, vak_rows := rows\<rparr>"
    let ?s2 = "?s1\<lparr>pc := Report, merged_gdf := ?J\<rparr>"
    let ?s3 = "?s2\<lparr>pc := Raised (KeyError VAKILUKU)\<rparr>"
    have "script_step lib s ?s1" by (rule script_step.keys [OF pc Inr])
    moreover have "script_step lib ?s1 ?s2" using script_step.merge [of ?s1 lib] by simp
    moreover have "script_step lib ?s2 ?s3" by (rule script_step.report_error) (simp_all add: True)
    ultimately have "(script_step lib)\<^sup>*\<^sup>* s ?s3" by (meson converse_rtranclp_into_rtranclp r_into_rtranclp)
    with True Inr col out show ?thesis
      by (intro exI [of _ ?s3]) (auto simp: run_def final_def observe_def written_def)
  next
    case False
    let ?P = "stdout s @ report (puuttuvat (name_of (name_col s)) ?J)"
    let ?s3 = "s\<lparr>vak_rows := rows, merged_gdf := ?J, pc := MapInit, stdout := ?P\<rparr>"
    have st3: "(script_step lib)\<^sup>*\<^sup>* s ?s3" by (rule keys_to_map_init [OF pc Inr False])
    have "pc ?s3 = MapInit" by simp
    from map_to_end [OF this, of lib] obtain s' where "(script_step lib)\<^sup>*\<^sup>* ?s3 s'" "final s'"
      "observe s' = (case render lib row_geom (marker_popup (name_col s)) ?J of
                 Inl e \<Rightarrow> (?P, Inl e)
               | Inr m \<Rightarrow> (?P @ [ok_msg], Inr \<lparr>merged = ?J, saved = (OUTPUT, m)\<rparr>))"
      "files s' = written (files s) (snd (case render lib row_geom (marker_popup (name_col s)) ?J of
                 Inl e \<Rightarrow> (?P, Inl e)
               | Inr m \<Rightarrow> (?P @ [ok_msg], Inr \<lparr>merged = ?J, saved = (OUTPUT, m)\<rparr>)))"
      unfolding Let_def by (auto cong: sum.case_cong)
    with st3 False Inr col out g show ?thesis
      by (intro exI [of _ s']) (auto simp: run_def Let_def row_geom_eta split: sum.splits)
  qed
qed

text \<open>Lines 32--49 when the boundary file exists: the name column, then the areas and
  the reprojection, up to the read of the population file; or the \<open>ValueError\<close>.\<close>

lemma start_to_csv:
  assumes geo: "geo_files F GEOJSON = Some (cols, feats)" and col: "resolve_name_col cols = Inr c"
  shows "\<exists>s. (script_step lib)\<^sup>*\<^sup>* (init_state F) s \<and> pc s = ReadCsv \<and> files s = F \<and>
     stdout s = [used_col_msg c] \<and> gdf_cols s = cols \<and> gdf_raw s = feats \<and> name_col s = c \<and>
     gdf s = gdf_rows lib feats"
proof -
  let ?s1 = "(init_state F)\<lparr>pc := NameCol, gdf_cols := cols, gdf_raw := feats\<rparr>"
  let ?s2 = "?s1\<lparr>pc := Metric, name_col := c, stdout := stdout ?s1 @ [used_col_msg c]\<rparr>"
  let ?s3 = "?s2\<lparr>pc := Wgs84, gdf := map (\<lambda>f. with_area (to_tm35fin_feat lib f)) (gdf_raw ?s2)\<rparr>"
  let ?s4 = "?s3\<lparr>pc := ReadCsv, gdf := map (to_wgs84_row lib) (gdf ?s3)\<rparr>"
  have "script_step lib (init_state F) ?s1" by (rule script_step.read_geo) (simp_all add: init_state_def geo)
  moreover have "script_step lib ?s1 ?s2" by (rule script_step.name_col) (simp_all add: col)
  moreover have "script_step lib ?s2 ?s3" by (rule script_step.metric) simp
  moreover have "script_step lib ?s3 ?s4" by (rule script_step.wgs84) simp
  ultimately have "(script_step lib)\<^sup>*\<^sup>* (init_state F) ?s4" by (meson converse_rtranclp_into_rtranclp r_into_rtranclp)
  then show ?thesis by (intro exI [of _ ?s4]) (simp add: init_state_def gdf_rows_def)
qed

lemma start_name_error:
  assumes geo: "geo_files F GEOJSON = Some (cols, feats)" and col: "resolve_name_col cols = Inl e"
  shows "\<exists>s. (script_step lib)\<^sup>*\<^sup>* (init_state F) s \<and> final s \<and> observe s = ([], Inl e) \<and> files s = F"
proof -
  let ?s1 = "(init_state F)\<lparr>pc := NameCol, gdf_cols := cols, gdf_raw := feats\<rparr>"
  have "script_step lib (init_state F) ?s1" by (rule script_step.read_geo) (simp_all add: init_state_def geo)
  moreover have "script_step lib ?s1 (?s1\<lparr>pc := Raised e\<rparr>)" by (rule script_step.name_col_error) (simp_all add: col)
  ultimately show ?thesis
    by (intro exI [of _ "?s1\<lparr>pc := Raised e\<rparr>"])
       (auto simp: final_def observe_def init_state_def intro: converse_rtranclp_into_rtranclp)
qed

text \<open>From the start to the marker loop, when both files exist and no exception is
  raised before it.\<close>

lemma start_to_markers:
  assumes geo: "geo_files F GEOJSON = Some (cols, feats)" and csv: "csv_files F CSV = Some t"
    and col: "resolve_name_col cols = Inr c" and rows: "read_attr_rows t = Inr rows" and v: "VAKILUKU \<notin> set cols"
  shows "\<exists>s. (script_step lib)\<^sup>*\<^sup>* (init_state F) s \<and> pc s = Markers \<and> name_col s = c \<and>
     merged_gdf s = join_population (name_of c) ALIASES rows (gdf_rows lib feats)"
proof -
  from start_to_csv [OF geo col, of lib] obtain s where s: "(script_step lib)\<^sup>*\<^sup>* (init_state F) s"
    "pc s = ReadCsv" "files s = F" "gdf_cols s = cols" "name_col s = c" "gdf s = gdf_rows lib feats" by blast
  let ?s5 = "s\<lparr>pc := Keys, vak := t\<rparr>"
  have "script_step lib s ?s5" by (rule script_step.read_csv) (simp_all add: s csv)
  moreover have "(script_step lib)\<^sup>*\<^sup>* ?s5 (?s5\<lparr>vak_rows := rows,
     merged_gdf := join_population (name_of (name_col ?s5)) ALIASES rows (gdf ?s5), pc := MapInit,
     stdout := stdout ?s5 @ report (puuttuvat (name_of (name_col ?s5)) (join_population (name_of (name_col ?s5)) ALIASES rows (gdf ?s5)))\<rparr>)"
    (is "(script_step lib)\<^sup>*\<^sup>* _ ?s6") by (rule keys_to_map_init) (simp_all add: s rows v)
  moreover have "script_step lib ?s6 (?s6\<lparr>pc := Markers,
       fmap := add_to (GeoJsonLayer (ascii ''Kuntarajat'') (map row_geom (merged_gdf ?s6))) new_map,
       todo := zip (merged_gdf ?s6) (map (\<lambda>rv. representative_point lib (row_geom rv)) (merged_gdf ?s6))\<rparr>)"
    (is "script_step lib _ ?s7") by (rule script_step.map_init) simp
  ultimately have "(script_step lib)\<^sup>*\<^sup>* (init_state F) ?s7"
    using s(1) by (meson converse_rtranclp_into_rtranclp rtranclp.rtrancl_into_rtrancl rtranclp_trans)
  then show ?thesis by (intro exI [of _ ?s7]) (simp add: s)
qed

text \<open>The whole script from its start, when both input files exist.\<close>

lemma script_run_end:
  assumes geo: "geo_files F GEOJSON = Some (cols, feats)" and csv: "csv_files F CSV = Some t"
  shows "\<exists>s'. (script_step lib)\<^sup>*\<^sup>* (init_state F) s' \<and> final s' \<and>
     observe s' = run lib cols feats t \<and> files s' = written F (snd (run lib cols feats t))"
proof (cases "resolve_name_col cols")
  case (Inl e)
  with start_name_error [OF geo Inl, of lib] show ?thesis by (auto simp: run_def written_def)
next
  case (Inr c)
  with start_to_csv [OF geo Inr, of lib] obtain s where s: "(script_step lib)\<^sup>*\<^sup>* (init_state F) s"
    "pc s = ReadCsv" "files s = F" "stdout s = [used_col_msg c]" "gdf_cols s = cols" "gdf_raw s = feats"
    "name_col s = c" "gdf s = gdf_rows lib feats" by blast
  have "script_step lib s (s\<lparr>pc := Keys, vak := t\<rparr>)" by (rule script_step.read_csv) (simp_all add: s csv)
  with s have st: "(script_step lib)\<^sup>*\<^sup>* (init_state F) (s\<lparr>pc := Keys, vak := t\<rparr>)" by simp
  from Inr s have "pc (s\<lparr>pc := Keys, vak := t\<rparr>) = Keys"
    "resolve_name_col (gdf_cols (s\<lparr>pc := Keys, vak := t\<rparr>)) = Inr (name_col (s\<lparr>pc := Keys, vak := t\<rparr>))"
    "stdout (s\<lparr>pc := Keys, vak := t\<rparr>) = [used_col_msg (name_col (s\<lparr>pc := Keys, vak := t\<rparr>))]"
    "gdf (s\<lparr>pc := Keys, vak := t\<rparr>) = gdf_rows lib (gdf_raw (s\<lparr>pc := Keys, vak := t\<rparr>))" by simp_all
  from keys_to_end [OF this] st s show ?thesis by (auto intro: rtranclp_trans)
qed

text \<open>A missing input file: the boundary file is read first (line 32), the population
  file after the name column was printed (line 52).\<close>

lemma script_missing_end:
  "geo_files F GEOJSON = None \<Longrightarrow>
     \<exists>s. (script_step lib)\<^sup>*\<^sup>* (init_state F) s \<and> final s \<and> observe s = ([], Inl (NoSuchFile GEOJSON))"
  "geo_files F GEOJSON = Some (cols, feats) \<Longrightarrow> csv_files F CSV = None \<Longrightarrow>
     \<exists>s. (script_step lib)\<^sup>*\<^sup>* (init_state F) s \<and> final s \<and>
       observe s = (case resolve_name_col cols of Inl e \<Rightarrow> ([], Inl e) | Inr c \<Rightarrow> ([used_col_msg c], Inl (NoSuchFile CSV)))"
proof -
  assume geo: "geo_files F GEOJSON = None"
  have "script_step lib (init_state F) ((init_state F)\<lparr>pc := Raised (NoSuchFile GEOJSON)\<rparr>)"
    by (rule script_step.read_geo_missing) (simp_all add: init_state_def geo)
  then show "\<exists>s. (script_step lib)\<^sup>*\<^sup>* (init_state F) s \<and> final s \<and> observe s = ([], Inl (NoSuchFile GEOJSON))"
    by (intro exI [of _ "(init_state F)\<lparr>pc := Raised (NoSuchFile GEOJSON)\<rparr>"])
       (auto simp: final_def observe_def init_state_def)
next
  assume geo: "geo_files F GEOJSON = Some (cols, feats)" and csv: "csv_files F CSV = None"
  show "\<exists>s. (script_step lib)\<^sup>*\<^sup>* (init_state F) s \<and> final s \<and>
       observe s = (case resolve_name_col cols of Inl e \<Rightarrow> ([], Inl e) | Inr c \<Rightarrow> ([used_col_msg c], Inl (NoSuchFile CSV)))"
  proof (cases "resolve_name_col cols")
    case (Inl e)
    with start_name_error [OF geo Inl, of lib] show ?thesis by auto
  next
    case (Inr c)
    with start_to_csv [OF geo Inr, of lib] obtain s where s: "(script_step lib)\<^sup>*\<^sup>* (init_state F) s"
      "pc s = ReadCsv" "files s = F" "stdout s = [used_col_msg c]" by blast
    have "script_step lib s (s\<lparr>pc := Raised (NoSuchFile CSV)\<rparr>)" by (rule script_step.read_csv_missing) (simp_all add: s csv)
    with s Inr show ?thesis
      by (intro exI [of _ "s\<lparr>pc := Raised (NoSuchFile CSV)\<rparr>"]) (auto simp: final_def observe_def)
  qed
qed

section \<open>The script ends, and ends as \<open>run\<close> says\<close>

text \<open>
  C12: the statement-by-statement execution refines the script function \<open>run\<close>:
  when both input files exist, every run of the machine from the start that ends
  prints exactly the lines \<open>run\<close> prints and ends with its outcome (its exception,
  or its merged frame and map), and the file store then holds the saved map under
  \<open>OUTPUT\<close> exactly when \<open>run\<close> succeeds.
\<close>

theorem script_refines_run:
  assumes "geo_files F GEOJSON = Some (cols, feats)" and "csv_files F CSV = Some t"
    and "(script_step lib)\<^sup>*\<^sup>* (init_state F) s" and "final s"
  shows "observe s = run lib cols feats t \<and> files s = written F (snd (run lib cols feats t))"
proof -
  from script_run_end [OF assms(1,2)] obtain s' where "(script_step lib)\<^sup>*\<^sup>* (init_state F) s'" "final s'"
    "observe s' = run lib cols feats t" "files s' = written F (snd (run lib cols feats t))" by blast
  moreover from this(1,2) assms(3,4) have "s = s'" by (rule final_unique)
  ultimately show ?thesis by simp
qed

text \<open>
  C15: the loop invariant of lines 84--98: in every state of a run at the marker loop,
  the rows visited so far and the rows left are, in order, the merged rows with their
  representative points; every visited row's popup succeeded; and the map is the one of
  line 73 with the boundary layer followed by one marker per visited row, in order, at
  its point with its popup.
\<close>

theorem markers_inv:
  "(script_step lib)\<^sup>*\<^sup>* (init_state F) s \<Longrightarrow> pc s = Markers \<Longrightarrow>
   \<exists>vis. vis @ todo s = zip (merged_gdf s) (map (\<lambda>rv. representative_point lib (row_geom rv)) (merged_gdf s)) \<and>
     (\<forall>(rv, pt) \<in> set vis. \<not> isl (marker_popup (name_col s) rv)) \<and>
     fmap s = new_map\<lparr>children := GeoJsonLayer (ascii ''Kuntarajat'') (map row_geom (merged_gdf s)) #
                map (\<lambda>(rv, pt). marker pt (projr (marker_popup (name_col s) rv))) vis\<rparr>"
proof (induction rule: rtranclp_induct)
  case base
  then show ?case by (simp add: init_state_def)
next
  case (step s s')
  from step.hyps(2) show ?case
  proof (cases rule: script_step.cases)
    case map_init
    then show ?thesis by (intro exI [of _ "[]"]) (simp add: add_to_def new_map_def)
  next
    case (marker_add rv pt rest p)
    with step.IH obtain vis where
      v: "vis @ todo s = zip (merged_gdf s) (map (\<lambda>rv. representative_point lib (row_geom rv)) (merged_gdf s))"
      "\<forall>(rv, pt) \<in> set vis. \<not> isl (marker_popup (name_col s) rv)"
      "fmap s = new_map\<lparr>children := GeoJsonLayer (ascii ''Kuntarajat'') (map row_geom (merged_gdf s)) #
                map (\<lambda>(rv, pt). marker pt (projr (marker_popup (name_col s) rv))) vis\<rparr>" by auto
    with marker_add show ?thesis
      by (intro exI [of _ "vis @ [(rv, pt)]"]) (auto simp: add_to_def)
  qed (use step.prems in auto)
qed

text \<open>
  C18: a missing input file ends the script with the I/O library's exception, in the
  order of the source: without the boundary file nothing is printed; without the
  population file the script has first resolved the name column (or raised the
  \<open>ValueError\<close> of line 41) and printed its message.
\<close>

theorem script_missing_file:
  assumes "(script_step lib)\<^sup>*\<^sup>* (init_state F) s" and "final s"
  shows "(geo_files F GEOJSON = None \<longrightarrow> observe s = ([], Inl (NoSuchFile GEOJSON))) \<and>
    (geo_files F GEOJSON = Some (cols, feats) \<and> csv_files F CSV = None \<longrightarrow>
       observe s = (case resolve_name_col cols of Inl e \<Rightarrow> ([], Inl e) | Inr c \<Rightarrow> ([used_col_msg c], Inl (NoSuchFile CSV))))"
proof (intro conjI impI)
  assume "geo_files F GEOJSON = None"
  from script_missing_end(1) [OF this, of lib] obtain s' where
    "(script_step lib)\<^sup>*\<^sup>* (init_state F) s'" "final s'" "observe s' = ([], Inl (NoSuchFile GEOJSON))" by blast
  with assms show "observe s = ([], Inl (NoSuchFile GEOJSON))" using final_unique by metis
next
  assume "geo_files F GEOJSON = Some (cols, feats) \<and> csv_files F CSV = None"
  from script_missing_end(2) [OF this [THEN conjunct1] this [THEN conjunct2], of lib] obtain s' where
    "(script_step lib)\<^sup>*\<^sup>* (init_state F) s'" "final s'"
    "observe s' = (case resolve_name_col cols of Inl e \<Rightarrow> ([], Inl e) | Inr c \<Rightarrow> ([used_col_msg c], Inl (NoSuchFile CSV)))"
    by blast
  with assms show "observe s = (case resolve_name_col cols of Inl e \<Rightarrow> ([], Inl e) | Inr c \<Rightarrow> ([used_col_msg c], Inl (NoSuchFile CSV)))"
    using final_unique by metis
qed

text \<open>
  C22: the script writes no partial output: in every state of a run the file store is
  the one given, until the save of line 101 has written the map under \<open>OUTPUT\<close>; a
  run that raises, at any statement, leaves the files as they were.
\<close>

theorem script_files_inv:
  "(script_step lib)\<^sup>*\<^sup>* (init_state F) s \<Longrightarrow>
   files s = (if pc s = PrintOk \<or> pc s = Exit then F\<lparr>html_files := (html_files F)(OUTPUT \<mapsto> fmap s)\<rparr> else F)"
proof (induction rule: rtranclp_induct)
  case base
  then show ?case by (simp add: init_state_def)
next
  case (step s s')
  from step.hyps(2) step.IH show ?case by (cases rule: script_step.cases) auto
qed

end
