(* ===== verification/Words.thy ===== *)
theory Words
  imports Normalize
begin

text \<open>
  A second description of the normaliser of \<^verbatim>\<open>src/main.py\<close> (lines 17--24). The key of a name is its words, as \<open>str.split()\<close> finds
  them, each case-folded with the Nordic letters replaced, joined by single spaces:
  \<open>" ".join(fold(w) for w in name.split())\<close>. This is the reference the
  strip--fold--substitute pipeline of the source is proved equal to.
\<close>

text \<open>
  \<open>str.split()\<close> without arguments: the maximal runs of non-whitespace, in order.
\<close>

function py_split :: "ustr \<Rightarrow> ustr list" where
  "py_split s =
     (let t = dropWhile is_space s
      in if t = [] then [] else takeWhile (\<lambda>c. \<not> is_space c) t # py_split (dropWhile (\<lambda>c. \<not> is_space c) t))"
  by pat_completeness auto
termination
proof (relation "measure length")
  fix s t
  assume t: "t = dropWhile is_space s" and ne: "t \<noteq> []"
  then have "\<not> is_space (hd t)" by (metis hd_dropWhile)
  with ne have "length (dropWhile (\<lambda>c. \<not> is_space c) t) < length t"
    by (cases t) (simp_all add: le_imp_less_Suc length_dropWhile_le)
  moreover have "length t \<le> length s" using t by (simp add: length_dropWhile_le)
  ultimately show "(dropWhile (\<lambda>c. \<not> is_space c) t, s) \<in> measure length" by simp
qed simp

declare py_split.simps [simp del]

text \<open>\<open>sep.join(words)\<close>.\<close>

fun py_join :: "ustr \<Rightarrow> ustr list \<Rightarrow> ustr" where
  "py_join sep [] = []"
| "py_join sep [w] = w"
| "py_join sep (w # v # ws) = w @ sep @ py_join sep (v # ws)"

text \<open>
  A per-character map that keeps whitespace as it is and maps every other character
  to a non-empty string without whitespace; the case folding and the Nordic
  replacements together are one (\<open>space_fold_char\<close>).
\<close>

definition space_fold :: "(cp \<Rightarrow> ustr) \<Rightarrow> bool" where
  "space_fold G \<longleftrightarrow> (\<forall>c. G c \<noteq> [] \<and> (is_space c \<longrightarrow> G c = [c]) \<and> (\<not> is_space c \<longrightarrow> (\<forall>d \<in> set (G c). \<not> is_space d)))"

section \<open>Whitespace-preserving folds\<close>

lemma space_fold_ne: "space_fold G \<Longrightarrow> G c \<noteq> []"
  by (simp add: space_fold_def)

lemma space_fold_space: "space_fold G \<Longrightarrow> is_space c \<Longrightarrow> G c = [c]"
  by (simp add: space_fold_def)

lemma space_fold_word: "space_fold G \<Longrightarrow> \<not> is_space c \<Longrightarrow> d \<in> set (G c) \<Longrightarrow> \<not> is_space d"
  by (simp add: space_fold_def)

lemma space_fold_rev: "space_fold G \<Longrightarrow> space_fold (\<lambda>c. rev (G c))"
  by (simp add: space_fold_def)

lemma dropWhile_space_fold:
  "space_fold G \<Longrightarrow> dropWhile is_space (concat (map G s)) = concat (map G (dropWhile is_space s))"
proof (induction s)
  case (Cons c s)
  show ?case
  proof (cases "is_space c")
    case True
    with Cons show ?thesis by (simp add: space_fold_def)
  next
    case False
    with Cons.prems obtain d ds where "G c = d # ds" "\<not> is_space d"
      by (cases "G c") (auto simp: space_fold_def)
    with False show ?thesis by simp
  qed
qed simp

lemma py_strip_space_fold:
  assumes "space_fold G"
  shows "py_strip (concat (map G s)) = concat (map G (py_strip s))"
proof -
  have r: "rev (concat (map G xs)) = concat (map (\<lambda>c. rev (G c)) (rev xs))" for xs
    by (simp add: rev_concat rev_map comp_def)
  have "py_strip (concat (map G s)) = rev (dropWhile is_space (rev (concat (map G (dropWhile is_space s)))))"
    by (simp add: py_strip_def dropWhile_space_fold [OF assms])
  also have "\<dots> = rev (concat (map (\<lambda>c. rev (G c)) (dropWhile is_space (rev (dropWhile is_space s)))))"
    by (simp add: r dropWhile_space_fold [OF space_fold_rev [OF assms]])
  also have "\<dots> = concat (map G (py_strip s))"
    by (simp add: py_strip_def rev_concat rev_map comp_def)
  finally show ?thesis .
qed

lemma dropWhile_dropWhile: "dropWhile P (dropWhile P xs) = dropWhile P xs"
  by (induction xs) auto

lemma py_split_dropWhile: "py_split (dropWhile is_space s) = py_split s"
  by (simp add: py_split.simps [of "dropWhile is_space s"] py_split.simps [of s] dropWhile_dropWhile Let_def)

lemma py_split_word:
  assumes "w \<noteq> []" "\<forall>c \<in> set w. \<not> is_space c" "r = [] \<or> is_space (hd r)"
  shows "py_split (w @ r) = w # py_split r"
proof -
  have d: "dropWhile is_space (w @ r) = w @ r" using assms(1,2) by (cases w) auto
  have tw: "takeWhile (\<lambda>c. \<not> is_space c) r = []" and dw: "dropWhile (\<lambda>c. \<not> is_space c) r = r"
    using assms(3) by (cases r; simp)+
  show ?thesis
    using assms(1,2) by (simp add: py_split.simps [of "w @ r"] d Let_def takeWhile_append2 dropWhile_append2 tw dw)
qed

lemma py_split_all_space: "dropWhile is_space s = [] \<Longrightarrow> py_split s = []"
  by (simp add: py_split.simps [of s])

lemma py_split_space_fold:
  assumes G: "space_fold G"
  shows "py_split (concat (map G s)) = map (\<lambda>w. concat (map G w)) (py_split s)"
proof (induction s rule: py_split.induct)
  case (1 s)
  define t where "t = dropWhile is_space s"
  have ft: "dropWhile is_space (concat (map G s)) = concat (map G t)"
    by (simp add: t_def dropWhile_space_fold [OF G])
  show ?case
  proof (cases "t = []")
    case True
    then have s0: "dropWhile is_space s = []" by (simp only: t_def)
    from True ft have f0: "dropWhile is_space (concat (map G s)) = []" by simp
    show ?thesis using py_split_all_space [OF s0] py_split_all_space [OF f0] by simp
  next
    case False
    define w where "w = takeWhile (\<lambda>c. \<not> is_space c) t"
    define r where "r = dropWhile (\<lambda>c. \<not> is_space c) t"
    have tw: "t = w @ r" by (simp add: w_def r_def)
    have hd: "\<not> is_space (hd t)" using False by (simp add: t_def hd_dropWhile)
    then have wne: "w \<noteq> []" using False unfolding w_def by (cases t) simp_all
    have wsp: "\<forall>c \<in> set w. \<not> is_space c" by (auto simp: w_def dest: set_takeWhileD)
    have rsp: "r = [] \<or> is_space (hd r)"
      using hd_dropWhile [of "\<lambda>c. \<not> is_space c" t] by (auto simp: r_def)
    have s: "py_split s = w # py_split r"
      using False by (simp add: py_split.simps [of s] Let_def t_def [symmetric] w_def r_def)
    have ih: "py_split (concat (map G r)) = map (\<lambda>w. concat (map G w)) (py_split r)"
      using 1 False by (simp add: t_def r_def)
    have fw: "concat (map G w) \<noteq> [] \<and> (\<forall>c \<in> set (concat (map G w)). \<not> is_space c)"
      using wne wsp by (cases w) (auto simp: space_fold_ne [OF G] dest: space_fold_word [OF G])
    have fr: "concat (map G r) = [] \<or> is_space (hd (concat (map G r)))"
      using rsp by (cases r) (auto simp: space_fold_space [OF G])
    have "py_split (concat (map G s)) = py_split (concat (map G w) @ concat (map G r))"
      using py_split_dropWhile [of "concat (map G s)"] by (simp add: ft tw)
    also have "\<dots> = concat (map G w) # py_split (concat (map G r))"
      using fw fr by (intro py_split_word) auto
    finally show ?thesis by (simp add: s ih)
  qed
qed

lemma re_sub_ws_word: "\<forall>c \<in> set w. \<not> is_space c \<Longrightarrow> re_sub_ws (w @ x) = w @ re_sub_ws x"
  by (induction w) auto

lemma re_sub_ws_spaces:
  assumes "sp \<noteq> []" "\<forall>c \<in> set sp. is_space c" "y = [] \<or> \<not> is_space (hd y)"
  shows "re_sub_ws (sp @ y) = 32 # re_sub_ws y"
proof -
  obtain c cs where sp: "sp = c # cs" using assms(1) by (cases sp) auto
  have "dropWhile is_space (cs @ y) = y"
    using assms(2,3) by (cases y) (auto simp: sp dropWhile_append2)
  with assms(2) show ?thesis by (simp add: sp)
qed

lemma rstrip_append:
  "\<exists>c \<in> set z. \<not> is_space c \<Longrightarrow> rev (dropWhile is_space (rev (x @ z))) = x @ rev (dropWhile is_space (rev z))"
  by (auto simp: dropWhile_append)

lemma all_set_dropWhile [simp]: "(\<forall>x \<in> set (dropWhile P xs). P x) = (\<forall>x \<in> set xs. P x)"
  by (induction xs) auto

lemma py_strip_Nil_iff: "py_strip x = [] \<longleftrightarrow> (\<forall>c \<in> set x. is_space c)"
  by (simp add: py_strip_def)

lemma py_join_Cons: "ws \<noteq> [] \<Longrightarrow> py_join sep (w # ws) = w @ sep @ py_join sep ws"
  by (cases ws) auto

lemma re_sub_ws_py_strip: "re_sub_ws (py_strip s) = py_join [32] (py_split s)"
proof (induction s rule: py_split.induct)
  case (1 s)
  define t where "t = dropWhile is_space s"
  have st: "py_strip s = rev (dropWhile is_space (rev t))" by (simp add: py_strip_def t_def)
  show ?case
  proof (cases "t = []")
    case True
    then show ?thesis by (simp add: st py_split_all_space t_def)
  next
    case False
    define w where "w = takeWhile (\<lambda>c. \<not> is_space c) t"
    define r where "r = dropWhile (\<lambda>c. \<not> is_space c) t"
    have tw: "t = w @ r" by (simp add: w_def r_def)
    have "\<not> is_space (hd t)" using False by (simp add: t_def hd_dropWhile)
    then have wne: "w \<noteq> []" using False unfolding w_def by (cases t) simp_all
    have wsp: "\<forall>c \<in> set w. \<not> is_space c" by (auto simp: w_def dest: set_takeWhileD)
    have rsp: "r = [] \<or> is_space (hd r)"
      using hd_dropWhile [of "\<lambda>c. \<not> is_space c" t] by (auto simp: r_def)
    have s: "py_split s = w # py_split r"
      using False by (simp add: py_split.simps [of s] Let_def t_def [symmetric] w_def r_def)
    have ih: "re_sub_ws (py_strip r) = py_join [32] (py_split r)"
      using 1 False by (simp add: t_def r_def)
    show ?thesis
    proof (cases "\<forall>c \<in> set r. is_space c")
      case True
      have "dropWhile is_space (rev r @ rev w) = rev w"
        using True wne wsp by (cases "rev w") (auto simp: dropWhile_append)
      then have "py_strip s = w" by (simp add: st tw)
      moreover have "py_split r = []" using True by (simp add: py_split_all_space)
      ultimately show ?thesis using wsp re_sub_ws_word [of w "[]"] by (simp add: s)
    next
      case False
      define sp where "sp = takeWhile is_space r"
      define t2 where "t2 = dropWhile is_space r"
      have r2: "r = sp @ t2" by (simp add: sp_def t2_def)
      have t2ne: "t2 \<noteq> []" using False by (simp add: t2_def)
      have spne: "sp \<noteq> []" using rsp False by (cases r) (auto simp: sp_def)
      have spsp: "\<forall>c \<in> set sp. is_space c" by (auto simp: sp_def dest: set_takeWhileD)
      have hd2: "\<not> is_space (hd t2)" using t2ne by (simp add: t2_def hd_dropWhile)
      have pr: "py_strip r = rev (dropWhile is_space (rev t2))" by (simp add: py_strip_def t2_def)
      have pne: "py_strip r \<noteq> []" using False by (simp add: py_strip_Nil_iff)
      have ex: "\<exists>c \<in> set t2. \<not> is_space c" using t2ne hd2 by (cases t2) auto
      then have ex2: "\<exists>c \<in> set (sp @ t2). \<not> is_space c" by auto
      have "py_strip s = rev (dropWhile is_space (rev (w @ (sp @ t2))))" by (simp only: st tw r2)
      also have "\<dots> = w @ sp @ rev (dropWhile is_space (rev t2))"
        using rstrip_append [OF ex2, of w] rstrip_append [OF ex, of sp] by simp
      finally have "py_strip s = w @ sp @ py_strip r" by (simp add: pr)
      then have "re_sub_ws (py_strip s) = w @ 32 # re_sub_ws (py_strip r)"
        using wsp spne spsp py_strip_edges [OF pne] by (simp add: re_sub_ws_word re_sub_ws_spaces)
      moreover have "py_split r \<noteq> []"
        using False by (metis py_split_all_space py_strip_Nil_iff ih pne re_sub_ws_Nil_iff py_join.simps(1))
      ultimately show ?thesis by (simp add: s ih py_join_Cons)
    qed
  qed
qed

lemma space_fold_char: "space_fold (\<lambda>c. map scandi_char (casefold_char c))"
  unfolding space_fold_def
proof (intro allI conjI impI ballI)
  fix c
  show "map scandi_char (casefold_char c) \<noteq> []" by simp
  assume "is_space c"
  then show "map scandi_char (casefold_char c) = [c]" by (simp add: casefold_char_space_in scandi_char_space)
next
  fix c d
  assume "\<not> is_space c" "d \<in> set (map scandi_char (casefold_char c))"
  then show "\<not> is_space d" using folded_char_props [of d c] by auto
qed

text \<open>
  C38: the normaliser is the word-level reference: the key is the case-folded,
  Nordic-folded words of \<open>str.split()\<close> joined by one space.
\<close>

theorem normalize_str_words:
  "normalize_str s = py_join [32] (map (\<lambda>w. scandi_fold (casefold w)) (py_split s))"
proof -
  let ?G = "\<lambda>c. map scandi_char (casefold_char c)"
  have F: "scandi_fold (casefold w) = concat (map ?G w)" for w
    by (simp add: scandi_fold_map casefold_def map_concat comp_def)
  have "normalize_str s = re_sub_ws (scandi_fold (casefold (py_strip s)))" by (simp add: normalize_str_def)
  also have "\<dots> = re_sub_ws (concat (map ?G (py_strip s)))" by (simp add: F)
  also have "\<dots> = re_sub_ws (py_strip (concat (map ?G s)))" by (simp add: py_strip_space_fold [OF space_fold_char])
  also have "\<dots> = py_join [32] (py_split (concat (map ?G s)))" by (rule re_sub_ws_py_strip)
  also have "\<dots> = py_join [32] (map (\<lambda>w. concat (map ?G w)) (py_split s))"
    by (simp add: py_split_space_fold [OF space_fold_char])
  finally show ?thesis by (simp add: F)
qed

end
