(* ===== verification/Spec2Isabelle.thy ===== *)
theory Spec2Isabelle
  imports Script Words
begin

text \<open>
  \<^bold>\<open>Verification development of paikannus (\<^verbatim>\<open>src/main.py\<close>).\<close>
  The program is a one-shot Python script. It reads Finnish municipality boundaries
  (GeoJSON, read by geopandas) and a population table (CSV, read by pandas), chooses the
  boundary name column, computes each municipality's area in the ETRS-TM35FIN
  projection, reprojects the boundaries to WGS84, joins the population to them by a
  normalised name with an alias override, prints the municipalities left without a
  population, and saves a folium map whose markers carry a popup with name, area and
  population.

  \<^bold>\<open>Theories and what they model.\<close>
  \<^item> \<open>Prelude\<close>: strings as lists of Unicode code points (\<open>ustr\<close>), since a
    Python \<open>str\<close> is a code point sequence; \<open>ascii\<close> for ASCII literals; the pandas
    cell (\<open>cell\<close>: string, integer or \<open>NaN\<close>); \<open>str()\<close> of an int and of a cell;
    the exceptions of the script (\<open>script_error\<close>) and a loop whose body may raise
    (\<open>fold_result\<close>); generic list lemmas.
  \<^item> \<open>Normalize\<close>: \<open>normalize\<close> (lines 17--24) step by step: \<open>py_strip\<close>
    (\<open>str.strip\<close>), \<open>casefold\<close> through the table \<open>casefold_char\<close>, the three
    \<open>str.replace\<close> calls (\<open>scandi_fold\<close>), \<open>re_sub_ws\<close> for
    \<open>re.sub(r"\s+", " ", s)\<close> (a \<^theory_text>\<open>function\<close> with a length measure), and
    the empty key for non-strings. \<open>is_space\<close> is \<open>str.isspace\<close>, the class that
    both \<open>strip\<close> and \<open>\s\<close> use.
  \<^item> \<open>Words\<close>: the word-level reference of the normaliser (\<open>str.split()\<close> as
    \<open>py_split\<close>, \<open>" ".join\<close> as \<open>py_join\<close>) and the proof that the normaliser equals it.
  \<^item> \<open>Alias\<close>: \<open>ALIASES\<close> (lines 26--29) as a map, \<open>Series.replace(dict)\<close> as
    \<open>series_replace\<close>, the two join keys \<open>csv_key\<close> (line 55, aliased) and
    \<open>geo_key\<close> (line 56, not aliased).
  \<^item> \<open>Join\<close>: the population table as \<open>read_csv\<close> returns it (\<open>table\<close>), the
    column reads with their \<open>KeyError\<close> (\<open>df_column\<close>, \<open>read_attr_rows\<close>, lines
    55 and 58), \<open>vak2\<close> (line 58), pandas' left merge \<open>merge_left\<close> (line 61, one
    output row per matching right row, or the left row with \<open>NaN\<close>),
    \<open>join_population\<close> (lines 55--61) and the missing list \<open>puuttuvat\<close> (line
    64). The join is stated for any boundary type with a name accessor, which is the
    interface the script instantiates. The design's join (a dict, one row per
    boundary) is \<open>spec_join\<close>.
  \<^item> \<open>Report\<close>: lines 65--70 as the list of printed lines.
  \<^item> \<open>Area\<close>: line 46, shapely's planar area (absolute shoelace area of the
    shell less the holes, summed over the parts of a multipolygon) divided by
    \<open>10^6\<close>, on exact rationals.
  \<^item> \<open>Format\<close>: the popup text of lines 84--91: \<open>fmt_comma\<close> (format spec
    \<open>,\<close>), Python's \<open>int()\<close> on a population cell (\<open>py_int\<close>, \<open>py_int_str\<close>,
    which may raise), \<open>vak_txt\<close> (line 88), \<open>fmt_1f\<close> (format spec \<open>.1f\<close>, ties
    to even), \<open>popup_html\<close>; and readers \<open>parse_int\<close>, \<open>parse_dec1\<close> used to
    state round trips.
  \<^item> \<open>Render\<close>: the geometry library interface \<open>geo_lib\<close> (the transformations to
    ETRS-TM35FIN and to WGS84, and \<open>representative_point\<close>), \<open>to_crs\<close> as
    \<open>geom_map\<close> (lines 45 and 49), the folium
    map as a value (\<open>folium_map\<close>, \<open>new_map\<close>, \<open>add_to\<close>, \<open>marker\<close>), and
    \<open>render\<close>: lines 73--100, whose marker loop stops at the first popup that raises.
  \<^item> \<open>Pipeline\<close>: the output file (line 13), the name column choice
    \<open>resolve_name_col\<close> (lines 34--41), the metric and reprojected rows
    (\<open>to_tm35fin_feat\<close>, \<open>with_area\<close>, \<open>to_wgs84_row\<close>, \<open>gdf_rows\<close>, lines
    45--49), the popup of a row, and \<open>run\<close>: the
    whole script as a function from its loaded inputs and the geometry library to the
    lines it prints, which it prints even when it later raises, and either the
    exception or the merged rows with the saved map.
  \<^item> \<open>Script\<close>: the same script statement by statement, as the inductive step
    relation \<open>script_step\<close> on the module state \<open>script_state\<close> (program counter
    \<open>label\<close>, printed lines, file store, and the module variables \<open>gdf_raw\<close>,
    \<open>name_col\<close>, \<open>gdf\<close>, \<open>vak\<close>, the merged frame, the map \<open>m\<close> and the rows
    the marker loop has left). One rule per statement of lines 32--102 and per outcome:
    the reads of \<open>GEOJSON\<close> and \<open>CSV\<close> (lines 11--12) from the file store
    \<open>file_store\<close>, which raise for a missing file, one turn of the marker loop per
    row, and the save of line 101 into the file store. The relation is executable
    (\<^theory_text>\<open>code_pred\<close>), deterministic, and a state that has not ended can always step.
  This theory names the inputs of the design's scenario and holds the properties that
  span components: where the join departs from the design, and runs of the script.

  \<^bold>\<open>What is proved.\<close>
  The join: with distinct population keys the merge refines the design's dict join
  (C1); in general it repeats a boundary once per matching row (C2), so it adds rows
  exactly when a key has two population rows, where the design's join never does (C13);
  the missing list has an exact description, matched rows with \<open>NaN\<close> included (C3);
  the alias is one-sided, so a boundary named with an alias key is never matched (C14);
  the empty key comes exactly from missing and blank names, and such a boundary takes the
  population of every row with a missing or blank name (C17). Concrete examples of these
  departures are kept as lemmas (\<open>join_duplicate_rows\<close>, \<open>alias_spec_example\<close>,
  \<open>nan_population_reported\<close>, \<open>missing_names_join\<close>), as is a name in decomposed
  Unicode form, which keeps its combining mark in the key
  (\<open>normalize_decomposed_key\<close>). The normaliser: its keys are in a normal form (C4),
  exactly the strings it fixes (C6), so it is idempotent (C5); it ignores case (C7) and
  the Nordic diacritics (C8), and equals the word-level reference (C38). The alias
  table is consistent with the normaliser (C9). The report is capped as the design says
  (C10) and gives back the exact number of missing municipalities (C31). The area is
  translation invariant (C19), 0 for a degenerate shell (empty, a point, a segment,
  collinear vertices) where the design asks for a \<open>GeometryError\<close> (C20), exact on
  rectangles (C21) and insensitive to the winding of the rings (C30). The popup's
  population reads back exactly (C23), with a comma at every fourth position from the
  right and nowhere else (C11) and so the expected number of separators (C24); its area
  is within 0.05 of the computed one (C25); \<open>int()\<close> reads back \<open>str()\<close> (C34) and
  the popup fails exactly for a population text \<open>int()\<close> rejects, such as \<open>1 234\<close>
  (C33). The script: the name column choice is the design's ordered lookup (C26); it
  raises the \<open>ValueError\<close> of line 41 exactly when no name column exists, having
  printed nothing (C27), \<open>KeyError\<close> exactly for a population table without its two
  columns or a boundary file with its own population column (C36), and the
  \<open>ValueError\<close> of \<open>int()\<close> exactly for a population text, after printing the report
  and without saving the map (C37); when it succeeds it keeps every boundary once with
  its own area when keys are distinct (C28), measures every area on the ETRS-TM35FIN
  geometry before the WGS84 reprojection that the map draws (C29), prints between 2 and
  24 lines (C32), and saves the map with one marker per merged row, latitude first,
  carrying its popup (C35). When no boundary key meets a population key it still
  succeeds, reports every boundary and shows the en dash in every popup (C16). The
  statement-level execution: every ended run from the start agrees with \<open>run\<close> on
  the printed lines, the outcome and the file written (C12, a simulation: the machine
  reaches the end that \<open>run\<close> computes, and by determinism that end is the only
  one); a missing input file raises in the order of the source (C18); at the marker
  loop the map holds the boundary layer and one marker per visited row, in order (C15,
  the loop invariant); and no output file exists before the save, so a run that raises
  writes none (C22, an invariant of every reachable state).

  \<^bold>\<open>Choices and limits.\<close>
  Floats are exact rationals: the rounding of double arithmetic in the area and of the
  population's float conversion is not modelled (the \<open>.1f\<close> formatting of the
  exact value is). \<open>str.casefold\<close> is exact on U+0000--U+017F and the identity
  beyond, and \<open>int()\<close> reads ASCII digits only (Python also reads the decimal
  digits of other scripts, all above U+017F); this covers Finnish and Swedish names
  and the population table. No loop of the program may fail to terminate: every
  recursion is structural or has a length measure, so no fuel is needed. The
  geometry library is a parameter: the lemmas hold for every coordinate
  transformation and every choice of representative point.

  \<^bold>\<open>Not modelled.\<close> Parsing the GeoJSON and CSV files (their results are the
  inputs: features with properties and geometry, a table of cells). This is the code
  of geopandas (with its OGR engine) and of pandas' CSV reader, including pandas' type
  inference of a column; the design puts it out of scope as an external collaborator,
  and the program under \<^verbatim>\<open>src/\<close> only calls it (lines 32 and 52), so the
  reads are modelled by what they return, or by their exception for a missing file,
  and the I/O component stays partly modelled; the pyproj
  transformations themselves and shapely's choice of representative point (library
  code behind \<open>geo_lib\<close>); the HTML that \<open>m.save\<close> writes (the saved value is the
  map object and the file name); the exceptions of those libraries other than a
  missing input file (a file that cannot be parsed, a geometry without a coordinate
  reference system, an empty geometry's representative point, a failed write).
  Lines 1--10, 14--16, 25 and 30 are imports and comments.
\<close>

section \<open>Inputs of the design's scenario\<close>

text \<open>
  The boundaries Helsinki (a square of 1 km2) and Espoo (a rectangle of 2 km2) in
  EPSG:3067 coordinates, a population table with the row \<open>HELSINKI\<close> 100, the same
  table with populations written as text, and a geometry library that leaves
  coordinates as they are and takes the first vertex as the representative point.
\<close>

definition demo_lib :: geo_lib where
  "demo_lib = \<lparr>to_tm35fin = \<lambda>p. p, to_wgs84 = \<lambda>p. p, representative_point = \<lambda>g. (case g of Polygon sh hs \<Rightarrow> hd sh | MultiPolygon ps \<Rightarrow> (0, 0))\<rparr>"

definition helsinki :: feature where
  "helsinki = \<lparr>fprops = [(ascii ''NAMEFIN'', CStr (ascii ''Helsinki''))], fgeom = Polygon [(385000, 6672000), (386000, 6672000), (386000, 6673000), (385000, 6673000)] []\<rparr>"

definition espoo :: feature where
  "espoo = \<lparr>fprops = [(ascii ''NAMEFIN'', CStr (ascii ''Espoo''))], fgeom = Polygon [(370000, 6675000), (372000, 6675000), (372000, 6676000), (370000, 6676000)] []\<rparr>"

definition vak_table :: table where
  "vak_table = \<lparr>tcols = [KUNTA, VAKILUKU], trows = [[CStr (ascii ''HELSINKI''), CInt 100]]\<rparr>"

definition text_table :: table where
  "text_table = \<lparr>tcols = [KUNTA, VAKILUKU], trows = [[CStr (ascii ''Helsinki''), CStr (ascii ''1 234'')]]\<rparr>"

text \<open>The scenario's files: both inputs, and the boundary file without the population file.\<close>

definition demo_files :: file_store where
  "demo_files = \<lparr>geo_files = [GEOJSON \<mapsto> ([ascii ''NAMEFIN'', ascii ''geometry''], [helsinki, espoo])],
                  csv_files = [CSV \<mapsto> vak_table], html_files = Map.empty\<rparr>"

definition no_csv_files :: file_store where
  "no_csv_files = demo_files\<lparr>csv_files := Map.empty\<rparr>"

lemmas scenario_defs = demo_lib_def helsinki_def espoo_def vak_table_def text_table_def

section \<open>Where the join departs from the design\<close>

text \<open>
  An instance of C13: a population table with two spellings of one municipality (here
  \<open>Helsinki\<close> and \<open>HELSINKI \<close>) gives that boundary two output rows, one per
  population; no row "wins".
\<close>

lemma join_duplicate_rows:
  "join_population id ALIASES
     [\<lparr>kunta = CStr (ascii ''Helsinki''), vakiluku = CInt 100\<rparr>,
      \<lparr>kunta = CStr (ascii ''HELSINKI ''), vakiluku = CInt 200\<rparr>]
     [CStr (ascii ''Helsinki'')] =
   [(CStr (ascii ''Helsinki''), CInt 100), (CStr (ascii ''Helsinki''), CInt 200)]"
  by (simp add: join_population_def merge_left_def matches_def key_eval_defs)

text \<open>
  The alias entry catches the attribute name \<open>Peders(o-umlaut)ren kunta\<close> and maps it
  to the key of the boundary \<open>Peders(o-umlaut)re\<close>; the name \<open>Peders(o-umlaut)rens kunta\<close> of the
  design's example normalises to \<open>pedersorens kunta\<close>, which is not in the table; and,
  an instance of C14, a boundary named \<open>Peders(o-umlaut)ren kunta\<close> does not meet a
  population row named \<open>Peders(o-umlaut)re\<close>.
\<close>

lemma alias_spec_example:
  "csv_key ALIASES (CStr (ascii ''Peders'' @ [246] @ ascii ''rens kunta'')) = ascii ''pedersorens kunta'' \<and>
   geo_key (CStr (ascii ''Peders'' @ [246] @ ascii ''re'')) = ascii ''pedersore'' \<and>
   csv_key ALIASES (CStr (ascii ''Peders'' @ [246] @ ascii ''ren kunta'')) =
     geo_key (CStr (ascii ''Peders'' @ [246] @ ascii ''re'')) \<and>
   geo_key (CStr (ascii ''Peders'' @ [246] @ ascii ''ren kunta'')) = ascii ''pedersoren kunta'' \<and>
   csv_key ALIASES (CStr (ascii ''Peders'' @ [246] @ ascii ''re'')) = ascii ''pedersore'' \<and>
   join_population id ALIASES [\<lparr>kunta = CStr (ascii ''Peders'' @ [246] @ ascii ''re''), vakiluku = CInt 11\<rparr>]
     [CStr (ascii ''Peders'' @ [246] @ ascii ''ren kunta'')] =
   [(CStr (ascii ''Peders'' @ [246] @ ascii ''ren kunta''), CNaN)]"
  by (simp add: join_population_def merge_left_def matches_def key_eval_defs)

text \<open>
  A boundary whose population row exists but holds \<open>NaN\<close> is reported among the
  missing municipalities, although it matched (an instance of C3).
\<close>

lemma nan_population_reported:
  "matches (vak2 ALIASES [\<lparr>kunta = CStr (ascii ''Espoo''), vakiluku = CNaN\<rparr>])
     (geo_key (CStr (ascii ''Espoo''))) = [CNaN] \<and>
   puuttuvat id (join_population id ALIASES [\<lparr>kunta = CStr (ascii ''Espoo''), vakiluku = CNaN\<rparr>]
     [CStr (ascii ''Espoo'')]) = [CStr (ascii ''Espoo'')]"
  by (simp add: join_population_def merge_left_def matches_def puuttuvat_def key_eval_defs)

text \<open>
  C17: the empty key comes exactly from a name that is not a string (\<open>NaN\<close>, a
  number) or is blank (whitespace only, \<open>str.isspace\<close>); and a boundary with such
  a name receives the population of every population row whose name is also missing
  or blank, since the alias table does not map the empty key.
\<close>

theorem empty_key_join:
  "(normalize c = [] \<longleftrightarrow> (\<forall>s. c \<noteq> CStr s) \<or> (\<exists>s. c = CStr s \<and> list_all is_space s)) \<and>
   (normalize (name b) = [] \<longrightarrow> r \<in> set rows \<longrightarrow> normalize (kunta r) = [] \<longrightarrow>
      (b, vakiluku r) \<in> set (join_population name ALIASES rows [b]))"
proof
  show "normalize c = [] \<longleftrightarrow> (\<forall>s. c \<noteq> CStr s) \<or> (\<exists>s. c = CStr s \<and> list_all is_space s)"
  proof (cases c)
    case (CStr s)
    then show ?thesis by (simp add: normalize_str_def scandi_fold_map casefold_def py_strip_Nil_iff list_all_iff)
  qed simp_all
next
  show "normalize (name b) = [] \<longrightarrow> r \<in> set rows \<longrightarrow> normalize (kunta r) = [] \<longrightarrow>
      (b, vakiluku r) \<in> set (join_population name ALIASES rows [b])"
  proof (intro impI)
    assume b: "normalize (name b) = []" and r: "r \<in> set rows" and k: "normalize (kunta r) = []"
    have "csv_key ALIASES (kunta r) = []" using k by (simp add: csv_key_def series_replace_def ALIASES_def)
    then have v: "vakiluku r \<in> set (matches (vak2 ALIASES rows) (geo_key (name b)))"
      using r b by (force simp: matches_def vak2_def geo_key_def)
    then have "join_population name ALIASES rows [b] = map (\<lambda>v. (b, v)) (matches (vak2 ALIASES rows) (geo_key (name b)))"
      by (cases "matches (vak2 ALIASES rows) (geo_key (name b))") (simp_all add: join_population_def merge_left_def)
    with v show "(b, vakiluku r) \<in> set (join_population name ALIASES rows [b])" by auto
  qed
qed

text \<open>
  An instance of C17: a nameless boundary and a population row without a name (for
  instance a totals row) are joined.
\<close>

lemma missing_names_join:
  "join_population id ALIASES [\<lparr>kunta = CNaN, vakiluku = CInt 5500000\<rparr>] [CNaN, CInt 91] =
   [(CNaN, CInt 5500000), (CInt 91, CInt 5500000)]"
  by (simp add: join_population_def merge_left_def matches_def key_eval_defs)

text \<open>
  The normaliser on the examples of the design: \<open>Peders(o-umlaut)re\<close>,
  \<open>peders(o-umlaut)re\<close> and \<open>PEDERSORE\<close> give one key, and \<open>  Foo   Bar \<close> the key of
  \<open>Foo Bar\<close>.
\<close>

theorem normalize_spec_examples:
  "normalize (CStr (ascii ''Peders'' @ [246] @ ascii ''re'')) = ascii ''pedersore'' \<and>
   normalize (CStr (ascii ''peders'' @ [246] @ ascii ''re'')) = ascii ''pedersore'' \<and>
   normalize (CStr (ascii ''PEDERSORE'')) = ascii ''pedersore'' \<and>
   normalize (CStr (ascii ''  Foo   Bar '')) = normalize (CStr (ascii ''Foo Bar''))"
  by (simp add: key_eval_defs)

text \<open>
  A name in decomposed form, \<open>o\<close> followed by the combining diaeresis U+0308 (as
  macOS file names and some exports write it), keeps the combining mark in its key,
  so it meets neither the key of the precomposed spelling nor the ASCII one.
\<close>

theorem normalize_decomposed_key:
  "normalize (CStr (ascii ''Peders'' @ [111, 776] @ ascii ''re'')) = ascii ''peders'' @ [111, 776] @ ascii ''re'' \<and>
   normalize (CStr (ascii ''Peders'' @ [246] @ ascii ''re'')) = ascii ''pedersore''"
  by (simp add: key_eval_defs)

section \<open>The script end to end\<close>

text \<open>
  The end-to-end scenario of the design: boundaries Helsinki (a square of 1 km2)
  and Espoo (a rectangle of 2 km2) in EPSG:3067 coordinates, one population row
  \<open>HELSINKI\<close> 100, a geometry library whose representative point is the first vertex.
  The script keeps both boundaries in order with areas 1 and 2, gives Helsinki 100 and
  Espoo no population, reports Espoo as missing, and saves the map with both
  boundaries and a marker with its popup for each, latitude first.
\<close>

lemma run_spec_scenario:
  "run demo_lib [ascii ''NAMEFIN'', ascii ''geometry''] [helsinki, espoo]
     vak_table =
   ([used_col_msg (ascii ''NAMEFIN''), report_header, ascii '' - Espoo'', ok_msg],
    Inr \<lparr>merged = [(\<lparr>mfeat = helsinki, mala = 1\<rparr>, CInt 100), (\<lparr>mfeat = espoo, mala = 2\<rparr>, CNaN)],
         saved = (ascii ''suomen_kunnat.html'',
           \<lparr>location = (129 / 2, 26), zoom_start = 5,
            children = [GeoJsonLayer (ascii ''Kuntarajat'') [fgeom helsinki, fgeom espoo],
                        Marker (6672000, 385000) (ascii ''<b>Helsinki</b><br>Pinta-ala: 1.0 km'' @ [178] @ ascii ''<br>V'' @ [228] @ ascii ''kiluku: 100'') 320 (Icon (ascii ''blue'') (ascii ''info-sign'')),
                        Marker (6675000, 370000) (ascii ''<b>Espoo</b><br>Pinta-ala: 2.0 km'' @ [178] @ ascii ''<br>V'' @ [228] @ ascii ''kiluku: '' @ [8211]) 320 (Icon (ascii ''blue'') (ascii ''info-sign'')),
                        LayerControl]\<rparr>)\<rparr>)"
  by (simp add: run_eval_defs scenario_defs)

theorem run_merged_rows_witness:
  "read_attr_rows vak_table =
     Inr [\<lparr>kunta = CStr (ascii ''HELSINKI''), vakiluku = CInt 100\<rparr>] \<and>
   distinct (map fst (vak2 ALIASES [\<lparr>kunta = CStr (ascii ''HELSINKI''), vakiluku = CInt 100\<rparr>])) \<and>
   (\<exists>ps out. run demo_lib [ascii ''NAMEFIN''] [helsinki]
       vak_table = (ps, Inr out) \<and>
     map fst (merged out) = gdf_rows demo_lib [helsinki] \<and> length (popups out) = 1)"
proof -
  let ?t = vak_table
  let ?rows = "[\<lparr>kunta = CStr (ascii ''HELSINKI''), vakiluku = CInt 100\<rparr>]"
  have r: "read_attr_rows ?t = Inr ?rows" by (simp add: read_attr_rows_def df_column_def scenario_defs KUNTA_def VAKILUKU_def)
  have d: "distinct (map fst (vak2 ALIASES ?rows))" by (simp add: vak2_def)
  obtain ps out where o: "run demo_lib [ascii ''NAMEFIN''] [helsinki] ?t = (ps, Inr out)"
    by (simp add: run_eval_defs scenario_defs)
  from run_merged_rows [OF r d o] r d o show ?thesis by auto
qed

theorem run_map_witness:
  "\<exists>ps out. run demo_lib [ascii ''NAMEFIN''] [helsinki, espoo] vak_table = (ps, Inr out) \<and>
     (\<exists>col. fst (saved out) = OUTPUT \<and> last ps = ascii ''OK '' @ [8594, 32] @ fst (saved out) \<and>
       location (snd (saved out)) = (129 / 2, 26) \<and> zoom_start (snd (saved out)) = 5 \<and>
       children (snd (saved out)) =
         GeoJsonLayer (ascii ''Kuntarajat'') (map (\<lambda>rv. fgeom (mfeat (fst rv))) (merged out)) #
         map2 (\<lambda>rv p. Marker (snd (representative_point demo_lib (fgeom (mfeat (fst rv)))),
                             fst (representative_point demo_lib (fgeom (mfeat (fst rv))))) p 320
                       (Icon (ascii ''blue'') (ascii ''info-sign''))) (merged out) (popups out) @
         [LayerControl] \<and>
       map (marker_popup col) (merged out) = map Inr (popups out))"
proof -
  obtain ps out where o: "run demo_lib [ascii ''NAMEFIN''] [helsinki, espoo] vak_table = (ps, Inr out)"
    by (simp add: run_eval_defs scenario_defs)
  from run_map [OF o] o show ?thesis by blast
qed

text \<open>
  A population table whose name column is called \<open>kunta\<close> makes the script raise
  \<open>KeyError\<close> for \<open>Kunta\<close>; a boundary file with a \<open>Vakiluku\<close> property makes it
  raise \<open>KeyError\<close> for that column at line 64.
\<close>

theorem run_key_error_witness:
  "run demo_lib [ascii ''NAMEFIN''] [helsinki] \<lparr>tcols = [ascii ''kunta'', VAKILUKU], trows = []\<rparr> =
     ([used_col_msg (ascii ''NAMEFIN'')], Inl (KeyError KUNTA)) \<and>
   run demo_lib [ascii ''NAMEFIN'', VAKILUKU] [helsinki] vak_table =
     ([used_col_msg (ascii ''NAMEFIN'')], Inl (KeyError VAKILUKU))"
proof -
  have "resolve_name_col [ascii ''NAMEFIN''] = Inr (ascii ''NAMEFIN'') \<and>
        find (\<lambda>c. c \<notin> set [ascii ''kunta'', VAKILUKU]) [KUNTA, VAKILUKU] = Some KUNTA"
    by (simp add: resolve_name_col_def KUNTA_def VAKILUKU_def)
  then have a: "run demo_lib [ascii ''NAMEFIN''] [helsinki] \<lparr>tcols = [ascii ''kunta'', VAKILUKU], trows = []\<rparr> =
     ([used_col_msg (ascii ''NAMEFIN'')], Inl (KeyError KUNTA))"
    using run_key_error_iff [of demo_lib "[ascii ''NAMEFIN'']" "[helsinki]"
        "\<lparr>tcols = [ascii ''kunta'', VAKILUKU], trows = []\<rparr>" "[used_col_msg (ascii ''NAMEFIN'')]" KUNTA]
    by auto
  have "resolve_name_col [ascii ''NAMEFIN'', VAKILUKU] = Inr (ascii ''NAMEFIN'') \<and>
        find (\<lambda>c. c \<notin> set [KUNTA, VAKILUKU]) [KUNTA, VAKILUKU] = None"
    by (simp add: resolve_name_col_def KUNTA_def VAKILUKU_def)
  then have b: "run demo_lib [ascii ''NAMEFIN'', VAKILUKU] [helsinki] vak_table =
     ([used_col_msg (ascii ''NAMEFIN'')], Inl (KeyError VAKILUKU))"
    using run_key_error_iff [of demo_lib "[ascii ''NAMEFIN'', VAKILUKU]" "[helsinki]" vak_table
        "[used_col_msg (ascii ''NAMEFIN'')]" VAKILUKU]
    by (auto simp: vak_table_def)
  from a b show ?thesis ..
qed

text \<open>
  A population table read as text because a number is written \<open>1 234\<close>: the script
  prints the report, then raises at the popup of Helsinki, and writes no map.
\<close>

theorem run_popup_error_witness:
  "run demo_lib [ascii ''NAMEFIN''] [helsinki, espoo] text_table =
     ([used_col_msg (ascii ''NAMEFIN''), report_header, ascii '' - Espoo''], Inl (IntValueError (CStr (ascii ''1 234'')))) \<and>
   (\<exists>col rows rv. resolve_name_col [ascii ''NAMEFIN''] = Inr col \<and> read_attr_rows text_table = Inr rows \<and>
      VAKILUKU \<notin> set [ascii ''NAMEFIN''] \<and>
      find (\<lambda>rv. vak_txt (snd rv) = None) (join_population (name_of col) ALIASES rows (gdf_rows demo_lib [helsinki, espoo])) = Some rv \<and>
      CStr (ascii ''1 234'') = snd rv \<and>
      [used_col_msg (ascii ''NAMEFIN''), report_header, ascii '' - Espoo''] =
        used_col_msg col # report (puuttuvat (name_of col) (join_population (name_of col) ALIASES rows (gdf_rows demo_lib [helsinki, espoo]))))"
proof -
  have r: "run demo_lib [ascii ''NAMEFIN''] [helsinki, espoo] text_table =
     ([used_col_msg (ascii ''NAMEFIN''), report_header, ascii '' - Espoo''], Inl (IntValueError (CStr (ascii ''1 234''))))"
    by (simp add: run_eval_defs scenario_defs)
  with run_popup_error_iff show ?thesis by blast
qed

text \<open>
  The machine on the design's scenario: the run from the start ends, and it prints the
  column message, the report of Espoo and the success line, and has written the map.
\<close>

theorem script_refines_run_witness:
  "\<exists>s. (script_step demo_lib)\<^sup>*\<^sup>* (init_state demo_files) s \<and> final s \<and>
     stdout s = [used_col_msg (ascii ''NAMEFIN''), report_header, ascii '' - Espoo'', ok_msg] \<and>
     html_files (files s) OUTPUT \<noteq> None"
proof -
  have g: "geo_files demo_files GEOJSON = Some ([ascii ''NAMEFIN'', ascii ''geometry''], [helsinki, espoo])"
    and c: "csv_files demo_files CSV = Some vak_table" by (simp_all add: demo_files_def)
  from script_run_end [OF g c, of demo_lib] obtain s where
    s: "(script_step demo_lib)\<^sup>*\<^sup>* (init_state demo_files) s" "final s" by blast
  from script_refines_run [OF g c s] have
    "observe s = run demo_lib [ascii ''NAMEFIN'', ascii ''geometry''] [helsinki, espoo] vak_table \<and>
     files s = written demo_files (snd (run demo_lib [ascii ''NAMEFIN'', ascii ''geometry''] [helsinki, espoo] vak_table))" .
  then have "stdout s = [used_col_msg (ascii ''NAMEFIN''), report_header, ascii '' - Espoo'', ok_msg] \<and>
     html_files (files s) OUTPUT \<noteq> None"
    by (simp add: observe_def written_def run_eval_defs scenario_defs)
  with s show ?thesis by blast
qed

text \<open>
  Without the population file the script prints the column message and raises for the
  file \<open>vakiluku.csv\<close>; the files are left as they were.
\<close>

theorem script_missing_file_witness:
  "\<exists>s. (script_step demo_lib)\<^sup>*\<^sup>* (init_state no_csv_files) s \<and> final s \<and>
     geo_files no_csv_files GEOJSON = Some ([ascii ''NAMEFIN'', ascii ''geometry''], [helsinki, espoo]) \<and>
     csv_files no_csv_files CSV = None \<and>
     observe s = ([used_col_msg (ascii ''NAMEFIN'')], Inl (NoSuchFile CSV))"
proof -
  have g: "geo_files no_csv_files GEOJSON = Some ([ascii ''NAMEFIN'', ascii ''geometry''], [helsinki, espoo])"
    and c: "csv_files no_csv_files CSV = None" by (simp_all add: no_csv_files_def demo_files_def)
  from script_missing_end(2) [OF g c, of demo_lib] obtain s where
    s: "(script_step demo_lib)\<^sup>*\<^sup>* (init_state no_csv_files) s" "final s" by blast
  from script_missing_file [OF s, of "[ascii ''NAMEFIN'', ascii ''geometry'']" "[helsinki, espoo]"] g c
  have "observe s = ([used_col_msg (ascii ''NAMEFIN'')], Inl (NoSuchFile CSV))"
    by (simp add: resolve_name_col_def)
  with s g c show ?thesis by blast
qed

theorem script_files_inv_witness:
  "\<exists>s. (script_step demo_lib)\<^sup>*\<^sup>* (init_state no_csv_files) s \<and> pc s = Raised (NoSuchFile CSV) \<and>
     files s = no_csv_files"
proof -
  have g: "geo_files no_csv_files GEOJSON = Some ([ascii ''NAMEFIN'', ascii ''geometry''], [helsinki, espoo])"
    and c: "csv_files no_csv_files CSV = None" by (simp_all add: no_csv_files_def demo_files_def)
  from script_missing_end(2) [OF g c, of demo_lib] obtain s where
    s: "(script_step demo_lib)\<^sup>*\<^sup>* (init_state no_csv_files) s"
    "observe s = ([used_col_msg (ascii ''NAMEFIN'')], Inl (NoSuchFile CSV))"
    by (auto simp: resolve_name_col_def)
  then have p: "pc s = Raised (NoSuchFile CSV)" by (auto simp: observe_def split: label.splits)
  with script_files_inv [OF s(1)] have "files s = no_csv_files" by simp
  with s p show ?thesis by blast
qed

text \<open>
  The design's scenario at the marker loop: the run from the start reaches the loop over
  the two merged rows, and there the map holds the boundary layer and the markers of the
  rows visited.
\<close>

theorem markers_inv_witness:
  "\<exists>s. (script_step demo_lib)\<^sup>*\<^sup>* (init_state demo_files) s \<and> pc s = Markers \<and> length (merged_gdf s) = 2 \<and>
     (\<exists>vis. vis @ todo s = zip (merged_gdf s) (map (\<lambda>rv. representative_point demo_lib (row_geom rv)) (merged_gdf s)) \<and>
       fmap s = new_map\<lparr>children := GeoJsonLayer (ascii ''Kuntarajat'') (map row_geom (merged_gdf s)) #
                  map (\<lambda>(rv, pt). marker pt (projr (marker_popup (name_col s) rv))) vis\<rparr>)"
proof -
  have g: "geo_files demo_files GEOJSON = Some ([ascii ''NAMEFIN'', ascii ''geometry''], [helsinki, espoo])"
    and c: "csv_files demo_files CSV = Some vak_table" by (simp_all add: demo_files_def)
  have col: "resolve_name_col [ascii ''NAMEFIN'', ascii ''geometry''] = Inr (ascii ''NAMEFIN'')"
    by (simp add: resolve_name_col_def)
  have rows: "read_attr_rows vak_table = Inr [\<lparr>kunta = CStr (ascii ''HELSINKI''), vakiluku = CInt 100\<rparr>]"
    by (simp add: read_attr_rows_def df_column_def scenario_defs KUNTA_def VAKILUKU_def)
  have v: "VAKILUKU \<notin> set [ascii ''NAMEFIN'', ascii ''geometry'']" by (simp add: VAKILUKU_def)
  from start_to_markers [OF g c col rows v, of demo_lib] obtain s where
    s: "(script_step demo_lib)\<^sup>*\<^sup>* (init_state demo_files) s" "pc s = Markers"
    "merged_gdf s = join_population (name_of (ascii ''NAMEFIN'')) ALIASES [\<lparr>kunta = CStr (ascii ''HELSINKI''), vakiluku = CInt 100\<rparr>]
       (gdf_rows demo_lib [helsinki, espoo])" by blast
  have "length (merged_gdf s) = 2" by (simp add: s(3) run_eval_defs scenario_defs)
  with s markers_inv [OF s(1,2)] show ?thesis by blast
qed

text \<open>
  Espoo alone against the population table of Helsinki: no key matches, Espoo is
  reported missing, and its popup shows the en dash.
\<close>

theorem run_no_match_witness:
  "resolve_name_col [ascii ''NAMEFIN''] = Inr (ascii ''NAMEFIN'') \<and>
   read_attr_rows vak_table = Inr [\<lparr>kunta = CStr (ascii ''HELSINKI''), vakiluku = CInt 100\<rparr>] \<and>
   VAKILUKU \<notin> set [ascii ''NAMEFIN''] \<and>
   (\<exists>m. run demo_lib [ascii ''NAMEFIN''] [espoo] vak_table =
      ([used_col_msg (ascii ''NAMEFIN''), report_header, ascii '' - Espoo'', ok_msg],
       Inr \<lparr>merged = map (\<lambda>r. (r, CNaN)) (gdf_rows demo_lib [espoo]), saved = (OUTPUT, m)\<rparr>) \<and>
    map_popups m = [ascii ''<b>Espoo</b><br>Pinta-ala: 2.0 km'' @ [178] @ ascii ''<br>V'' @ [228] @ ascii ''kiluku: '' @ [8211]])"
proof -
  have col: "resolve_name_col [ascii ''NAMEFIN''] = Inr (ascii ''NAMEFIN'')" by (simp add: resolve_name_col_def)
  have rows: "read_attr_rows vak_table = Inr [\<lparr>kunta = CStr (ascii ''HELSINKI''), vakiluku = CInt 100\<rparr>]"
    by (simp add: read_attr_rows_def df_column_def scenario_defs KUNTA_def VAKILUKU_def)
  have v: "VAKILUKU \<notin> set [ascii ''NAMEFIN'']" by (simp add: VAKILUKU_def)
  have k: "\<forall>r \<in> set (gdf_rows demo_lib [espoo]). geo_key (name_of (ascii ''NAMEFIN'') r)
             \<notin> fst ` set (vak2 ALIASES [\<lparr>kunta = CStr (ascii ''HELSINKI''), vakiluku = CInt 100\<rparr>])"
    by (simp add: run_eval_defs scenario_defs)
  from run_no_match [OF col rows v k] col rows v show ?thesis
    by (simp add: run_eval_defs scenario_defs report_line_def)
qed

theorem alias_key_unmatched_witness:
  "normalize (id (CStr (ascii ''Peders'' @ [246] @ ascii ''ren kunta''))) \<in> dom ALIASES \<and>
   join_population id ALIASES [\<lparr>kunta = CStr (ascii ''Peders'' @ [246] @ ascii ''re''), vakiluku = CInt 11\<rparr>]
     [CStr (ascii ''Peders'' @ [246] @ ascii ''ren kunta'')] =
   [(CStr (ascii ''Peders'' @ [246] @ ascii ''ren kunta''), CNaN)]"
proof -
  have h: "normalize (id (CStr (ascii ''Peders'' @ [246] @ ascii ''ren kunta''))) \<in> dom ALIASES"
    by (simp add: key_eval_defs)
  from h alias_key_unmatched [of id, OF h] show ?thesis by blast
qed

text \<open>A population row whose name is blank is joined to a boundary without a name.\<close>

theorem empty_key_join_witness:
  "normalize (id CNaN) = [] \<and> \<lparr>kunta = CStr (ascii ''  ''), vakiluku = CInt 5500000\<rparr> \<in> set [\<lparr>kunta = CStr (ascii ''  ''), vakiluku = CInt 5500000\<rparr>] \<and>
   normalize (kunta \<lparr>kunta = CStr (ascii ''  ''), vakiluku = CInt 5500000\<rparr>) = [] \<and>
   (CNaN, CInt 5500000) \<in> set (join_population id ALIASES [\<lparr>kunta = CStr (ascii ''  ''), vakiluku = CInt 5500000\<rparr>] [CNaN])"
proof -
  have a: "normalize (id CNaN) = []" by simp
  have b: "\<lparr>kunta = CStr (ascii ''  ''), vakiluku = CInt 5500000\<rparr> \<in> set [\<lparr>kunta = CStr (ascii ''  ''), vakiluku = CInt 5500000\<rparr>]"
    by simp
  have c: "normalize (kunta \<lparr>kunta = CStr (ascii ''  ''), vakiluku = CInt 5500000\<rparr>) = []"
    by (simp add: key_eval_defs)
  have "(CNaN, vakiluku \<lparr>kunta = CStr (ascii ''  ''), vakiluku = CInt 5500000\<rparr>) \<in>
        set (join_population id ALIASES [\<lparr>kunta = CStr (ascii ''  ''), vakiluku = CInt 5500000\<rparr>] [CNaN])"
    using empty_key_join [of _ id CNaN] a b c by blast
  with a b c show ?thesis by simp
qed

text \<open>On the design's scenario every merged row carries its metric area and its WGS84 geometry.\<close>

theorem run_area_metric_witness:
  "\<exists>ps out. run demo_lib [ascii ''NAMEFIN''] [helsinki, espoo] vak_table = (ps, Inr out) \<and>
     (\<forall>(r, v) \<in> set (merged out). \<exists>f \<in> set [helsinki, espoo].
       mala r = area_km2 (geom_map (to_tm35fin demo_lib) (fgeom f)) \<and>
       fgeom (mfeat r) = geom_map (to_wgs84 demo_lib) (geom_map (to_tm35fin demo_lib) (fgeom f)) \<and>
       fprops (mfeat r) = fprops f)"
proof -
  obtain ps out where o: "run demo_lib [ascii ''NAMEFIN''] [helsinki, espoo] vak_table = (ps, Inr out)"
    by (simp add: run_eval_defs scenario_defs)
  from o run_area_metric [OF o] show ?thesis by blast
qed

text \<open>The grouping of C11 at -1234567: the text is \<open>-1,234,567\<close>.\<close>

theorem fmt_comma_groups_witness:
  "fmt_comma (-1234567) = ascii ''-1,234,567'' \<and>
   (\<exists>g. fmt_comma (-1234567) = [45] @ rev g \<and>
     filter (\<lambda>c. c \<noteq> 44) g = rev (dec_digits 1234567) \<and>
     (\<forall>i < length g. g ! i = 44 \<longleftrightarrow> i mod 4 = 3) \<and> last g \<noteq> 44)"
proof
  show "fmt_comma (-1234567) = ascii ''-1,234,567''"
    by (simp add: fmt_comma_def dec_digits.simps)
  show "\<exists>g. fmt_comma (-1234567) = [45] @ rev g \<and>
     filter (\<lambda>c. c \<noteq> 44) g = rev (dec_digits 1234567) \<and>
     (\<forall>i < length g. g ! i = 44 \<longleftrightarrow> i mod 4 = 3) \<and> last g \<noteq> 44"
    using fmt_comma_groups [of "-1234567"] by simp
qed

end
